theory Spec2Isabelle
  imports Complex_Main "HOL-Library.Sublist" "HOL-Library.Multiset" "HOL-Library.Log_Nat"
    "HOL-Library.Product_Lexorder"
begin

section \<open>JavaScript values used by the program\<close>

text \<open>
  Strings are lists of characters, one \<^typ>\<open>char\<close> per code unit; the model covers text
  in the 8-bit range. A number is a rational, one of the two infinities, or \<open>NaN\<close>;
  negative zero is not told from zero (the comparisons, the arithmetic and the printing
  of the program give the same for both). The result of
  an arithmetic operation is the exact result rounded to a double: the rounding is the
  parameter \<open>fl\<close> of the operations, and \<open>double\<close> below is its definition.
\<close>

datatype jsnum = Num rat | PInf | NInf | NaN

fun isNaN :: "jsnum \<Rightarrow> bool" where
  "isNaN NaN = True"
| "isNaN _ = False"

text \<open>\<open>x * 1000\<close> and \<open>x / 1000\<close>, the only products and quotients the program forms.\<close>

fun js_mul1000 :: "(rat \<Rightarrow> jsnum) \<Rightarrow> jsnum \<Rightarrow> jsnum" where
  "js_mul1000 fl (Num a) = fl (a * 1000)"
| "js_mul1000 fl x = x"

fun js_div1000 :: "(rat \<Rightarrow> jsnum) \<Rightarrow> jsnum \<Rightarrow> jsnum" where
  "js_div1000 fl (Num a) = fl (a / 1000)"
| "js_div1000 fl x = x"

text \<open>\<open>x - y\<close>: the difference of two infinities of one sign is \<open>NaN\<close>.\<close>

fun js_sub :: "(rat \<Rightarrow> jsnum) \<Rightarrow> jsnum \<Rightarrow> jsnum \<Rightarrow> jsnum" where
  "js_sub fl (Num a) (Num b) = fl (a - b)"
| "js_sub fl NaN y = NaN"
| "js_sub fl x NaN = NaN"
| "js_sub fl PInf PInf = NaN"
| "js_sub fl NInf NInf = NaN"
| "js_sub fl PInf y = PInf"
| "js_sub fl NInf y = NInf"
| "js_sub fl (Num a) PInf = NInf"
| "js_sub fl (Num a) NInf = PInf"

text \<open>Comparisons with \<open>NaN\<close> are false.\<close>

fun js_ge0 :: "jsnum \<Rightarrow> bool" where
  "js_ge0 (Num a) = (a \<ge> 0)"
| "js_ge0 PInf = True"
| "js_ge0 _ = False"

fun js_lt0 :: "jsnum \<Rightarrow> bool" where
  "js_lt0 (Num a) = (a < 0)"
| "js_lt0 NInf = True"
| "js_lt0 _ = False"

fun js_gt0 :: "jsnum \<Rightarrow> bool" where
  "js_gt0 (Num a) = (a > 0)"
| "js_gt0 PInf = True"
| "js_gt0 _ = False"

fun Math_floor :: "jsnum \<Rightarrow> jsnum" where
  "Math_floor (Num a) = Num (of_int \<lfloor>a\<rfloor>)"
| "Math_floor x = x"

fun Math_ceil :: "jsnum \<Rightarrow> jsnum" where
  "Math_ceil (Num a) = Num (of_int \<lceil>a\<rceil>)"
| "Math_ceil x = x"

subsection \<open>Rounding to a double\<close>

text \<open>
  Round to nearest, ties to even, with 53 significant bits, the smallest unit \<open>2^-1074\<close>,
  and overflow to an infinity from \<open>2^1024\<close> on. Powers are computed by squaring, on
  integer exponents.
\<close>

function ipow :: "rat \<Rightarrow> int \<Rightarrow> rat" where
  "ipow b e =
     (if e \<le> 0 then 1
      else if even e then ipow (b * b) (e div 2) else b * ipow (b * b) (e div 2))"
  by auto
termination
  by (relation "measure (\<lambda>be. nat (snd be))") auto

declare ipow.simps [simp del]

definition pow2 :: "int \<Rightarrow> rat" where
  "pow2 e = (if e \<ge> 0 then ipow 2 e else 1 / ipow 2 (- e))"

text \<open>For \<open>x > 0\<close>, the \<open>e\<close> with \<open>2^e \<le> x < 2^(e+1)\<close>.\<close>

definition ilog2 :: "rat \<Rightarrow> int" where
  "ilog2 x =
     (if 1 \<le> x then bitlen \<lfloor>x\<rfloor> - 1
      else (let k = bitlen \<lfloor>1 / x\<rfloor> - 1 in if x * ipow 2 k = 1 then - k else - k - 1))"

definition round_even :: "rat \<Rightarrow> int" where
  "round_even m =
     (let f = \<lfloor>m\<rfloor>; r = m - of_int f in
      if r < 1 / 2 then f else if 1 / 2 < r then f + 1 else if even f then f else f + 1)"

text \<open>The double nearest to \<open>a > 0\<close>, before overflow: the multiple of the unit at the
  exponent of \<open>a\<close> that a mantissa of 53 bits allows.\<close>

definition mantissa_exp :: "rat \<Rightarrow> int" where
  "mantissa_exp a = max (ilog2 a - 52) (- 1074)"

definition magnitude :: "rat \<Rightarrow> rat" where
  "magnitude a = of_int (round_even (a / pow2 (mantissa_exp a))) * pow2 (mantissa_exp a)"

definition double :: "rat \<Rightarrow> jsnum" where
  "double x =
     (if x = 0 then Num 0
      else
        (let v = magnitude \<bar>x\<bar>
         in if pow2 1024 \<le> v then (if x < 0 then NInf else PInf)
            else Num (if x < 0 then - v else v)))"

subsection \<open>String operations\<close>

text \<open>The white space and line terminators that \<open>String.prototype.trim\<close> removes.\<close>

definition is_space :: "char \<Rightarrow> bool" where
  "is_space c \<longleftrightarrow>
     c \<in> set [CHR 0x09, CHR 0x0A, CHR 0x0B, CHR 0x0C, CHR 0x0D, CHR 0x20, CHR 0xA0]"

definition trim :: "string \<Rightarrow> string" where
  "trim s = rev (dropWhile is_space (rev (dropWhile is_space s)))"

text \<open>\<open>s.split(c)\<close> for a one-character separator: every occurrence separates.\<close>

fun split_on :: "char \<Rightarrow> string \<Rightarrow> string list" where
  "split_on c [] = [[]]"
| "split_on c (x # xs) =
     (if x = c then [] # split_on c xs
      else (case split_on c xs of
              [] \<Rightarrow> [[x]]
            | p # ps \<Rightarrow> (x # p) # ps))"

text \<open>\<open>parts.join(sep)\<close>.\<close>

fun join :: "string \<Rightarrow> string list \<Rightarrow> string" where
  "join sep [] = []"
| "join sep [p] = p"
| "join sep (p # q # ps) = p @ sep @ join sep (q # ps)"

text \<open>\<open>s.replace(a, b)\<close> with a string pattern replaces the first occurrence only.\<close>

fun replace_first :: "char \<Rightarrow> char \<Rightarrow> string \<Rightarrow> string" where
  "replace_first a b [] = []"
| "replace_first a b (x # xs) = (if x = a then b # xs else x # replace_first a b xs)"

text \<open>
  \<open>s.toLowerCase()\<close> on the 8-bit range: the letters A to Z and the Latin-1 capitals
  (0xC0 to 0xDE, without the multiplication sign 0xD7) move up by 0x20.
\<close>

definition lower_char :: "char \<Rightarrow> char" where
  "lower_char c =
     (let n = (of_char c :: nat) in
      if (0x41 \<le> n \<and> n \<le> 0x5A) \<or> (0xC0 \<le> n \<and> n \<le> 0xDE \<and> n \<noteq> 0xD7)
      then char_of (n + 0x20) else c)"

definition toLowerCase :: "string \<Rightarrow> string" where
  "toLowerCase s = map lower_char s"

text \<open>\<open>s.includes(p)\<close>: \<open>p\<close> occurs in \<open>s\<close> as a contiguous block.\<close>

fun js_includes :: "string \<Rightarrow> string \<Rightarrow> bool" where
  "js_includes [] p = (p = [])"
| "js_includes (x # xs) p = (prefix p (x # xs) \<or> js_includes xs p)"

section \<open>The nickname parser (NicknameInput.tsx)\<close>

record NicknameWithLine =
  nickname :: string
  line :: "jsnum option"

text \<open>
  The destructuring \<open>const [nickname, lineStr] = line.split('/').map(part => part.trim())\<close>:
  the first two parts of the split. A line that contains a slash always has two.
\<close>

definition split_entry :: "string \<Rightarrow> (string \<times> string) option" where
  "split_entry s =
     (case map trim (split_on (CHR ''/'') s) of
        nick # lineStr # _ \<Rightarrow> Some (nick, lineStr)
      | _ \<Rightarrow> None)"

text \<open>
  The body of \<open>lines.forEach\<close>: the entries one line pushes. The number reader
  \<open>parseFloat\<close> is a parameter \<open>pf\<close>, the rounding of the product the parameter \<open>fl\<close>.
\<close>

definition parse_line ::
  "(string \<Rightarrow> jsnum) \<Rightarrow> (rat \<Rightarrow> jsnum) \<Rightarrow> string \<Rightarrow> NicknameWithLine list" where
  "parse_line pf fl s =
     (if CHR ''/'' \<in> set s then
        (case split_entry s of
           None \<Rightarrow> []
         | Some (nick, lineStr) \<Rightarrow>
             (let normalizedLineStr = replace_first (CHR '','') (CHR ''.'') lineStr;
                  lineValue = pf normalizedLineStr
              in if nick \<noteq> [] \<and> \<not> isNaN lineValue
                 then [\<lparr>nickname = nick, line = Some (js_mul1000 fl lineValue)\<rparr>]
                 else if nick \<noteq> [] then [\<lparr>nickname = nick, line = None\<rparr>]
                 else []))
      else [\<lparr>nickname = s, line = None\<rparr>])"

definition parseNicknameText ::
  "(string \<Rightarrow> jsnum) \<Rightarrow> (rat \<Rightarrow> jsnum) \<Rightarrow> string \<Rightarrow> NicknameWithLine list" where
  "parseNicknameText pf fl input =
     concat (map (parse_line pf fl)
       (filter (\<lambda>s. length s > 0) (map trim (split_on (CHR 0x0A) input))))"

text \<open>\<open>formatNicknamesAsText\<close>; the number printer \<open>String\<close> is a parameter \<open>ns\<close>.\<close>

definition format_entry ::
  "(jsnum \<Rightarrow> string) \<Rightarrow> (rat \<Rightarrow> jsnum) \<Rightarrow> NicknameWithLine \<Rightarrow> string" where
  "format_entry ns fl n =
     (case line n of
        Some l \<Rightarrow> nickname n @ ''/'' @ ns (js_div1000 fl l)
      | None \<Rightarrow> nickname n)"

definition formatNicknamesAsText ::
  "(jsnum \<Rightarrow> string) \<Rightarrow> (rat \<Rightarrow> jsnum) \<Rightarrow> NicknameWithLine list \<Rightarrow> string" where
  "formatNicknamesAsText ns fl nicknames = join [CHR 0x0A] (map (format_entry ns fl) nicknames)"

subsection \<open>The readers and the printer of numbers\<close>

text \<open>
  The claims are proved for any number reader and printer. The definitions of this
  subsection are \<open>parseFloat\<close>, \<open>Number\<close> on text and \<open>String\<close> on numbers; they serve
  where a statement is evaluated at a concrete text.
\<close>

definition is_digit :: "char \<Rightarrow> bool" where
  "is_digit c \<longleftrightarrow> 0x30 \<le> (of_char c :: int) \<and> (of_char c :: int) \<le> 0x39"

definition digits_value :: "string \<Rightarrow> int" where
  "digits_value ds = foldl (\<lambda>acc c. 10 * acc + ((of_char c :: int) - 0x30)) 0 ds"

text \<open>An exponent part at the head of the text (\<open>e\<close> or \<open>E\<close>, an optional sign, digits):
  its value and the text behind it; without one, 0 and the text itself.\<close>

definition scan_exponent :: "string \<Rightarrow> int \<times> string" where
  "scan_exponent r =
     (case r of
        [] \<Rightarrow> (0, r)
      | c # r1 \<Rightarrow>
          if c = CHR ''e'' \<or> c = CHR ''E'' then
            (let r2 = (case r1 of
                         [] \<Rightarrow> []
                       | d # t \<Rightarrow> if d = CHR ''-'' \<or> d = CHR ''+'' then t else r1);
                 ed = takeWhile is_digit r2
             in if ed = [] then (0, r)
                else if take 1 r1 = ''-'' then (- digits_value ed, dropWhile is_digit r2)
                else (digits_value ed, dropWhile is_digit r2))
          else (0, r))"

definition scale10 :: "rat \<Rightarrow> int \<Rightarrow> rat" where
  "scale10 m e = (if e \<ge> 0 then m * ipow 10 e else m / ipow 10 (- e))"

text \<open>The longest unsigned numeral at the head of the text: the word \<open>Infinity\<close>, or
  digits, an optional point and fraction and an optional exponent, with a digit before or
  behind the point. The result is its exact value and the text behind it.\<close>

definition scan_unsigned :: "string \<Rightarrow> (jsnum \<times> string) option" where
  "scan_unsigned u =
     (if prefix ''Infinity'' u then Some (PInf, drop 8 u)
      else
        (let ip = takeWhile is_digit u;
             r = dropWhile is_digit u;
             fp = (case r of [] \<Rightarrow> [] | c # r1 \<Rightarrow> if c = CHR ''.'' then takeWhile is_digit r1 else []);
             r2 = (case r of [] \<Rightarrow> [] | c # r1 \<Rightarrow> if c = CHR ''.'' then dropWhile is_digit r1 else r)
         in if ip = [] \<and> fp = [] then None
            else Some (Num (scale10 (of_int (digits_value (ip @ fp)))
                              (fst (scan_exponent r2) - int (length fp))),
                       snd (scan_exponent r2))))"

fun js_neg :: "jsnum \<Rightarrow> jsnum" where
  "js_neg (Num a) = Num (- a)"
| "js_neg PInf = NInf"
| "js_neg NInf = PInf"
| "js_neg NaN = NaN"

definition scan_signed :: "string \<Rightarrow> (jsnum \<times> string) option" where
  "scan_signed t =
     (case t of
        [] \<Rightarrow> None
      | c # r \<Rightarrow>
          if c = CHR ''-'' then map_option (\<lambda>vr. (js_neg (fst vr), snd vr)) (scan_unsigned r)
          else if c = CHR ''+'' then scan_unsigned r
          else scan_unsigned t)"

text \<open>The double of an exact value.\<close>

fun to_double :: "jsnum \<Rightarrow> jsnum" where
  "to_double (Num a) = double a"
| "to_double x = x"

text \<open>\<open>parseFloat(s)\<close>: leading white space is skipped and the longest numeral at the head
  is read; without one the result is \<open>NaN\<close>.\<close>

definition parseFloat :: "string \<Rightarrow> jsnum" where
  "parseFloat s =
     (case scan_signed (dropWhile is_space s) of
        None \<Rightarrow> NaN
      | Some vr \<Rightarrow> to_double (fst vr))"

text \<open>A numeral with a prefix: \<open>0x\<close>, \<open>0o\<close> or \<open>0b\<close> (in either case) and digits of that
  base up to the end of the text.\<close>

definition digit_of_base :: "int \<Rightarrow> char \<Rightarrow> int option" where
  "digit_of_base b c =
     (let n = (of_char c :: int);
          d = (if 0x30 \<le> n \<and> n \<le> 0x39 then n - 0x30
               else if 0x61 \<le> n \<and> n \<le> 0x66 then n - 0x61 + 10
               else if 0x41 \<le> n \<and> n \<le> 0x46 then n - 0x41 + 10
               else 16)
      in if d < b then Some d else None)"

definition prefixed_numeral :: "string \<Rightarrow> int option" where
  "prefixed_numeral t =
     (case t of
        z # p # ds \<Rightarrow>
          (let b = (if p = CHR ''x'' \<or> p = CHR ''X'' then 16
                    else if p = CHR ''o'' \<or> p = CHR ''O'' then 8
                    else if p = CHR ''b'' \<or> p = CHR ''B'' then 2
                    else (0::int))
           in if z = CHR ''0'' \<and> b \<noteq> 0 \<and> ds \<noteq> [] \<and> list_all (\<lambda>c. digit_of_base b c \<noteq> None) ds
              then Some (foldl (\<lambda>acc c. b * acc + (case digit_of_base b c of None \<Rightarrow> 0 | Some d \<Rightarrow> d)) 0 ds)
              else None)
      | _ \<Rightarrow> None)"

text \<open>\<open>Number(s)\<close>: the trimmed text is empty (giving 0) or is a numeral as a whole;
  anything else gives \<open>NaN\<close>.\<close>

definition Number_string :: "string \<Rightarrow> jsnum" where
  "Number_string s =
     (let t = trim s in
      if t = [] then Num 0
      else (case prefixed_numeral t of
              Some n \<Rightarrow> double (of_int n)
            | None \<Rightarrow>
                (case scan_signed t of
                   None \<Rightarrow> NaN
                 | Some vr \<Rightarrow> if snd vr = [] then to_double (fst vr) else NaN)))"

text \<open>
  \<open>String(x)\<close> for a number. For a finite \<open>x\<close> other than 0 the digits are the shortest
  decimal numeral \<open>s\<close> (of \<open>k\<close> digits, at most 17) which, placed so that \<open>x\<close> lies between
  \<open>10^(n-1)\<close> and \<open>10^n\<close>, is read back as \<open>x\<close>; they are laid out without exponent when
  \<open>n\<close> is between \<open>-5\<close> and \<open>21\<close>, and with one otherwise.
\<close>

definition digit_char :: "int \<Rightarrow> char" where
  "digit_char d = char_of (0x30 + d)"

function digits_of :: "int \<Rightarrow> string" where
  "digits_of n = (if n < 10 then [digit_char n] else digits_of (n div 10) @ [digit_char (n mod 10)])"
  by auto
termination
  by (relation "measure nat") auto

declare digits_of.simps [simp del]

text \<open>For \<open>a > 0\<close>, the \<open>n\<close> with \<open>10^(n-1) \<le> a < 10^n\<close>.\<close>

definition position :: "rat \<Rightarrow> int" where
  "position a =
     (if 1 \<le> a then int (length (digits_of \<lfloor>a\<rfloor>))
      else (let m = int (length (digits_of \<lfloor>1 / a\<rfloor>))
            in if a * ipow 10 (m - 1) = 1 then 2 - m else 1 - m))"

text \<open>
  The numerals of \<open>k\<close> digits next to \<open>a\<close> on either side, the nearer one first (of two
  equally near the even one), each with its position: a numeral that has grown to
  \<open>10^k\<close> is \<open>10^(k-1)\<close> one position up.
\<close>

definition candidates :: "rat \<Rightarrow> int \<Rightarrow> int \<Rightarrow> (int \<times> int) list" where
  "candidates a n k =
     (let m = scale10 a (k - n);
          lo = \<lfloor>m\<rfloor>;
          near = round_even m;
          far = (if near = lo then lo + 1 else lo)
      in map (\<lambda>s. if ipow 10 k \<le> of_int s then (\<lfloor>ipow 10 (k - 1)\<rfloor>, n + 1) else (s, n))
           [near, far])"

definition reads_as :: "rat \<Rightarrow> int \<Rightarrow> int \<times> int \<Rightarrow> bool" where
  "reads_as a k sn \<longleftrightarrow> double (scale10 (of_int (fst sn)) (snd sn - k)) = Num a"

text \<open>The search for the shortest numeral, from \<open>k\<close> digits on; 17 digits always do.\<close>

fun shortest_digits :: "nat \<Rightarrow> int \<Rightarrow> rat \<Rightarrow> int \<Rightarrow> int \<times> int \<times> int" where
  "shortest_digits 0 k a n = (fst (hd (candidates a n k)), snd (hd (candidates a n k)), k)"
| "shortest_digits (Suc f) k a n =
     (case filter (reads_as a k) (candidates a n k) of
        sn # _ \<Rightarrow> (fst sn, snd sn, k)
      | [] \<Rightarrow> shortest_digits f (k + 1) a n)"

definition layout_digits :: "int \<times> int \<times> int \<Rightarrow> string" where
  "layout_digits snk =
     (let ds = digits_of (fst snk); n = fst (snd snk); k = snd (snd snk) in
      if k \<le> n \<and> n \<le> 21 then ds @ replicate (nat (n - k)) (CHR ''0'')
      else if 0 < n \<and> n \<le> 21 then take (nat n) ds @ ''.'' @ drop (nat n) ds
      else if - 6 < n \<and> n \<le> 0 then ''0.'' @ replicate (nat (- n)) (CHR ''0'') @ ds
      else
        (let ex = (if n - 1 < 0 then ''-'' else ''+'') @ digits_of \<bar>n - 1\<bar>
         in if k = 1 then ds @ ''e'' @ ex
            else take 1 ds @ ''.'' @ drop 1 ds @ ''e'' @ ex))"

definition String_number :: "jsnum \<Rightarrow> string" where
  "String_number x =
     (case x of
        NaN \<Rightarrow> ''NaN''
      | PInf \<Rightarrow> ''Infinity''
      | NInf \<Rightarrow> ''-Infinity''
      | Num q \<Rightarrow>
          if q = 0 then ''0''
          else (if q < 0 then ''-'' else []) @
               layout_digits (shortest_digits 16 1 \<bar>q\<bar> (position \<bar>q\<bar>)))"

section \<open>Workbooks and cells\<close>

text \<open>
  A cell as the sheet reader hands it over; \<open>Undefined\<close> is what indexing past the end of
  a row gives. A worksheet is its array-of-arrays reading
  (\<open>sheet_to_json\<close> with \<open>header: 1, defval: ''\<close>).
\<close>

datatype cell = Undefined | Str string | Number jsnum | Bool bool

type_synonym row = "cell list"
type_synonym sheet = "row list"

record WorkBook =
  SheetNames :: "string list"
  Sheets :: "string \<rightharpoonup> sheet"

datatype error = Error string

definition cell_at :: "row \<Rightarrow> nat \<Rightarrow> cell" where
  "cell_at r i = (if i < length r then r ! i else Undefined)"

fun truthy :: "cell \<Rightarrow> bool" where
  "truthy Undefined = False"
| "truthy (Str s) = (s \<noteq> [])"
| "truthy (Number (Num a)) = (a \<noteq> 0)"
| "truthy (Number PInf) = True"
| "truthy (Number NInf) = True"
| "truthy (Number NaN) = False"
| "truthy (Bool b) = b"

text \<open>\<open>String(v)\<close> and \<open>Number(v)\<close> on a cell; the conversions between numbers and text
  are the parameters \<open>ns\<close> and \<open>tn\<close>.\<close>

fun String_cell :: "(jsnum \<Rightarrow> string) \<Rightarrow> cell \<Rightarrow> string" where
  "String_cell ns Undefined = ''undefined''"
| "String_cell ns (Str s) = s"
| "String_cell ns (Number n) = ns n"
| "String_cell ns (Bool b) = (if b then ''true'' else ''false'')"

fun Number_cell :: "(string \<Rightarrow> jsnum) \<Rightarrow> cell \<Rightarrow> jsnum" where
  "Number_cell tn Undefined = NaN"
| "Number_cell tn (Str s) = tn s"
| "Number_cell tn (Number n) = n"
| "Number_cell tn (Bool b) = Num (if b then 1 else 0)"

definition book_new :: WorkBook where
  "book_new = \<lparr>SheetNames = [], Sheets = Map.empty\<rparr>"

definition book_append_sheet :: "WorkBook \<Rightarrow> sheet \<Rightarrow> string \<Rightarrow> WorkBook" where
  "book_append_sheet wb ws name =
     wb\<lparr>SheetNames := SheetNames wb @ [name], Sheets := (Sheets wb)(name \<mapsto> ws)\<rparr>"

text \<open>\<open>sheet_to_json\<close> of a missing worksheet is the empty array.\<close>

definition sheet_to_json :: "sheet option \<Rightarrow> sheet" where
  "sheet_to_json ws = (case ws of None \<Rightarrow> [] | Some rows \<Rightarrow> rows)"

section \<open>The classifier (filterWorkbookByNicknames)\<close>

definition targetSheetName :: string where
  "targetSheetName = ''Club Member Balance''"

definition columnK_of :: "(jsnum \<Rightarrow> string) \<Rightarrow> row \<Rightarrow> string" where
  "columnK_of ns r = (if truthy (cell_at r 10) then toLowerCase (String_cell ns (cell_at r 10)) else [])"

definition columnL_of :: "row \<Rightarrow> cell" where
  "columnL_of r = (if cell_at r 11 \<noteq> Undefined then cell_at r 11 else Number (Num 0))"

definition matchingNickname ::
  "(jsnum \<Rightarrow> string) \<Rightarrow> NicknameWithLine list \<Rightarrow> row \<Rightarrow> NicknameWithLine option" where
  "matchingNickname ns nicknames r =
     find (\<lambda>nicknameObj. js_includes (columnK_of ns r) (toLowerCase (nickname nicknameObj))) nicknames"

text \<open>\<open>a || b\<close> where \<open>a\<close> is the result of \<open>Map.get\<close>: a missing or empty name falls through.\<close>

definition or_else :: "string option \<Rightarrow> string \<Rightarrow> string" where
  "or_else a b = (case a of None \<Rightarrow> b | Some v \<Rightarrow> if v \<noteq> [] then v else b)"

definition realName_of ::
  "(jsnum \<Rightarrow> string) \<Rightarrow> (string \<rightharpoonup> string) \<Rightarrow> row \<Rightarrow> NicknameWithLine \<Rightarrow> string" where
  "realName_of ns nameMapping r m =
     or_else (nameMapping (toLowerCase (String_cell ns (cell_at r 10))))
       (or_else (nameMapping (toLowerCase (nickname m))) [])"

definition profitLoss_of ::
  "(string \<Rightarrow> jsnum) \<Rightarrow> (rat \<Rightarrow> jsnum) \<Rightarrow> row \<Rightarrow> NicknameWithLine \<Rightarrow> jsnum" where
  "profitLoss_of tn fl r m =
     (let profitLoss =
            (case line m of
               Some l \<Rightarrow> js_sub fl (Number_cell tn (columnL_of r)) l
             | None \<Rightarrow> Number_cell tn (columnL_of r))
      in if js_ge0 profitLoss then Math_floor profitLoss else Math_ceil profitLoss)"

text \<open>
  The two message templates. The emoji U+1F642 is two code units in the text of the
  program, 0xD83D and 0xDE42. Both are beyond the 8-bit characters: \<open>char_of\<close> keeps each
  as one character (its low byte), so that the messages have the length they have in
  the program. The letter U+00F8 is one character.
\<close>

definition message_of :: "(jsnum \<Rightarrow> string) \<Rightarrow> jsnum \<Rightarrow> string" where
  "message_of ns profitLoss =
     (if js_lt0 profitLoss
      then ''Hei'' @ [char_of (0xD83D :: int), char_of (0xDE42 :: int)] @ '' Saldo er '' @
           ns profitLoss @ '', mer info kommer''
      else ''Hei'' @ [char_of (0xD83D :: int), char_of (0xDE42 :: int)] @ '' Saldo er '' @
           ns profitLoss @ '', hva vil du gj'' @ [CHR 0xF8] @ ''re?'')"

definition rowData ::
  "(string \<Rightarrow> jsnum) \<Rightarrow> (jsnum \<Rightarrow> string) \<Rightarrow> (rat \<Rightarrow> jsnum) \<Rightarrow> (string \<rightharpoonup> string) \<Rightarrow> row \<Rightarrow> NicknameWithLine \<Rightarrow> row" where
  "rowData tn ns fl nameMapping r m =
     [cell_at r 10,
      Str (realName_of ns nameMapping r m),
      (case line m of Some l \<Rightarrow> Number l | None \<Rightarrow> Str []),
      columnL_of r,
      Str (if line m \<noteq> None then ''Yes'' else ''No''),
      Number (profitLoss_of tn fl r m),
      Str [], Str [], Str [], Str [], Str [],
      Str (message_of ns (profitLoss_of tn fl r m))]"

text \<open>The body of \<open>dataWithoutFirstThreeRows.forEach\<close>, on the pair
  \<open>(positiveData, negativeData)\<close>.\<close>

definition process_row ::
  "(string \<Rightarrow> jsnum) \<Rightarrow> (jsnum \<Rightarrow> string) \<Rightarrow> (rat \<Rightarrow> jsnum) \<Rightarrow> NicknameWithLine list \<Rightarrow> (string \<rightharpoonup> string) \<Rightarrow>
     row list \<times> row list \<Rightarrow> row \<Rightarrow> row list \<times> row list" where
  "process_row tn ns fl nicknames nameMapping acc r =
     (case matchingNickname ns nicknames r of
        None \<Rightarrow> acc
      | Some m \<Rightarrow>
          if js_ge0 (profitLoss_of tn fl r m)
          then (fst acc @ [rowData tn ns fl nameMapping r m], snd acc)
          else (fst acc, snd acc @ [rowData tn ns fl nameMapping r m]))"

text \<open>
  \<open>Array.prototype.sort\<close> with a comparison function. Where the comparison function is
  consistent on the elements, the language prescribes the result: the stable sort in which
  \<open>x\<close> goes behind \<open>y\<close> exactly when the comparison of \<open>x\<close> with \<open>y\<close> is positive;
  \<open>js_sort\<close> is that sort, by insertion. A comparison that yields \<open>NaN\<close> is taken as zero.
  Where the comparison yields \<open>NaN\<close> for some pair it is not consistent, and the language
  leaves the order to the engine: \<open>js_sort\<close> gives one of the possible orders then, and
  the statements use of it only that it permutes the elements.
\<close>

fun insert_cmp :: "('a \<Rightarrow> 'a \<Rightarrow> jsnum) \<Rightarrow> 'a \<Rightarrow> 'a list \<Rightarrow> 'a list" where
  "insert_cmp cmp x [] = [x]"
| "insert_cmp cmp x (y # ys) =
     (if js_gt0 (cmp x y) then y # insert_cmp cmp x ys else x # y # ys)"

definition js_sort :: "('a \<Rightarrow> 'a \<Rightarrow> jsnum) \<Rightarrow> 'a list \<Rightarrow> 'a list" where
  "js_sort cmp xs = foldr (insert_cmp cmp) xs []"

text \<open>The comparison \<open>(a, b) => b[5] - a[5]\<close>.\<close>

definition by_profitLoss ::
  "(string \<Rightarrow> jsnum) \<Rightarrow> (rat \<Rightarrow> jsnum) \<Rightarrow> row \<Rightarrow> row \<Rightarrow> jsnum" where
  "by_profitLoss tn fl a b = js_sub fl (Number_cell tn (cell_at b 5)) (Number_cell tn (cell_at a 5))"

definition headers :: row where
  "headers = map Str [''Nickname'', ''Name'', ''Line Amount'', ''Chips'', ''Has Line'',
     ''Profit/Loss'', ''Pm'', ''uttak sum'', ''ruller'', ''Claima chips'', ''satt opp'', ''Message'']"

definition transferTableHeaders :: row where
  "transferTableHeaders = map Str [''Avsender'', ''sum'', ''Mottaker'', ''bekreftet'', ''purra'']"

definition emptyTransferRows :: "row list" where
  "emptyTransferRows = replicate 10 [Str [], Str [], Str [], Str [], Str []]"

definition combinedData :: "row list \<Rightarrow> row list \<Rightarrow> row list" where
  "combinedData positiveData negativeData =
     [headers] @ positiveData @ [[], []] @ [headers] @ negativeData @
     [[], [], [], [], [], [], [], [], [], []] @
     [transferTableHeaders] @ emptyTransferRows @
     [[], []] @
     [transferTableHeaders] @ map (\<lambda>_. [Str [], Str [], Str [], Str [], Str []]) emptyTransferRows @
     [[], []] @
     [transferTableHeaders] @ map (\<lambda>_. [Str [], Str [], Str [], Str [], Str []]) emptyTransferRows"

text \<open>The two buckets after the scan, and after the two sorts.\<close>

definition scan ::
  "(string \<Rightarrow> jsnum) \<Rightarrow> (jsnum \<Rightarrow> string) \<Rightarrow> (rat \<Rightarrow> jsnum) \<Rightarrow> NicknameWithLine list \<Rightarrow> (string \<rightharpoonup> string) \<Rightarrow>
     sheet \<Rightarrow> row list \<times> row list" where
  "scan tn ns fl nicknames nameMapping jsonData =
     foldl (process_row tn ns fl nicknames nameMapping) ([], []) (drop 3 jsonData)"

definition positiveData ::
  "(string \<Rightarrow> jsnum) \<Rightarrow> (jsnum \<Rightarrow> string) \<Rightarrow> (rat \<Rightarrow> jsnum) \<Rightarrow> NicknameWithLine list \<Rightarrow> (string \<rightharpoonup> string) \<Rightarrow>
     sheet \<Rightarrow> row list" where
  "positiveData tn ns fl nicknames nameMapping jsonData =
     js_sort (by_profitLoss tn fl) (fst (scan tn ns fl nicknames nameMapping jsonData))"

definition negativeData ::
  "(string \<Rightarrow> jsnum) \<Rightarrow> (jsnum \<Rightarrow> string) \<Rightarrow> (rat \<Rightarrow> jsnum) \<Rightarrow> NicknameWithLine list \<Rightarrow> (string \<rightharpoonup> string) \<Rightarrow>
     sheet \<Rightarrow> row list" where
  "negativeData tn ns fl nicknames nameMapping jsonData =
     js_sort (by_profitLoss tn fl) (snd (scan tn ns fl nicknames nameMapping jsonData))"

definition sheet_not_found :: "string \<Rightarrow> string \<Rightarrow> error" where
  "sheet_not_found name place =
     Error (''Sheet '' @ [CHR 0x22] @ name @ [CHR 0x22] @ '' not found in the '' @ place @ ''.'')"

definition filterWorkbookByNicknames ::
  "(string \<Rightarrow> jsnum) \<Rightarrow> (jsnum \<Rightarrow> string) \<Rightarrow> (rat \<Rightarrow> jsnum) \<Rightarrow> WorkBook \<Rightarrow> NicknameWithLine list \<Rightarrow>
     (string \<rightharpoonup> string) \<Rightarrow> error + WorkBook" where
  "filterWorkbookByNicknames tn ns fl workbook nicknames nameMapping =
     (if targetSheetName \<notin> set (SheetNames workbook)
      then Inl (sheet_not_found targetSheetName ''uploaded file'')
      else
        let jsonData = sheet_to_json (Sheets workbook targetSheetName) in
        if length nicknames = 0
        then Inr (book_append_sheet book_new [] targetSheetName)
        else Inr (book_append_sheet book_new
               (combinedData (positiveData tn ns fl nicknames nameMapping jsonData)
                             (negativeData tn ns fl nicknames nameMapping jsonData))
               targetSheetName))"

section \<open>The name file (readNameFile)\<close>

text \<open>
  The keyed reading of a worksheet (\<open>sheet_to_json\<close> without options: one object per data
  row, keyed by the header row) is the parameter \<open>to_objects\<close>. The function is modelled
  from the workbook that \<open>readExcelFile\<close> resolves to.
\<close>

definition get_field :: "(string \<rightharpoonup> cell) \<Rightarrow> string \<Rightarrow> cell" where
  "get_field obj k = (case obj k of None \<Rightarrow> Undefined | Some v \<Rightarrow> v)"

definition cell_or :: "cell \<Rightarrow> cell \<Rightarrow> cell" where
  "cell_or a b = (if truthy a then a else b)"

definition add_name ::
  "(jsnum \<Rightarrow> string) \<Rightarrow> (string \<rightharpoonup> string) \<Rightarrow> (string \<rightharpoonup> cell) \<Rightarrow> (string \<rightharpoonup> string)" where
  "add_name ns nameMapping obj =
     (let nick = cell_or (get_field obj ''Nick'') (cell_or (get_field obj ''nick'') (get_field obj ''NICK''));
          name = cell_or (get_field obj ''Name'') (cell_or (get_field obj ''name'') (get_field obj ''NAME''))
      in if truthy nick \<and> truthy name
         then nameMapping(toLowerCase (String_cell ns nick) \<mapsto> String_cell ns name)
         else nameMapping)"

definition readNameFile ::
  "(jsnum \<Rightarrow> string) \<Rightarrow> (sheet option \<Rightarrow> (string \<rightharpoonup> cell) list) \<Rightarrow> WorkBook \<Rightarrow>
     error + (string \<rightharpoonup> string)" where
  "readNameFile ns to_objects workbook =
     (if ''Player overview'' \<notin> set (SheetNames workbook)
      then Inl (sheet_not_found ''Player overview'' ''name file'')
      else Inr (foldl (add_name ns) Map.empty (to_objects (Sheets workbook ''Player overview''))))"

text \<open>A keyed reading for grids whose header cells are distinct, non-blank strings.\<close>

definition keyed_rows :: "sheet option \<Rightarrow> (string \<rightharpoonup> cell) list" where
  "keyed_rows ws =
     (case sheet_to_json ws of
        [] \<Rightarrow> []
      | hdr # rows \<Rightarrow>
          map (\<lambda>r. map_of (filter (\<lambda>kv. snd kv \<noteq> Str []) (zip (map (String_cell String_number) hdr) r)))
            rows)"

section \<open>Column widths (downloadExcelFile)\<close>

text \<open>
  The auto-fit loop. After the styling loop every row has a cell in each of the sheet's
  columns; a cell the data does not fill has no value. \<open>eachCell\<close> with \<open>includeEmpty\<close>
  visits the cell of every row.
\<close>

text \<open>The rows that \<open>downloadExcelFile\<close> reads: the first sheet of the workbook it is
  given.\<close>

definition download_data :: "WorkBook \<Rightarrow> sheet" where
  "download_data workbook =
     sheet_to_json (case SheetNames workbook of
                      [] \<Rightarrow> None
                    | sheetName # _ \<Rightarrow> Sheets workbook sheetName)"

definition columnLength :: "(jsnum \<Rightarrow> string) \<Rightarrow> cell \<Rightarrow> nat" where
  "columnLength ns v = (if truthy v then length (String_cell ns v) else 10)"

definition maxLength :: "(jsnum \<Rightarrow> string) \<Rightarrow> cell list \<Rightarrow> nat" where
  "maxLength ns cells =
     foldl (\<lambda>m v. if columnLength ns v > m then columnLength ns v else m) 0 cells"

definition column_width :: "(jsnum \<Rightarrow> string) \<Rightarrow> cell list \<Rightarrow> nat" where
  "column_width ns cells = (if maxLength ns cells < 10 then 10 else maxLength ns cells + 2)"

definition column_cells :: "sheet \<Rightarrow> nat \<Rightarrow> cell list" where
  "column_cells data j = map (\<lambda>r. cell_at r j) data"

definition column_count :: "sheet \<Rightarrow> nat" where
  "column_count data = foldl max 0 (map (\<lambda>r. max (length r) 20) data)"

definition column_widths :: "(jsnum \<Rightarrow> string) \<Rightarrow> sheet \<Rightarrow> nat list" where
  "column_widths ns data =
     map (\<lambda>j. column_width ns (column_cells data j)) [0..<column_count data]"

section \<open>The classifier on a store\<close>

text \<open>
  To speak about what a call writes, the objects live in a store, a list indexed by
  address. A new object goes to the end; \<open>push\<close>, \<open>sort\<close> and \<open>book_append_sheet\<close> write
  to the address of the array or workbook they are called on. The objects written to after
  their creation (the new workbook and the two arrays) get an address; arrays that are
  built once and never changed are values. The sheet helpers of the library only read
  their arguments.
\<close>

datatype obj =
    OBook WorkBook
  | ORows "row list"
  | ONicknames "NicknameWithLine list"
  | OMapping "string \<rightharpoonup> string"

type_synonym store = "obj list"

definition load :: "nat \<Rightarrow> store \<Rightarrow> obj option" where
  "load a h = (if a < length h then Some (h ! a) else None)"

definition alloc :: "obj \<Rightarrow> store \<Rightarrow> nat \<times> store" where
  "alloc v h = (length h, h @ [v])"

definition push_at :: "nat \<Rightarrow> row \<Rightarrow> store \<Rightarrow> store" where
  "push_at a rd h = (case load a h of Some (ORows rs) \<Rightarrow> h[a := ORows (rs @ [rd])] | _ \<Rightarrow> h)"

definition sort_at ::
  "(string \<Rightarrow> jsnum) \<Rightarrow> (rat \<Rightarrow> jsnum) \<Rightarrow> nat \<Rightarrow> store \<Rightarrow> store" where
  "sort_at tn fl a h =
     (case load a h of Some (ORows rs) \<Rightarrow> h[a := ORows (js_sort (by_profitLoss tn fl) rs)] | _ \<Rightarrow> h)"

definition append_sheet_at :: "nat \<Rightarrow> sheet \<Rightarrow> string \<Rightarrow> store \<Rightarrow> store" where
  "append_sheet_at a ws name h =
     (case load a h of Some (OBook b) \<Rightarrow> h[a := OBook (book_append_sheet b ws name)] | _ \<Rightarrow> h)"

definition rows_at :: "nat \<Rightarrow> store \<Rightarrow> row list" where
  "rows_at a h = (case load a h of Some (ORows rs) \<Rightarrow> rs | _ \<Rightarrow> [])"

definition process_row_st ::
  "(string \<Rightarrow> jsnum) \<Rightarrow> (jsnum \<Rightarrow> string) \<Rightarrow> (rat \<Rightarrow> jsnum) \<Rightarrow> NicknameWithLine list \<Rightarrow> (string \<rightharpoonup> string) \<Rightarrow>
     nat \<Rightarrow> nat \<Rightarrow> store \<Rightarrow> row \<Rightarrow> store" where
  "process_row_st tn ns fl nicknames nameMapping positiveData_a negativeData_a h r =
     (case matchingNickname ns nicknames r of
        None \<Rightarrow> h
      | Some m \<Rightarrow>
          if js_ge0 (profitLoss_of tn fl r m)
          then push_at positiveData_a (rowData tn ns fl nameMapping r m) h
          else push_at negativeData_a (rowData tn ns fl nameMapping r m) h)"

text \<open>
  The call with its three arguments given by address. The result is the store after the
  call and either the error thrown or the address of the workbook returned. The last case
  covers arguments of the wrong kind, which the types of the source exclude.
\<close>

definition filterWorkbookByNicknames_st ::
  "(string \<Rightarrow> jsnum) \<Rightarrow> (jsnum \<Rightarrow> string) \<Rightarrow> (rat \<Rightarrow> jsnum) \<Rightarrow> nat \<Rightarrow> nat \<Rightarrow> nat \<Rightarrow> store \<Rightarrow> store \<times> (error + nat)" where
  "filterWorkbookByNicknames_st tn ns fl workbook_a nicknames_a nameMapping_a h =
     (let (newWorkbook, h1) = alloc (OBook book_new) h in
      case (load workbook_a h1, load nicknames_a h1, load nameMapping_a h1) of
        (Some (OBook workbook), Some (ONicknames nicknames), Some (OMapping nameMapping)) \<Rightarrow>
          if targetSheetName \<notin> set (SheetNames workbook)
          then (h1, Inl (sheet_not_found targetSheetName ''uploaded file''))
          else
            let jsonData = sheet_to_json (Sheets workbook targetSheetName) in
            if length nicknames = 0
            then (append_sheet_at newWorkbook [] targetSheetName h1, Inr newWorkbook)
            else
              let (positiveData_a, h2) = alloc (ORows []) h1;
                  (negativeData_a, h3) = alloc (ORows []) h2;
                  h4 = foldl (process_row_st tn ns fl nicknames nameMapping positiveData_a negativeData_a)
                         h3 (drop 3 jsonData);
                  h5 = sort_at tn fl positiveData_a h4;
                  h6 = sort_at tn fl negativeData_a h5;
                  h7 = append_sheet_at newWorkbook
                         (combinedData (rows_at positiveData_a h6) (rows_at negativeData_a h6))
                         targetSheetName h6
              in (h7, Inr newWorkbook)
      | _ \<Rightarrow> (h1, Inl (Error ''TypeError'')))"

section \<open>Notions used in the statements\<close>

definition ltrim :: "string \<Rightarrow> string" where
  "ltrim s = dropWhile is_space s"

definition rtrim :: "string \<Rightarrow> string" where
  "rtrim s = rev (dropWhile is_space (rev s))"


text \<open>Text without a slash and without a line feed.\<close>

definition clean :: "string \<Rightarrow> bool" where
  "clean t \<longleftrightarrow> CHR ''/'' \<notin> set t \<and> CHR 0x0A \<notin> set t"

text \<open>An entry as the parser makes them: the nickname is non-empty, trimmed and clean.\<close>

definition well_formed :: "NicknameWithLine \<Rightarrow> bool" where
  "well_formed e \<longleftrightarrow> nickname e \<noteq> [] \<and> trim (nickname e) = nickname e \<and> clean (nickname e)"

text \<open>
  A number that survives printing and reading: it is not \<open>NaN\<close>, its printed form is
  clean, and the reader gives it back from the printed form (trimmed, its first comma
  made a point, as the parser does).
\<close>

definition prints_back :: "(string \<Rightarrow> jsnum) \<Rightarrow> (jsnum \<Rightarrow> string) \<Rightarrow> jsnum \<Rightarrow> bool" where
  "prints_back pf ns d \<longleftrightarrow>
     \<not> isNaN d \<and> clean (ns d) \<and> pf (replace_first (CHR '','') (CHR ''.'') (trim (ns d))) = d"

text \<open>The entries whose line, divided by 1000, survives printing and reading.\<close>

definition line_prints_back ::
  "(string \<Rightarrow> jsnum) \<Rightarrow> (jsnum \<Rightarrow> string) \<Rightarrow> (rat \<Rightarrow> jsnum) \<Rightarrow> NicknameWithLine \<Rightarrow> bool" where
  "line_prints_back pf ns fl e =
     (case line e of None \<Rightarrow> True | Some l \<Rightarrow> prints_back pf ns (js_div1000 fl l))"

text \<open>The entry read back from the printed form of an entry: the line, if any, has gone
  through the division and the multiplication.\<close>

definition reread :: "(rat \<Rightarrow> jsnum) \<Rightarrow> NicknameWithLine \<Rightarrow> NicknameWithLine" where
  "reread fl e =
     \<lparr>nickname = nickname e,
      line = (case line e of None \<Rightarrow> None | Some l \<Rightarrow> Some (js_mul1000 fl (js_div1000 fl l)))\<rparr>"

text \<open>The rounding \<open>fl\<close> keeps the sign of every integer.\<close>

definition sign_exact :: "(rat \<Rightarrow> jsnum) \<Rightarrow> bool" where
  "sign_exact fl \<longleftrightarrow> (\<forall>z::int. js_gt0 (fl (of_int z)) = (0 < z))"

text \<open>Rounding toward zero, in the words of the specification: the sign times the floor
  of the magnitude.\<close>

definition toward_zero :: "rat \<Rightarrow> int" where
  "toward_zero q = (if q < 0 then - \<lfloor>\<bar>q\<bar>\<rfloor> else \<lfloor>\<bar>q\<bar>\<rfloor>)"

text \<open>The profit/loss written in a data row, and \<open>x >= y\<close> on numbers.\<close>

definition profitLoss_cell :: "row \<Rightarrow> jsnum" where
  "profitLoss_cell r = (case cell_at r 5 of Number n \<Rightarrow> n | _ \<Rightarrow> NaN)"

fun js_ge :: "jsnum \<Rightarrow> jsnum \<Rightarrow> bool" where
  "js_ge (Num a) (Num b) = (a \<ge> b)"
| "js_ge NaN y = False"
| "js_ge x NaN = False"
| "js_ge PInf y = True"
| "js_ge x NInf = True"
| "js_ge (Num a) PInf = False"
| "js_ge NInf y = False"

text \<open>The data rows built for the rows that match, in the order of the scan.\<close>

definition matched_rows ::
  "(string \<Rightarrow> jsnum) \<Rightarrow> (jsnum \<Rightarrow> string) \<Rightarrow> (rat \<Rightarrow> jsnum) \<Rightarrow> NicknameWithLine list \<Rightarrow> (string \<rightharpoonup> string) \<Rightarrow>
     sheet \<Rightarrow> row list" where
  "matched_rows tn ns fl nicknames nameMapping jsonData =
     concat (map (\<lambda>r. case matchingNickname ns nicknames r of
                         None \<Rightarrow> []
                       | Some m \<Rightarrow> [rowData tn ns fl nameMapping r m])
                 (drop 3 jsonData))"

text \<open>The largest content length in a column, blank cells counting 10.\<close>

definition maxLen :: "(jsnum \<Rightarrow> string) \<Rightarrow> cell list \<Rightarrow> nat" where
  "maxLen ns cells = Max (insert 0 (set (map (columnLength ns) cells)))"

text \<open>A profit/loss as the rounding of the classifier leaves it: a whole number or an
  infinity.\<close>

fun whole :: "jsnum \<Rightarrow> bool" where
  "whole (Num q) = (q \<in> \<int>)"
| "whole NaN = False"
| "whole _ = True"

text \<open>The sort key of a data row: rows come in the order of their keys, which is the
  descending order of their profit/loss.\<close>

fun desc_key :: "jsnum \<Rightarrow> int \<times> rat" where
  "desc_key PInf = (0, 0)"
| "desc_key (Num q) = (1, - q)"
| "desc_key NInf = (2, 0)"
| "desc_key NaN = (3, 0)"

definition row_key :: "row \<Rightarrow> int \<times> rat" where
  "row_key r = desc_key (profitLoss_cell r)"

text \<open>One transfer sub-table: the header row and ten rows of five blank cells.\<close>

definition transfer_table :: "row list" where
  "transfer_table = transferTableHeaders # replicate 10 (replicate 5 (Str []))"

section \<open>Facts about rounding\<close>

lemma ipow_power: "ipow b e = b ^ nat e"
proof (induction b e rule: ipow.induct)
  case (1 b e)
  show ?case
  proof (cases "e \<le> 0")
    case True
    then show ?thesis by (simp add: ipow.simps)
  next
    case False
    then have e: "0 < e" by simp
    have sq: "(b * b) ^ nat (e div 2) = b ^ (2 * nat (e div 2))"
      by (simp add: power_mult power2_eq_square)
    show ?thesis
    proof (cases "even e")
      case True
      then have n: "2 * nat (e div 2) = nat e" using e by (auto elim!: evenE)
      have "ipow b e = ipow (b * b) (e div 2)"
        using e True by (subst ipow.simps) simp
      also have "\<dots> = (b * b) ^ nat (e div 2)"
        using 1(1) e True by simp
      finally show ?thesis using sq n by simp
    next
      case False
      then have n: "Suc (2 * nat (e div 2)) = nat e" using e by (auto elim!: oddE)
      have "ipow b e = b * ipow (b * b) (e div 2)"
        using e False by (subst ipow.simps) simp
      also have "\<dots> = b * (b * b) ^ nat (e div 2)"
        using 1(2) e False by simp
      finally show ?thesis using sq n by (metis power_Suc)
    qed
  qed
qed

lemma pow2_powi: "pow2 e = 2 powi e"
  by (simp add: pow2_def ipow_power power_int_def inverse_eq_divide power_one_over)

lemma pow2_pos [simp]: "0 < pow2 e"
  by (simp add: pow2_powi)

lemma pow2_neq0 [simp]: "pow2 e \<noteq> 0"
  by (simp add: pow2_powi)

lemma pow2_abs [simp]: "\<bar>pow2 e\<bar> = pow2 e"
  using pow2_pos [of e] by (simp only: abs_of_pos)

lemma pow2_not_le0 [simp]: "\<not> pow2 e \<le> 0"
  using pow2_pos [of e] by (simp only: not_le)

lemma pow2_add: "pow2 (a + b) = pow2 a * pow2 b"
  by (simp add: pow2_powi power_int_add)

lemma pow2_nat: "0 \<le> e \<Longrightarrow> pow2 e = 2 ^ nat e"
  by (simp add: pow2_def ipow_power)

lemma ilog2_bounds:
  assumes "0 < x"
  shows "pow2 (ilog2 x) \<le> x" and "x < pow2 (ilog2 x + 1)"
proof -
  have "pow2 (ilog2 x) \<le> x \<and> x < pow2 (ilog2 x + 1)"
  proof (cases "1 \<le> x")
    case True
    let ?n = "\<lfloor>x\<rfloor>"
    have n: "0 < ?n" using True by simp
    have b: "2 ^ nat (bitlen ?n - 1) \<le> ?n" "?n < 2 ^ nat (bitlen ?n)"
      using bitlen_bounds [OF n] by simp_all
    have bl: "1 \<le> bitlen ?n" using n by (simp add: bitlen_alt_def)
    have il: "ilog2 x = bitlen ?n - 1" using True by (simp add: ilog2_def)
    have "(2::rat) ^ nat (bitlen ?n - 1) = of_int (2 ^ nat (bitlen ?n - 1))" by simp
    also have "\<dots> \<le> of_int ?n" using b(1) by (simp only: of_int_le_iff)
    also have "\<dots> \<le> x" by simp
    finally have l: "pow2 (ilog2 x) \<le> x" using bl by (simp add: il pow2_nat)
    have "?n + 1 \<le> 2 ^ nat (bitlen ?n)" using b(2) by simp
    then have "(of_int (?n + 1) :: rat) \<le> of_int (2 ^ nat (bitlen ?n))" by (simp only: of_int_le_iff)
    moreover have "x < of_int (?n + 1)" by linarith
    ultimately have "x < 2 ^ nat (bitlen ?n)" by simp
    then have u: "x < pow2 (ilog2 x + 1)" using bl by (simp add: il pow2_nat)
    from l u show ?thesis ..
  next
    case False
    let ?y = "1 / x"
    let ?n = "\<lfloor>?y\<rfloor>"
    have y: "1 < ?y" using False assms by simp
    have n: "0 < ?n" using y by simp
    have b: "2 ^ nat (bitlen ?n - 1) \<le> ?n" "?n < 2 ^ nat (bitlen ?n)"
      using bitlen_bounds [OF n] by simp_all
    have bl: "1 \<le> bitlen ?n" using n by (simp add: bitlen_alt_def)
    define k where "k = bitlen ?n - 1"
    have k0: "0 \<le> k" using bl by (simp add: k_def)
    have "(2::rat) ^ nat k = of_int (2 ^ nat k)" by simp
    also have "\<dots> \<le> of_int ?n" using b(1) unfolding k_def by (simp only: of_int_le_iff)
    also have "\<dots> \<le> ?y" by simp
    finally have lo: "2 ^ nat k \<le> ?y" .
    have "?n + 1 \<le> 2 ^ nat (bitlen ?n)" using b(2) by simp
    then have "(of_int (?n + 1) :: rat) \<le> of_int (2 ^ nat (bitlen ?n))" by (simp only: of_int_le_iff)
    moreover have "?y < of_int (?n + 1)" by linarith
    ultimately have "?y < 2 ^ nat (bitlen ?n)" by simp
    moreover have "nat (bitlen ?n) = Suc (nat k)" using bl by (simp add: k_def)
    ultimately have hi: "?y < 2 * 2 ^ nat k" by simp
    have xlo: "1 / (2 * 2 ^ nat k) < x"
      using hi assms by (simp add: field_simps)
    have xhi: "x \<le> 1 / 2 ^ nat k"
      using lo assms by (simp add: field_simps)
    have pk: "pow2 (- k) = 1 / 2 ^ nat k"
      using k0 by (simp add: pow2_powi power_int_def inverse_eq_divide power_one_over)
    have pk1: "pow2 (- k - 1) = 1 / (2 * 2 ^ nat k)"
      using pow2_add [of "- k" "- 1"] pk by (simp add: pow2_powi)
    have pk2: "pow2 (1 - k) = 2 / 2 ^ nat k"
      using pow2_add [of "- k" "1"] pk by (simp add: pow2_powi)
    have il0: "ilog2 x = (if x * ipow 2 k = 1 then - k else - k - 1)"
      using False by (simp add: ilog2_def Let_def k_def)
    show ?thesis
    proof (cases "x * ipow 2 k = 1")
      case True
      then have il: "ilog2 x = - k" by (simp add: il0)
      from True have "x = 1 / 2 ^ nat k" by (simp add: ipow_power field_simps)
      then have "pow2 (- k) \<le> x" "x < pow2 (- k + 1)" using assms by (simp_all add: pk pk2 field_simps)
      then show ?thesis by (simp only: il)
    next
      case ne: False
      then have il: "ilog2 x = - k - 1" by (simp add: il0)
      from ne have "x \<noteq> 1 / 2 ^ nat k" by (auto simp add: ipow_power field_simps)
      with xhi have "x < 1 / 2 ^ nat k" by simp
      then have "pow2 (- k - 1) \<le> x" "x < pow2 (- k - 1 + 1)" using xlo by (simp_all add: pk pk1 less_imp_le)
      then show ?thesis by (simp only: il)
    qed
  qed
  then show "pow2 (ilog2 x) \<le> x" and "x < pow2 (ilog2 x + 1)" by simp_all
qed


lemma pow2_mono: "a \<le> b \<Longrightarrow> pow2 a \<le> pow2 b"
  by (simp add: pow2_powi power_int_increasing)

lemma round_even_near: "\<bar>of_int (round_even m) - m\<bar> \<le> 1 / 2"
proof -
  have "of_int \<lfloor>m\<rfloor> \<le> m" "m < of_int \<lfloor>m\<rfloor> + 1" by linarith+
  then show ?thesis
    by (auto simp add: round_even_def Let_def abs_le_iff)
qed

lemma round_even_ge_floor: "\<lfloor>m\<rfloor> \<le> round_even m"
  by (simp add: round_even_def Let_def)

lemma round_even_int [simp]: "round_even (of_int z) = z"
  by (simp add: round_even_def Let_def)

lemma double_unfold:
  "x \<noteq> 0 \<Longrightarrow> double x =
     (if pow2 1024 \<le> magnitude \<bar>x\<bar> then (if x < 0 then NInf else PInf)
      else Num (if x < 0 then - magnitude \<bar>x\<bar> else magnitude \<bar>x\<bar>))"
  by (simp add: double_def Let_def)

lemma magnitude_nonneg: "0 \<le> a \<Longrightarrow> 0 \<le> magnitude a"
proof -
  assume "0 \<le> a"
  then have "0 \<le> a / pow2 (mantissa_exp a)" by (simp add: less_imp_le)
  then have "0 \<le> \<lfloor>a / pow2 (mantissa_exp a)\<rfloor>" by simp
  then have "0 \<le> round_even (a / pow2 (mantissa_exp a))"
    using round_even_ge_floor [of "a / pow2 (mantissa_exp a)"] by linarith
  then show ?thesis by (simp add: magnitude_def less_imp_le)
qed

lemma magnitude_pos:
  assumes "1 \<le> a"
  shows "0 < magnitude a"
proof -
  have a: "0 < a" using assms by simp
  have e: "0 \<le> ilog2 a"
  proof (rule ccontr)
    assume "\<not> 0 \<le> ilog2 a"
    then have "ilog2 a + 1 \<le> 0" by simp
    then have "pow2 (ilog2 a + 1) \<le> pow2 0" by (rule pow2_mono)
    then show False using ilog2_bounds(2) [OF a] assms by (simp add: pow2_powi)
  qed
  have s: "mantissa_exp a = ilog2 a - 52" using e by (simp add: mantissa_exp_def)
  have "pow2 (ilog2 a - 52) \<le> pow2 (ilog2 a)" by (rule pow2_mono) simp
  also have "\<dots> \<le> a" using ilog2_bounds(1) [OF a] .
  finally have "1 \<le> a / pow2 (mantissa_exp a)" by (simp add: s)
  then have "1 \<le> \<lfloor>a / pow2 (mantissa_exp a)\<rfloor>" by simp
  then have "1 \<le> round_even (a / pow2 (mantissa_exp a))"
    using round_even_ge_floor [of "a / pow2 (mantissa_exp a)"] by linarith
  then show ?thesis by (simp add: magnitude_def)
qed

lemma sign_exact_double: "sign_exact double"
  unfolding sign_exact_def
proof
  fix z :: int
  consider "z = 0" | "z < 0" | "0 < z" by linarith
  then show "js_gt0 (double (of_int z)) = (0 < z)"
  proof cases
    case 1
    then show ?thesis by (simp add: double_def)
  next
    case 2
    then have x: "(of_int z :: rat) \<noteq> 0" "(of_int z :: rat) < 0" by simp_all
    have "0 \<le> magnitude \<bar>of_int z\<bar>" by (rule magnitude_nonneg) simp
    then show ?thesis using 2 x by (simp add: double_unfold)
  next
    case 3
    then have x: "(of_int z :: rat) \<noteq> 0" "\<not> (of_int z :: rat) < 0" by simp_all
    have "1 \<le> \<bar>of_int z :: rat\<bar>" using 3 by simp
    then have "0 < magnitude \<bar>of_int z\<bar>" by (rule magnitude_pos)
    then show ?thesis using 3 x by (simp add: double_unfold)
  qed
qed

lemma magnitude_near:
  assumes "pow2 (- 1022) \<le> a"
  shows "\<bar>magnitude a - a\<bar> \<le> a / 2 ^ 53"
proof -
  have a: "0 < a" using assms pow2_pos [of "- 1022"] by linarith
  have e: "- 1022 \<le> ilog2 a"
  proof (rule ccontr)
    assume "\<not> - 1022 \<le> ilog2 a"
    then have "ilog2 a + 1 \<le> - 1022" by simp
    then have "pow2 (ilog2 a + 1) \<le> pow2 (- 1022)" by (rule pow2_mono)
    then show False using ilog2_bounds(2) [OF a] assms by simp
  qed
  define s where "s = ilog2 a - 52"
  have s: "mantissa_exp a = s" using e by (simp add: mantissa_exp_def s_def)
  define m where "m = a / pow2 s"
  have am: "a = m * pow2 s" by (simp add: m_def)
  have "magnitude a - a = (of_int (round_even m) - m) * pow2 s"
    by (simp add: magnitude_def s m_def algebra_simps)
  then have "\<bar>magnitude a - a\<bar> = \<bar>of_int (round_even m) - m\<bar> * pow2 s"
    by (simp add: abs_mult)
  also have "\<dots> \<le> (1 / 2) * pow2 s"
    using round_even_near [of m] by (intro mult_right_mono) (simp_all add: less_imp_le)
  also have "pow2 s = pow2 (ilog2 a) * pow2 (- 52)"
    unfolding s_def using pow2_add [of "ilog2 a" "- 52"] by simp
  also have "(1 / 2) * (pow2 (ilog2 a) * pow2 (- 52)) \<le> (1 / 2) * (a * pow2 (- 52))"
    using ilog2_bounds(1) [OF a] by (intro mult_left_mono mult_right_mono) (simp_all add: less_imp_le)
  also have "\<dots> = a / 2 ^ 53"
    by (simp add: pow2_powi power_int_def power_divide)
  finally show ?thesis .
qed

lemma double_near:
  assumes "pow2 (- 1022) \<le> \<bar>x\<bar>" and "double x = Num y"
  shows "\<bar>y - x\<bar> \<le> \<bar>x\<bar> / 2 ^ 53"
proof -
  have x: "x \<noteq> 0" using assms(1) pow2_pos [of "- 1022"] by auto
  have y: "y = (if x < 0 then - magnitude \<bar>x\<bar> else magnitude \<bar>x\<bar>)"
    using assms(2) x by (simp add: double_unfold split: if_splits)
  have "\<bar>y - x\<bar> = \<bar>magnitude \<bar>x\<bar> - \<bar>x\<bar>\<bar>"
  proof (cases "x < 0")
    case True
    then have "y - x = - (magnitude \<bar>x\<bar> - \<bar>x\<bar>)" by (simp add: y)
    then show ?thesis by (simp only: abs_minus)
  next
    case False
    then show ?thesis by (simp add: y)
  qed
  then show ?thesis
    using magnitude_near [OF assms(1)] by simp
qed

text \<open>Whole numbers below \<open>2^53\<close> in magnitude are doubles.\<close>

lemma magnitude_int:
  assumes "0 < z" "z < 2 ^ 53"
  shows "magnitude (of_int z) = of_int z"
proof -
  let ?a = "of_int z :: rat"
  have a: "0 < ?a" "1 \<le> ?a" using assms(1) by simp_all
  have e0: "0 \<le> ilog2 ?a"
  proof (rule ccontr)
    assume "\<not> 0 \<le> ilog2 ?a"
    then have "ilog2 ?a + 1 \<le> 0" by simp
    then have "pow2 (ilog2 ?a + 1) \<le> pow2 0" by (rule pow2_mono)
    then show False using ilog2_bounds(2) [OF a(1)] a(2) by (simp add: pow2_powi)
  qed
  have e1: "ilog2 ?a \<le> 52"
  proof (rule ccontr)
    assume "\<not> ilog2 ?a \<le> 52"
    then have "53 \<le> ilog2 ?a" by simp
    then have "pow2 53 \<le> pow2 (ilog2 ?a)" by (rule pow2_mono)
    also have "\<dots> \<le> ?a" using ilog2_bounds(1) [OF a(1)] .
    finally have "(2::rat) ^ 53 \<le> of_int z" by (simp add: pow2_powi)
    then have "(of_int (2 ^ 53) :: rat) \<le> of_int z" by simp
    then have "(2::int) ^ 53 \<le> z" by (simp only: of_int_le_iff)
    then show False using assms(2) by simp
  qed
  define k where "k = nat (52 - ilog2 ?a)"
  have s: "mantissa_exp ?a = - int k" using e0 e1 by (simp add: mantissa_exp_def k_def)
  have p: "pow2 (- int k) = 1 / 2 ^ k"
    by (simp add: pow2_powi power_int_minus inverse_eq_divide)
  have "?a / pow2 (- int k) = of_int (z * 2 ^ k)" by (simp add: p)
  then have "round_even (?a / pow2 (- int k)) = z * 2 ^ k" by (simp only: round_even_int)
  then show ?thesis by (simp add: magnitude_def s p)
qed

lemma double_int:
  assumes "\<bar>z\<bar> < 2 ^ 53"
  shows "double (of_int z) = Num (of_int z)"
proof (cases "z = 0")
  case True
  then show ?thesis by (simp add: double_def)
next
  case False
  then have z: "0 < \<bar>z\<bar>" by simp
  have m: "magnitude \<bar>of_int z\<bar> = of_int \<bar>z\<bar>"
    using magnitude_int [OF z assms] by simp
  have "(of_int \<bar>z\<bar> :: rat) < of_int (2 ^ 53)" using assms by (simp only: of_int_less_iff)
  also have "\<dots> = pow2 53" by (simp add: pow2_powi)
  also have "\<dots> \<le> pow2 1024" by (rule pow2_mono) simp
  finally have ov: "\<not> pow2 1024 \<le> magnitude \<bar>of_int z\<bar>" by (simp add: m)
  have x: "(of_int z :: rat) \<noteq> 0" using False by simp
  have "double (of_int z) = Num (if (of_int z :: rat) < 0 then - of_int \<bar>z\<bar> else of_int \<bar>z\<bar>)"
    using ov by (simp only: double_unfold [OF x] if_False m)
  also have "(if (of_int z :: rat) < 0 then - of_int \<bar>z\<bar> else of_int \<bar>z\<bar>) = (of_int z :: rat)"
    by simp
  finally show ?thesis .
qed

section \<open>Facts about the string operations\<close>

lemma split_on_not_Nil: "split_on c s \<noteq> []"
  by (induction s) (auto split: list.splits)

lemma split_on_notin: "c \<notin> set s \<Longrightarrow> split_on c s = [s]"
  by (induction s) auto

lemma split_on_first: "c \<notin> set a \<Longrightarrow> split_on c (a @ c # b) = a # split_on c b"
  by (induction a) auto

lemma hd_split_on: "hd (split_on c b) = takeWhile (\<lambda>x. x \<noteq> c) b"
  by (induction b) (auto split: list.splits simp: split_on_not_Nil)

lemma takeWhile_notin: "c \<notin> set b \<Longrightarrow> takeWhile (\<lambda>x. x \<noteq> c) b = b"
  by (induction b) auto

lemma join_Cons: "ls \<noteq> [] \<Longrightarrow> join sep (l # ls) = l @ sep @ join sep ls"
  by (cases ls) simp_all

lemma split_on_join:
  "ls \<noteq> [] \<Longrightarrow> \<forall>l\<in>set ls. c \<notin> set l \<Longrightarrow> split_on c (join [c] ls) = ls"
proof (induction ls)
  case Nil
  then show ?case by simp
next
  case (Cons l ls)
  show ?case
  proof (cases "ls = []")
    case True
    with Cons.prems show ?thesis by (simp add: split_on_notin)
  next
    case False
    then have "split_on c (join [c] ls) = ls" using Cons by simp
    moreover have "c \<notin> set l" using Cons.prems by simp
    ultimately show ?thesis using False by (simp add: join_Cons split_on_first)
  qed
qed

lemma ltrim_nonspace:
  "\<not> is_space x \<Longrightarrow> dropWhile is_space (a @ x # t) = dropWhile is_space a @ x # t"
  by (induction a) auto

lemma trim_around:
  assumes "\<not> is_space x"
  shows "trim (a @ x # t) = ltrim a @ x # rtrim t"
proof -
  have "dropWhile is_space (rev t @ x # rev (dropWhile is_space a))
        = dropWhile is_space (rev t) @ x # rev (dropWhile is_space a)"
    using assms by (rule ltrim_nonspace)
  then show ?thesis
    using assms by (simp add: trim_def ltrim_def rtrim_def ltrim_nonspace)
qed

lemma trim_eq: "trim t = rtrim (ltrim t)"
  by (simp add: trim_def ltrim_def rtrim_def)

lemma trim_ltrim: "trim (ltrim a) = trim a"
  by (simp add: trim_def ltrim_def)

lemma rtrim_Cons_nonspace: "\<not> is_space x \<Longrightarrow> rtrim (x # m) = x # rtrim m"
  by (simp add: rtrim_def ltrim_nonspace)

lemma rtrim_spaces_append: "\<not> is_space x \<Longrightarrow> rtrim (w @ x # m) = w @ x # rtrim m"
  by (simp add: rtrim_def ltrim_nonspace)

lemma rtrim_idem: "rtrim (rtrim t) = rtrim t"
  by (simp add: rtrim_def)

lemma ltrim_rtrim: "ltrim (rtrim t) = rtrim (ltrim t)"
proof (cases "\<forall>c\<in>set t. is_space c")
  case True
  then have lt: "ltrim t = []" and rt: "rtrim t = []"
    by (simp_all add: ltrim_def rtrim_def)
  have l0: "ltrim [] = []" and r0: "rtrim [] = []"
    by (simp_all add: ltrim_def rtrim_def)
  show ?thesis by (simp only: lt rt l0 r0)
next
  case False
  then obtain w x m where t: "t = w @ x # m" and w: "\<forall>c\<in>set w. is_space c" and x: "\<not> is_space x"
    using split_list_first_prop [of t "\<lambda>c. \<not> is_space c"] by auto
  have "ltrim (rtrim t) = x # rtrim m"
    using w x by (simp add: t rtrim_spaces_append ltrim_def ltrim_nonspace)
  moreover have "rtrim (ltrim t) = x # rtrim m"
    using w x by (simp add: t ltrim_def ltrim_nonspace rtrim_Cons_nonspace)
  ultimately show ?thesis by simp
qed

lemma trim_rtrim: "trim (rtrim t) = trim t"
  by (simp add: trim_eq ltrim_rtrim rtrim_idem)

lemma set_ltrim: "set (ltrim a) \<subseteq> set a"
  by (simp add: ltrim_def set_dropWhileD subsetI)

lemma set_rtrim: "set (rtrim a) \<subseteq> set a"
  using set_dropWhileD [of _ is_space "rev a"] by (auto simp: rtrim_def)

lemma dropWhile_has: "(\<exists>x\<in>set (dropWhile P xs). \<not> P x) \<longleftrightarrow> (\<exists>x\<in>set xs. \<not> P x)"
  by (induction xs) auto

lemma trim_nonempty_conv: "trim n \<noteq> [] \<longleftrightarrow> (\<exists>c\<in>set n. \<not> is_space c)"
proof -
  have "trim n \<noteq> [] \<longleftrightarrow> (\<exists>x\<in>set (rev (dropWhile is_space n)). \<not> is_space x)"
    by (simp add: trim_def)
  also have "\<dots> \<longleftrightarrow> (\<exists>x\<in>set (dropWhile is_space n). \<not> is_space x)"
    by simp
  also have "\<dots> \<longleftrightarrow> (\<exists>c\<in>set n. \<not> is_space c)"
    by (rule dropWhile_has)
  finally show ?thesis .
qed

lemma slash_not_space: "\<not> is_space (CHR ''/'')"
  by (simp add: is_space_def)

section \<open>The parser, line by line\<close>

lemma split_entry_slash:
  assumes "CHR ''/'' \<notin> set a"
  shows "split_entry (a @ CHR ''/'' # b) =
           Some (trim a, trim (takeWhile (\<lambda>x. x \<noteq> CHR ''/'') b))"
proof -
  obtain p ps where ps: "split_on (CHR ''/'') b = p # ps"
    using split_on_not_Nil by (cases "split_on (CHR ''/'') b") auto
  then have "p = takeWhile (\<lambda>x. x \<noteq> CHR ''/'') b"
    using hd_split_on [of "CHR ''/''" b] by simp
  with ps assms show ?thesis
    by (simp add: split_entry_def split_on_first)
qed

lemma parse_line_empty_nick: "parse_line pf fl (CHR ''/'' # x) = []"
  using split_entry_slash [of "[]" x] by (simp add: parse_line_def trim_def)

lemma parse_single_line:
  assumes "CHR 0x0A \<notin> set t" "trim t \<noteq> []"
  shows "parseNicknameText pf fl t = parse_line pf fl (trim t)"
  using assms by (simp add: parseNicknameText_def split_on_notin)

lemma parse_line_pair:
  assumes n: "trim n \<noteq> []" "CHR ''/'' \<notin> set n" and s: "CHR ''/'' \<notin> set s"
  shows "parse_line pf fl (trim (n @ CHR ''/'' # s)) =
     (if isNaN (pf (replace_first (CHR '','') (CHR ''.'') (trim s)))
      then [\<lparr>nickname = trim n, line = None\<rparr>]
      else [\<lparr>nickname = trim n,
             line = Some (js_mul1000 fl (pf (replace_first (CHR '','') (CHR ''.'') (trim s))))\<rparr>])"
proof -
  have tr: "trim (n @ CHR ''/'' # s) = ltrim n @ CHR ''/'' # rtrim s"
    using trim_around [OF slash_not_space] .
  have a: "CHR ''/'' \<notin> set (ltrim n)" using n(2) set_ltrim by blast
  have b: "CHR ''/'' \<notin> set (rtrim s)" using s set_rtrim by blast
  have se: "split_entry (ltrim n @ CHR ''/'' # rtrim s) = Some (trim n, trim s)"
    using split_entry_slash [OF a, of "rtrim s"] b
    by (simp add: takeWhile_notin trim_ltrim trim_rtrim)
  show ?thesis
    using n(1) by (simp add: tr parse_line_def se Let_def)
qed

lemma parse_pair:
  assumes "trim n \<noteq> []" "clean n" "clean s"
      "\<not> isNaN (pf (replace_first (CHR '','') (CHR ''.'') (trim s)))"
  shows "parseNicknameText pf fl (n @ ''/'' @ s) =
     [\<lparr>nickname = trim n,
       line = Some (js_mul1000 fl (pf (replace_first (CHR '','') (CHR ''.'') (trim s))))\<rparr>]"
proof -
  have c: "CHR ''/'' \<notin> set n" "CHR ''/'' \<notin> set s"
    using assms(2,3) by (simp_all add: clean_def)
  have nl: "CHR 0x0A \<notin> set (n @ CHR ''/'' # s)"
    using assms(2,3) by (simp add: clean_def)
  have ne: "trim (n @ CHR ''/'' # s) \<noteq> []"
    using trim_around [OF slash_not_space, of n s] by simp
  have "parseNicknameText pf fl (n @ CHR ''/'' # s) = parse_line pf fl (trim (n @ CHR ''/'' # s))"
    using nl ne by (rule parse_single_line)
  then show ?thesis
    using parse_line_pair [OF assms(1) c, of pf fl] assms(4) by simp
qed

lemma parse_blank_nickname:
  assumes w: "\<forall>c\<in>set w. is_space c" and nl: "CHR 0x0A \<notin> set (w @ ''/'' @ r)"
  shows "parseNicknameText pf fl (w @ ''/'' @ r) = []"
proof -
  have lines: "split_on (CHR 0x0A) (w @ ''/'' @ r) = [w @ ''/'' @ r]"
    using nl by (rule split_on_notin)
  have lw: "ltrim w = []" using w by (simp add: ltrim_def)
  have tr: "trim (w @ ''/'' @ r) = CHR ''/'' # rtrim r"
    using trim_around [OF slash_not_space, of w r] lw by simp
  have "parseNicknameText pf fl (w @ ''/'' @ r)
      = concat (map (parse_line pf fl) (filter (\<lambda>s. length s > 0) (map trim [w @ ''/'' @ r])))"
    by (simp only: parseNicknameText_def lines)
  also have "\<dots> = concat (map (parse_line pf fl) (filter (\<lambda>s. length s > 0) [CHR ''/'' # rtrim r]))"
    by (simp only: list.map tr)
  also have "\<dots> = []"
    by (simp add: parse_line_empty_nick)
  finally show ?thesis .
qed

subsection \<open>The entries the parser makes\<close>

lemma trim_idem: "trim (trim t) = trim t"
proof -
  have "trim (trim t) = trim (rtrim (ltrim t))" by (simp only: trim_eq [of t])
  also have "\<dots> = trim (ltrim t)" by (rule trim_rtrim)
  also have "\<dots> = trim t" by (rule trim_ltrim)
  finally show ?thesis .
qed

lemma set_trim: "set (trim a) \<subseteq> set a"
proof -
  have "set (rtrim (ltrim a)) \<subseteq> set (ltrim a)" by (rule set_rtrim)
  also have "\<dots> \<subseteq> set a" by (rule set_ltrim)
  finally show ?thesis by (simp only: trim_eq)
qed

lemma split_on_piece: "p \<in> set (split_on c s) \<Longrightarrow> c \<notin> set p \<and> set p \<subseteq> set s"
proof (induction s arbitrary: p)
  case Nil
  then show ?case by simp
next
  case (Cons x xs)
  show ?case
  proof (cases "x = c")
    case True
    with Cons show ?thesis by auto
  next
    case False
    obtain q qs where q: "split_on c xs = q # qs"
      using split_on_not_Nil by (cases "split_on c xs") auto
    with Cons.prems False have "p = x # q \<or> p \<in> set qs" by simp
    moreover have "c \<notin> set q \<and> set q \<subseteq> set xs" using Cons.IH [of q] q by simp
    moreover have "p \<in> set qs \<Longrightarrow> c \<notin> set p \<and> set p \<subseteq> set xs"
      using Cons.IH [of p] q by simp
    ultimately show ?thesis using False by auto
  qed
qed

lemma parse_line_well_formed:
  assumes t: "trim t = t" "t \<noteq> []" "CHR 0x0A \<notin> set t" and e: "e \<in> set (parse_line pf fl t)"
  shows "well_formed e"
proof (cases "CHR ''/'' \<in> set t")
  case False
  with e have "e = \<lparr>nickname = t, line = None\<rparr>" by (simp add: parse_line_def)
  with t False show ?thesis by (simp add: well_formed_def clean_def)
next
  case True
  obtain p ps where ps: "split_on (CHR ''/'') t = p # ps"
    using split_on_not_Nil by (cases "split_on (CHR ''/'') t") auto
  have p: "CHR ''/'' \<notin> set p \<and> set p \<subseteq> set t"
    using split_on_piece [of p "CHR ''/''" t] ps by simp
  have nick: "nickname e = trim p \<and> trim p \<noteq> []"
    using e True ps
    by (cases ps) (auto simp add: parse_line_def split_entry_def Let_def split: if_splits)
  have "set (trim p) \<subseteq> set t" using set_trim [of p] p by blast
  then have "clean (trim p)" using p set_trim [of p] t(3) by (auto simp add: clean_def)
  then show ?thesis using nick by (simp add: well_formed_def trim_idem)
qed

lemma parse_well_formed:
  assumes "e \<in> set (parseNicknameText pf fl input)"
  shows "well_formed e"
proof -
  from assms obtain p where p: "p \<in> set (split_on (CHR 0x0A) input)" "trim p \<noteq> []"
      "e \<in> set (parse_line pf fl (trim p))"
    by (auto simp add: parseNicknameText_def)
  have "CHR 0x0A \<notin> set (trim p)"
    using split_on_piece [OF p(1)] set_trim [of p] by blast
  then show ?thesis
    using parse_line_well_formed [OF trim_idem p(2) _ p(3)] by simp
qed

section \<open>Printing and reading back\<close>

lemma reread_None: "line e = None \<Longrightarrow> reread fl e = \<lparr>nickname = nickname e, line = None\<rparr>"
  by (simp add: reread_def)

lemma parse_line_format:
  assumes w: "well_formed e" and b: "line_prints_back pf ns fl e"
  shows "parse_line pf fl (trim (format_entry ns fl e)) = [reread fl e]"
proof (cases "line e")
  case None
  with w show ?thesis
    by (simp add: well_formed_def format_entry_def parse_line_def clean_def reread_def)
next
  case (Some l)
  let ?t = "ns (js_div1000 fl l)"
  from w b Some have h: "trim (nickname e) \<noteq> []" "CHR ''/'' \<notin> set (nickname e)"
      "CHR ''/'' \<notin> set ?t"
      "pf (replace_first (CHR '','') (CHR ''.'') (trim ?t)) = js_div1000 fl l"
      "\<not> isNaN (js_div1000 fl l)"
      "trim (nickname e) = nickname e"
    by (simp_all add: well_formed_def line_prints_back_def prints_back_def clean_def)
  have "parse_line pf fl (trim (nickname e @ CHR ''/'' # ?t))
      = [\<lparr>nickname = nickname e, line = Some (js_mul1000 fl (js_div1000 fl l))\<rparr>]"
    using parse_line_pair [OF h(1,2,3), of pf fl] h(4,5,6) by simp
  then show ?thesis
    using Some by (simp add: format_entry_def reread_def)
qed

lemma format_entry_props:
  assumes w: "well_formed e" and b: "line_prints_back pf ns fl e"
  shows "CHR 0x0A \<notin> set (format_entry ns fl e)" and "trim (format_entry ns fl e) \<noteq> []"
proof -
  show "CHR 0x0A \<notin> set (format_entry ns fl e)"
    using w b
    by (auto simp: well_formed_def line_prints_back_def prints_back_def format_entry_def clean_def
        split: option.splits)
  have "\<exists>c\<in>set (nickname e). \<not> is_space c"
    using w trim_nonempty_conv [of "nickname e"] by (simp add: well_formed_def)
  then have "\<exists>c\<in>set (format_entry ns fl e). \<not> is_space c"
    by (auto simp: format_entry_def split: option.splits)
  then show "trim (format_entry ns fl e) \<noteq> []"
    by (simp only: trim_nonempty_conv)
qed

lemma parse_lines:
  assumes "\<forall>e\<in>set es. well_formed e \<and> line_prints_back pf ns fl e"
  shows "concat (map (parse_line pf fl)
           (filter (\<lambda>s. length s > 0) (map trim (map (format_entry ns fl) es)))) = map (reread fl) es"
  using assms
proof (induction es)
  case Nil
  then show ?case by simp
next
  case (Cons e es)
  then have e: "well_formed e" "line_prints_back pf ns fl e" by simp_all
  show ?case
    using Cons format_entry_props(2) [OF e] parse_line_format [OF e] by simp
qed

lemma parse_format:
  assumes "\<forall>e\<in>set es. well_formed e \<and> line_prints_back pf ns fl e"
  shows "parseNicknameText pf fl (formatNicknamesAsText ns fl es) = map (reread fl) es"
proof (cases "es = []")
  case True
  then show ?thesis
    by (simp add: parseNicknameText_def formatNicknamesAsText_def trim_def)
next
  case False
  have "split_on (CHR 0x0A) (join [CHR 0x0A] (map (format_entry ns fl) es)) = map (format_entry ns fl) es"
    using False assms format_entry_props(1) by (intro split_on_join) auto
  then show ?thesis
    using parse_lines [OF assms] by (simp add: parseNicknameText_def formatNicknamesAsText_def)
qed

subsection \<open>The precision of the two roundings\<close>

lemma double_finite:
  assumes "pow2 (- 1022) \<le> \<bar>x\<bar>" and "\<bar>x\<bar> \<le> pow2 1023"
  shows "\<exists>y. double x = Num y"
proof -
  have x: "x \<noteq> 0" using assms(1) pow2_pos [of "- 1022"] by auto
  have a: "0 < \<bar>x\<bar>" using x by simp
  have "magnitude \<bar>x\<bar> - \<bar>x\<bar> \<le> \<bar>x\<bar> / 2 ^ 53"
    using magnitude_near [OF assms(1)] by (simp only: abs_le_iff)
  also have "\<bar>x\<bar> / 2 ^ 53 < \<bar>x\<bar>" using a by simp
  finally have "magnitude \<bar>x\<bar> < 2 * \<bar>x\<bar>" by simp
  also have "\<dots> \<le> 2 * pow2 1023" using assms(2) by simp
  also have "\<dots> = pow2 1024" using pow2_add [of 1 1023] by (simp add: pow2_powi)
  finally show ?thesis using x by (simp add: double_unfold)
qed

lemma reread_near:
  assumes lo: "pow2 (- 1000) \<le> \<bar>q\<bar>" and hi: "\<bar>q\<bar> \<le> pow2 1000"
  shows "\<exists>q'. js_mul1000 double (js_div1000 double (Num q)) = Num q' \<and>
               \<bar>q' - q\<bar> \<le> \<bar>q\<bar> / 2 ^ 51"
proof -
  define u :: rat where "u = 1 / 2 ^ 53"
  have u: "0 < u" "u \<le> 1 / 2" by (simp_all add: u_def)
  have q0: "0 < \<bar>q\<bar>" using lo pow2_pos [of "- 1000"] by linarith
  have p1: "pow2 (- 1022) * 1000 \<le> pow2 (- 1000)"
  proof -
    have "pow2 (- 1000) = pow2 (- 1022) * pow2 22" using pow2_add [of "- 1022" 22] by simp
    moreover have "(1000::rat) \<le> pow2 22" by (simp add: pow2_powi)
    ultimately show ?thesis by (simp add: less_imp_le)
  qed
  have p2: "pow2 1000 \<le> pow2 1023 / 2"
  proof -
    have "pow2 1023 = pow2 1000 * pow2 23" using pow2_add [of 1000 23] by simp
    moreover have "(2::rat) \<le> pow2 23" by (simp add: pow2_powi)
    ultimately show ?thesis
      using mult_left_mono [of 2 "pow2 23" "pow2 1000"] by (simp add: less_imp_le)
  qed
  have r1: "pow2 (- 1022) \<le> \<bar>q / 1000\<bar>" using lo p1 by simp
  have r1': "\<bar>q / 1000\<bar> \<le> pow2 1023" using hi p2 pow2_pos [of 1023] by simp
  obtain d where d: "double (q / 1000) = Num d"
    using double_finite [OF r1 r1'] by blast
  have e1: "\<bar>d - q / 1000\<bar> \<le> u * \<bar>q / 1000\<bar>"
    using double_near [OF r1 d] by (simp add: u_def)
  have e1': "\<bar>d * 1000 - q\<bar> \<le> u * \<bar>q\<bar>"
  proof -
    have "d * 1000 - q = (d - q / 1000) * 1000" by (simp add: algebra_simps)
    then have "\<bar>d * 1000 - q\<bar> = \<bar>d - q / 1000\<bar> * 1000" by (simp only: abs_mult abs_numeral)
    also have "\<dots> \<le> u * \<bar>q / 1000\<bar> * 1000" using e1 by simp
    finally show ?thesis by simp
  qed
  have dlo: "(1 - u) * \<bar>q\<bar> \<le> \<bar>d * 1000\<bar>" using e1' by (simp add: algebra_simps abs_le_iff) linarith
  have dhi: "\<bar>d * 1000\<bar> \<le> (1 + u) * \<bar>q\<bar>" using e1' by (simp add: algebra_simps abs_le_iff) linarith
  have "pow2 (- 1022) \<le> pow2 (- 1000) / 2"
  proof -
    have "pow2 (- 1000) = pow2 (- 1022) * pow2 22" using pow2_add [of "- 1022" 22] by simp
    moreover have "(2::rat) \<le> pow2 22" by (simp add: pow2_powi)
    ultimately show ?thesis
      using mult_left_mono [of 2 "pow2 22" "pow2 (- 1022)"] by (simp add: less_imp_le)
  qed
  also have "\<dots> \<le> (1 - u) * \<bar>q\<bar>"
    using lo u q0 mult_mono [of "1 / 2" "1 - u" "pow2 (- 1000)" "\<bar>q\<bar>"] by (simp add: less_imp_le)
  finally have r2: "pow2 (- 1022) \<le> \<bar>d * 1000\<bar>" using dlo by simp
  have "(1 + u) * \<bar>q\<bar> \<le> 2 * pow2 1000"
    using hi u mult_mono [of "1 + u" 2 "\<bar>q\<bar>" "pow2 1000"] by (simp add: less_imp_le)
  then have r2': "\<bar>d * 1000\<bar> \<le> pow2 1023" using dhi p2 by simp
  obtain q' where q': "double (d * 1000) = Num q'"
    using double_finite [OF r2 r2'] by blast
  have e2: "\<bar>q' - d * 1000\<bar> \<le> u * \<bar>d * 1000\<bar>"
    using double_near [OF r2 q'] by (simp add: u_def)
  have "\<bar>q' - q\<bar> \<le> \<bar>q' - d * 1000\<bar> + \<bar>d * 1000 - q\<bar>" by simp
  also have "\<dots> \<le> u * \<bar>d * 1000\<bar> + u * \<bar>q\<bar>" using e2 e1' by simp
  also have "\<dots> \<le> u * ((1 + u) * \<bar>q\<bar>) + u * \<bar>q\<bar>"
    using dhi u mult_left_mono [of "\<bar>d * 1000\<bar>" "(1 + u) * \<bar>q\<bar>" u] by simp
  also have "\<dots> = (2 * u + u * u) * \<bar>q\<bar>" by (simp add: algebra_simps)
  also have "\<dots> \<le> (4 * u) * \<bar>q\<bar>"
    using u q0 by (intro mult_right_mono) (simp_all add: u_def)
  also have "\<dots> = \<bar>q\<bar> / 2 ^ 51" by (simp add: u_def)
  finally have "\<bar>q' - q\<bar> \<le> \<bar>q\<bar> / 2 ^ 51" .
  then show ?thesis using d q' by simp
qed

section \<open>Claims about the parser\<close>

lemma reread_exact:
  assumes "line e = Some (Num r)" "fl (r / 1000) = Num (r / 1000)" "fl r = Num r"
  shows "reread fl e = e"
  using assms by (cases e) (simp add: reread_def)

text \<open>
  C5, as the program has it. (1) For a nickname \<open>n\<close> that is not blank and holds neither
  a slash nor a line feed, and a line spec \<open>s\<close> without slash and line feed that the
  reader accepts with the value \<open>v\<close> (after trimming and after the first comma became a
  point), parsing \<open>n/s\<close> gives the single entry with the trimmed nickname and the line
  \<open>v * 1000\<close>, the product rounded as the arithmetic rounds. (2) Printing the entries that the parser
  has made of any text and parsing the printed text gives the same entries, each line
  having gone through \<open>/ 1000\<close> and \<open>* 1000\<close>, provided each quotient survives printing
  and reading. (3) In double arithmetic the line that comes back differs from the line
  \<open>q\<close> by at most \<open>|q| / 2^51\<close>, for \<open>|q|\<close> between \<open>2^-1000\<close> and \<open>2^1000\<close>. (4) The entry
  comes back as it was when the quotient and the line are represented exactly. (5) The
  line 5000 is printed as 5, the line 4728 as 4.728.
\<close>

theorem C5_parse_scaled_and_roundtrip:
  "(trim n \<noteq> [] \<and> clean n \<and> clean s \<and>
      pf (replace_first (CHR '','') (CHR ''.'') (trim s)) = Num v \<longrightarrow>
      parseNicknameText pf fl (n @ ''/'' @ s) =
        [\<lparr>nickname = trim n, line = Some (fl (v * 1000))\<rparr>])
   \<and> (list_all (line_prints_back pf ns fl) (parseNicknameText pf fl input) \<longrightarrow>
        parseNicknameText pf fl (formatNicknamesAsText ns fl (parseNicknameText pf fl input))
          = map (reread fl) (parseNicknameText pf fl input))
   \<and> (line e = Some (Num q) \<and> pow2 (- 1000) \<le> \<bar>q\<bar> \<and> \<bar>q\<bar> \<le> pow2 1000 \<longrightarrow>
        (\<exists>q'. line (reread double e) = Some (Num q') \<and> \<bar>q' - q\<bar> \<le> \<bar>q\<bar> / 2 ^ 51))
   \<and> (line e' = Some (Num r) \<and> fl (r / 1000) = Num (r / 1000) \<and> fl r = Num r \<longrightarrow>
        reread fl e' = e')
   \<and> formatNicknamesAsText String_number double
        [\<lparr>nickname = ''gus'', line = Some (Num 5000)\<rparr>, \<lparr>nickname = ''febe'', line = Some (Num 4728)\<rparr>]
       = ''gus/5'' @ [CHR 0x0A] @ ''febe/4.728''"
proof (intro conjI impI)
  assume "trim n \<noteq> [] \<and> clean n \<and> clean s \<and>
      pf (replace_first (CHR '','') (CHR ''.'') (trim s)) = Num v"
  then show "parseNicknameText pf fl (n @ ''/'' @ s) =
        [\<lparr>nickname = trim n, line = Some (fl (v * 1000))\<rparr>]"
    using parse_pair [of n s pf fl] by simp
next
  assume "list_all (line_prints_back pf ns fl) (parseNicknameText pf fl input)"
  then have "\<forall>e\<in>set (parseNicknameText pf fl input). well_formed e \<and> line_prints_back pf ns fl e"
    using parse_well_formed [of _ pf fl input] by (simp add: list_all_iff)
  then show "parseNicknameText pf fl (formatNicknamesAsText ns fl (parseNicknameText pf fl input))
          = map (reread fl) (parseNicknameText pf fl input)"
    by (rule parse_format)
next
  assume a: "line e = Some (Num q) \<and> pow2 (- 1000) \<le> \<bar>q\<bar> \<and> \<bar>q\<bar> \<le> pow2 1000"
  then obtain q' where "js_mul1000 double (js_div1000 double (Num q)) = Num q'"
      "\<bar>q' - q\<bar> \<le> \<bar>q\<bar> / 2 ^ 51"
    using reread_near [of q] by blast
  with a show "\<exists>q'. line (reread double e) = Some (Num q') \<and> \<bar>q' - q\<bar> \<le> \<bar>q\<bar> / 2 ^ 51"
    by (simp add: reread_def)
next
  assume "line e' = Some (Num r) \<and> fl (r / 1000) = Num (r / 1000) \<and> fl r = Num r"
  then show "reread fl e' = e'"
    using reread_exact [of e' r fl] by blast
next
  show "formatNicknamesAsText String_number double
        [\<lparr>nickname = ''gus'', line = Some (Num 5000)\<rparr>, \<lparr>nickname = ''febe'', line = Some (Num 4728)\<rparr>]
       = ''gus/5'' @ [CHR 0x0A] @ ''febe/4.728''"
    by code_simp
qed

theorem C5_parse_scaled_and_roundtrip_witness:
  "(trim '' gus'' \<noteq> [] \<and> clean '' gus'' \<and> clean '' 4,728 '' \<and>
      parseFloat (replace_first (CHR '','') (CHR ''.'') (trim '' 4,728 ''))
        = Num (2661627379775963 / 562949953421312))
   \<and> double (2661627379775963 / 562949953421312 * 1000) = Num 4728
   \<and> parseNicknameText parseFloat double ('' gus'' @ ''/'' @ '' 4,728 '')
       = [\<lparr>nickname = ''gus'', line = Some (Num 4728)\<rparr>]
   \<and> parseNicknameText parseFloat double (''gus/5'' @ [CHR 0x0A] @ ''febe'' @ [CHR 0x0A] @ ''ab/1.001'')
       = [\<lparr>nickname = ''gus'', line = Some (Num 5000)\<rparr>, \<lparr>nickname = ''febe'', line = None\<rparr>,
          \<lparr>nickname = ''ab'', line = Some (Num (8804889115230207 / 8796093022208))\<rparr>]
   \<and> list_all (line_prints_back parseFloat String_number double)
        (parseNicknameText parseFloat double (''gus/5'' @ [CHR 0x0A] @ ''febe'' @ [CHR 0x0A] @ ''ab/1.001''))
   \<and> parseNicknameText parseFloat double (formatNicknamesAsText String_number double
        (parseNicknameText parseFloat double (''gus/5'' @ [CHR 0x0A] @ ''febe'' @ [CHR 0x0A] @ ''ab/1.001'')))
       = [\<lparr>nickname = ''gus'', line = Some (Num 5000)\<rparr>, \<lparr>nickname = ''febe'', line = None\<rparr>,
          \<lparr>nickname = ''ab'', line = Some (Num (8804889115230207 / 8796093022208))\<rparr>]
   \<and> (pow2 (- 1000) \<le> \<bar>8804889115230207 / 8796093022208\<bar> \<and>
        \<bar>8804889115230207 / 8796093022208\<bar> \<le> pow2 1000)
   \<and> line (reread double \<lparr>nickname = ''ab'', line = Some (Num (8804889115230207 / 8796093022208))\<rparr>)
       = Some (Num (8804889115230207 / 8796093022208))
   \<and> (\<exists>q'. line (reread double \<lparr>nickname = ''ab'', line = Some (Num (8804889115230207 / 8796093022208))\<rparr>)
              = Some (Num q')
            \<and> \<bar>q' - 8804889115230207 / 8796093022208\<bar> \<le> \<bar>8804889115230207 / 8796093022208\<bar> / 2 ^ 51)
   \<and> (double (5000 / 1000) = Num (5000 / 1000) \<and> double 5000 = Num 5000)
   \<and> reread double \<lparr>nickname = ''gus'', line = Some (Num 5000)\<rparr>
       = \<lparr>nickname = ''gus'', line = Some (Num 5000)\<rparr>"
proof -
  let ?input = "''gus/5'' @ [CHR 0x0A] @ ''febe'' @ [CHR 0x0A] @ ''ab/1.001''"
  let ?x = "\<lparr>nickname = ''ab'', line = Some (Num (8804889115230207 / 8796093022208))\<rparr>"
  let ?g = "\<lparr>nickname = ''gus'', line = Some (Num 5000)\<rparr>"
  have h1: "trim '' gus'' \<noteq> [] \<and> clean '' gus'' \<and> clean '' 4,728 '' \<and>
      parseFloat (replace_first (CHR '','') (CHR ''.'') (trim '' 4,728 ''))
        = Num (2661627379775963 / 562949953421312)"
    by code_simp
  have t: "trim '' gus'' = ''gus''"
    "double (2661627379775963 / 562949953421312 * 1000) = Num 4728"
    by code_simp+
  have p: "parseNicknameText parseFloat double ?input
       = [\<lparr>nickname = ''gus'', line = Some (Num 5000)\<rparr>, \<lparr>nickname = ''febe'', line = None\<rparr>,
          \<lparr>nickname = ''ab'', line = Some (Num (8804889115230207 / 8796093022208))\<rparr>]"
    by code_simp
  have h2: "list_all (line_prints_back parseFloat String_number double)
        [\<lparr>nickname = ''gus'', line = Some (Num 5000)\<rparr>, \<lparr>nickname = ''febe'', line = None\<rparr>,
          \<lparr>nickname = ''ab'', line = Some (Num (8804889115230207 / 8796093022208))\<rparr>]"
    by code_simp
  have r: "map (reread double)
        [\<lparr>nickname = ''gus'', line = Some (Num 5000)\<rparr>, \<lparr>nickname = ''febe'', line = None\<rparr>,
          \<lparr>nickname = ''ab'', line = Some (Num (8804889115230207 / 8796093022208))\<rparr>]
       = [\<lparr>nickname = ''gus'', line = Some (Num 5000)\<rparr>, \<lparr>nickname = ''febe'', line = None\<rparr>,
          \<lparr>nickname = ''ab'', line = Some (Num (8804889115230207 / 8796093022208))\<rparr>]"
    by code_simp
  have h3: "line ?x = Some (Num (8804889115230207 / 8796093022208))"
    "pow2 (- 1000) \<le> \<bar>8804889115230207 / 8796093022208 :: rat\<bar> \<and>
     \<bar>8804889115230207 / 8796093022208 :: rat\<bar> \<le> pow2 1000"
    by code_simp+
  have v: "line (reread double ?x) = Some (Num (8804889115230207 / 8796093022208))"
    by code_simp
  have h4: "line ?g = Some (Num 5000)"
    "double (5000 / 1000) = Num (5000 / 1000) \<and> double 5000 = Num 5000"
    by code_simp+
  note c5 = C5_parse_scaled_and_roundtrip [where n = "'' gus''" and s = "'' 4,728 ''"
      and v = "2661627379775963 / 562949953421312" and pf = parseFloat and fl = double
      and ns = String_number and input = ?input
      and e = ?x and q = "8804889115230207 / 8796093022208" and e' = ?g and r = 5000]
  from c5 h1 have c1: "parseNicknameText parseFloat double ('' gus'' @ ''/'' @ '' 4,728 '')
       = [\<lparr>nickname = ''gus'', line = Some (Num 4728)\<rparr>]"
    by (simp only: t; blast)
  from c5 h2 have c2: "parseNicknameText parseFloat double (formatNicknamesAsText String_number double
        (parseNicknameText parseFloat double ?input))
       = [\<lparr>nickname = ''gus'', line = Some (Num 5000)\<rparr>, \<lparr>nickname = ''febe'', line = None\<rparr>,
          \<lparr>nickname = ''ab'', line = Some (Num (8804889115230207 / 8796093022208))\<rparr>]"
    by (simp only: p r; blast)
  from c5 h3 have c3: "\<exists>q'. line (reread double ?x) = Some (Num q')
            \<and> \<bar>q' - 8804889115230207 / 8796093022208\<bar> \<le> \<bar>8804889115230207 / 8796093022208\<bar> / 2 ^ 51"
    by blast
  from c5 h4 have c4: "reread double ?g = ?g"
    by blast
  from h1 t(2) c1 p h2 c2 h3(2) v c3 h4(2) c4 show ?thesis
    by (simp only: p simp_thms)
qed

text \<open>
  C5 as stated fails for the empty nickname: the text \<open>/5\<close> has a line spec that reads as
  5, and parsing it gives no entry.
\<close>

theorem C5_counterexample:
  "parseFloat ''5'' = Num 5 \<and> parseNicknameText parseFloat double ('''' @ ''/'' @ ''5'') = []"
  by code_simp

text \<open>
  C6, as the program has it. The line is split at every slash and the first two parts are
  kept: for a line \<open>a/b\<close> in which \<open>a\<close> holds no slash, the nickname is the trimmed \<open>a\<close> and
  the line spec is the trimmed text of \<open>b\<close> up to its first slash (all of \<open>b\<close> when it has
  none). What follows a second slash is not part of the line spec.
\<close>

theorem C6_split_keeps_first_two_parts:
  assumes "CHR ''/'' \<notin> set a"
  shows "split_entry (a @ ''/'' @ b) = Some (trim a, trim (takeWhile (\<lambda>x. x \<noteq> CHR ''/'') b))"
  using split_entry_slash [OF assms, of b] by simp

theorem C6_split_keeps_first_two_parts_witness:
  "CHR ''/'' \<notin> set '' a '' \<and> split_entry ('' a '' @ ''/'' @ '' 1 /2'') = Some (''a'', ''1'')"
  using C6_split_keeps_first_two_parts [of "'' a ''" "'' 1 /2''"]
  by (simp add: trim_def is_space_def)

text \<open>C6 as stated fails on its own example: for the line \<open>a/1/2\<close> the line spec is \<open>1\<close>.\<close>

theorem C6_counterexample:
  "split_entry ''a/1/2'' = Some (''a'', ''1'') \<and> split_entry ''a/1/2'' \<noteq> Some (''a'', ''1/2'')"
  by code_simp

text \<open>
  C7, as the program has it. A one-line text with nothing but white space before its first
  slash gives no entry, whatever follows the slash and whatever the number reader makes of
  it: both branches that push an entry ask for a non-empty nickname.
\<close>

theorem C7_blank_nickname_dropped:
  assumes "\<forall>c\<in>set w. is_space c" and "CHR 0x0A \<notin> set (w @ ''/'' @ r)"
  shows "parseNicknameText pf fl (w @ ''/'' @ r) = []"
  using assms by (rule parse_blank_nickname)

theorem C7_blank_nickname_dropped_witness:
  "list_all is_space ''  '' \<and> CHR 0x0A \<notin> set (''  '' @ ''/'' @ ''123'')
   \<and> parseNicknameText parseFloat double (''  '' @ ''/'' @ ''123'') = []"
proof -
  have h: "\<forall>c\<in>set ''  ''. is_space c" "CHR 0x0A \<notin> set (''  '' @ ''/'' @ ''123'')"
    by (simp_all add: is_space_def)
  show ?thesis
    using h C7_blank_nickname_dropped [OF h, where pf = parseFloat and fl = double]
    by (simp add: list_all_iff)
qed

text \<open>C7 as stated fails: the text \<open>/123\<close>, whose line spec reads as 123, gives no entry.\<close>

theorem C7_counterexample:
  "parseFloat ''123'' = Num 123 \<and> parseNicknameText parseFloat double ''/123'' = []"
  by code_simp

section \<open>The scan of the classifier\<close>




lemma process_row_None:
  "matchingNickname ns nicknames r = None \<Longrightarrow>
   process_row tn ns fl nicknames nameMapping acc r = acc"
  by (simp add: process_row_def)

lemma process_row_Some:
  "matchingNickname ns nicknames r = Some m \<Longrightarrow>
   process_row tn ns fl nicknames nameMapping (p, n) r =
     (if js_ge0 (profitLoss_of tn fl r m)
      then (p @ [rowData tn ns fl nameMapping r m], n)
      else (p, n @ [rowData tn ns fl nameMapping r m]))"
  by (simp add: process_row_def)

lemma profitLoss_cell_rowData [simp]:
  "profitLoss_cell (rowData tn ns fl nameMapping r m) = profitLoss_of tn fl r m"
  by (simp add: profitLoss_cell_def rowData_def cell_at_def)

lemma length_rowData [simp]: "length (rowData tn ns fl nameMapping r m) = 12"
  by (simp add: rowData_def)

lemma foldl_process_row:
  "foldl (process_row tn ns fl nicknames nameMapping) (p, n) rows =
     (p @ filter (\<lambda>r. js_ge0 (profitLoss_cell r))
            (concat (map (\<lambda>r. case matchingNickname ns nicknames r of
                         None \<Rightarrow> [] | Some m \<Rightarrow> [rowData tn ns fl nameMapping r m]) rows)),
      n @ filter (\<lambda>r. \<not> js_ge0 (profitLoss_cell r))
            (concat (map (\<lambda>r. case matchingNickname ns nicknames r of
                         None \<Rightarrow> [] | Some m \<Rightarrow> [rowData tn ns fl nameMapping r m]) rows)))"
proof (induction rows arbitrary: p n)
  case Nil
  show ?case by simp
next
  case (Cons r rows)
  show ?case
    by (cases "matchingNickname ns nicknames r")
      (simp_all add: process_row_None process_row_Some Cons.IH)
qed

lemma scan_eq:
  "scan tn ns fl nicknames nameMapping jsonData =
     (filter (\<lambda>r. js_ge0 (profitLoss_cell r)) (matched_rows tn ns fl nicknames nameMapping jsonData),
      filter (\<lambda>r. \<not> js_ge0 (profitLoss_cell r)) (matched_rows tn ns fl nicknames nameMapping jsonData))"
  by (simp add: scan_def matched_rows_def foldl_process_row)

section \<open>The sort\<close>

lemma mset_insert_cmp: "mset (insert_cmp cmp x ys) = add_mset x (mset ys)"
  by (induction ys) auto

lemma mset_js_sort: "mset (js_sort cmp xs) = mset xs"
  by (induction xs) (auto simp: js_sort_def mset_insert_cmp)

lemma set_js_sort: "set (js_sort cmp xs) = set xs"
  using mset_js_sort [of cmp xs] by (rule mset_eq_setD)

lemma whole_not_NaN: "whole x \<Longrightarrow> \<not> isNaN x"
  by (cases x) simp_all

lemma Number_cell_5:
  "\<not> isNaN (profitLoss_cell r) \<Longrightarrow> Number_cell tn (cell_at r 5) = profitLoss_cell r"
  by (auto simp: profitLoss_cell_def split: cell.splits)

text \<open>The comparison is positive exactly when the second key is smaller.\<close>

lemma cmp_key:
  assumes fl: "sign_exact fl" and x: "whole x" and y: "whole y"
  shows "js_gt0 (js_sub fl y x) \<longleftrightarrow> desc_key y < desc_key x"
proof (cases x)
  case (Num a)
  note xa = this
  show ?thesis
  proof (cases y)
    case (Num b)
    from x xa obtain za where za: "a = of_int za" by (auto elim: Ints_cases)
    from y Num obtain zb where zb: "b = of_int zb" by (auto elim: Ints_cases)
    have "js_gt0 (fl (of_int (zb - za))) = (0 < zb - za)"
      using fl by (simp only: sign_exact_def)
    then show ?thesis using xa Num za zb by simp
  qed (use xa y in simp_all)
qed (use x y in \<open>cases y; simp\<close>)+

lemma insert_cmp_insort:
  assumes "sign_exact fl" "whole (profitLoss_cell x)" "\<forall>y\<in>set ys. whole (profitLoss_cell y)"
  shows "insert_cmp (by_profitLoss tn fl) x ys = insort_key row_key x ys"
  using assms(3)
proof (induction ys)
  case Nil
  show ?case by simp
next
  case (Cons y ys)
  then have y: "whole (profitLoss_cell y)" by simp
  have "js_gt0 (by_profitLoss tn fl x y) \<longleftrightarrow> row_key y < row_key x"
    using cmp_key [OF assms(1,2) y] whole_not_NaN [OF assms(2)] whole_not_NaN [OF y]
    by (simp add: by_profitLoss_def Number_cell_5 row_key_def)
  then have "js_gt0 (by_profitLoss tn fl x y) \<longleftrightarrow> \<not> row_key x \<le> row_key y"
    by (simp only: not_le)
  then show ?case using Cons by simp
qed

lemma js_sort_sort_key:
  assumes "sign_exact fl" "\<forall>y\<in>set xs. whole (profitLoss_cell y)"
  shows "js_sort (by_profitLoss tn fl) xs = sort_key row_key xs"
  using assms(2)
proof (induction xs)
  case Nil
  show ?case by (simp add: js_sort_def)
next
  case (Cons x xs)
  then have ih: "js_sort (by_profitLoss tn fl) xs = sort_key row_key xs" by simp
  have w: "whole (profitLoss_cell x)" "\<forall>y\<in>set (sort_key row_key xs). whole (profitLoss_cell y)"
    using Cons.prems by simp_all
  have "js_sort (by_profitLoss tn fl) (x # xs)
          = insert_cmp (by_profitLoss tn fl) x (js_sort (by_profitLoss tn fl) xs)"
    by (simp add: js_sort_def)
  also have "\<dots> = insort_key row_key x (sort_key row_key xs)"
    using insert_cmp_insort [OF assms(1) w] by (simp only: ih)
  finally show ?case by simp
qed

lemma js_ge_key:
  "\<not> isNaN a \<Longrightarrow> \<not> isNaN b \<Longrightarrow> js_ge a b \<longleftrightarrow> desc_key a \<le> desc_key b"
  by (cases a; cases b) simp_all

lemma key_eq:
  "\<not> isNaN a \<Longrightarrow> \<not> isNaN b \<Longrightarrow> a = b \<longleftrightarrow> desc_key a = desc_key b"
  by (cases a; cases b) simp_all

lemma bucket_sorted:
  assumes "sign_exact fl" "\<forall>y\<in>set xs. whole (profitLoss_cell y)"
  shows "sorted_wrt (\<lambda>a b. js_ge (profitLoss_cell a) (profitLoss_cell b))
           (js_sort (by_profitLoss tn fl) xs)"
proof -
  have "sorted (map row_key (sort_key row_key xs))" by (rule sorted_sort_key)
  then have "sorted_wrt (\<lambda>a b. row_key a \<le> row_key b) (sort_key row_key xs)"
    by (simp add: sorted_map)
  then have "sorted_wrt (\<lambda>a b. js_ge (profitLoss_cell a) (profitLoss_cell b)) (sort_key row_key xs)"
  proof (rule sorted_wrt_mono_rel [rotated])
    fix a b assume "a \<in> set (sort_key row_key xs)" "b \<in> set (sort_key row_key xs)"
      "row_key a \<le> row_key b"
    then show "js_ge (profitLoss_cell a) (profitLoss_cell b)"
      using assms(2) js_ge_key [of "profitLoss_cell a" "profitLoss_cell b"] whole_not_NaN
      by (simp add: row_key_def)
  qed
  then show ?thesis using js_sort_sort_key [OF assms] by simp
qed

lemma bucket_stable:
  assumes "sign_exact fl" "\<forall>y\<in>set xs. whole (profitLoss_cell y)"
  shows "filter (\<lambda>r. profitLoss_cell r = v) (js_sort (by_profitLoss tn fl) xs)
           = filter (\<lambda>r. profitLoss_cell r = v) xs"
proof (cases "isNaN v")
  case True
  have n: "\<forall>y\<in>set xs. profitLoss_cell y \<noteq> v"
    using assms(2) True whole_not_NaN by blast
  then have "filter (\<lambda>r. profitLoss_cell r = v) (js_sort (by_profitLoss tn fl) xs) = []"
    by (simp add: filter_empty_conv set_js_sort)
  moreover have "filter (\<lambda>r. profitLoss_cell r = v) xs = []"
    using n by (simp add: filter_empty_conv)
  ultimately show ?thesis by simp
next
  case False
  have e: "\<forall>y\<in>set xs. (profitLoss_cell y = v) = (row_key y = desc_key v)"
    using assms(2) False key_eq [of _ v] whole_not_NaN by (simp add: row_key_def)
  have "filter (\<lambda>r. profitLoss_cell r = v) (sort_key row_key xs)
          = filter (\<lambda>r. row_key r = desc_key v) (sort_key row_key xs)"
    using e by (intro filter_cong refl) simp
  also have "\<dots> = filter (\<lambda>r. row_key r = desc_key v) xs"
    by (rule sort_key_stable)
  also have "\<dots> = filter (\<lambda>r. profitLoss_cell r = v) xs"
    using e by (intro filter_cong refl) simp
  finally show ?thesis using js_sort_sort_key [OF assms, of tn] by simp
qed

lemma not_ge0_lt0: "\<not> isNaN x \<Longrightarrow> \<not> js_ge0 x \<longleftrightarrow> js_lt0 x"
  by (cases x) auto

lemma ge0_not_NaN: "js_ge0 x \<Longrightarrow> \<not> isNaN x"
  by (cases x) simp_all

section \<open>Profit/loss\<close>

lemma trunc_toward_zero:
  "(if js_ge0 (Num q) then Math_floor (Num q) else Math_ceil (Num q)) = Num (of_int (toward_zero q))"
  by (simp add: toward_zero_def ceiling_def abs_if)

lemma profitLoss_of_Num:
  assumes "Number_cell tn (columnL_of r) = Num balance"
    and "line m = None \<and> d = balance \<or> (\<exists>l. line m = Some (Num l) \<and> fl (balance - l) = Num d)"
  shows "profitLoss_of tn fl r m = Num (of_int (toward_zero d))"
  using assms trunc_toward_zero [of d]
  by (auto simp add: profitLoss_of_def Let_def simp del: js_ge0.simps Math_floor.simps Math_ceil.simps)

lemma profitLoss_of_NaN:
  assumes "Number_cell tn (columnL_of r) = NaN"
  shows "profitLoss_of tn fl r m = NaN"
  using assms by (cases "line m") (simp_all add: profitLoss_of_def Let_def)

lemma profitLoss_of_whole:
  "\<not> isNaN (profitLoss_of tn fl r m) \<Longrightarrow> whole (profitLoss_of tn fl r m)"
proof -
  have "\<not> isNaN (if js_ge0 x then Math_floor x else Math_ceil x) \<Longrightarrow>
        whole (if js_ge0 x then Math_floor x else Math_ceil x)" for x
    by (cases x) simp_all
  then show "\<not> isNaN (profitLoss_of tn fl r m) \<Longrightarrow> whole (profitLoss_of tn fl r m)"
    by (simp add: profitLoss_of_def Let_def)
qed

lemma matched_whole:
  assumes "r \<in> set (matched_rows tn ns fl nicknames nameMapping jsonData)"
    and "\<not> isNaN (profitLoss_cell r)"
  shows "whole (profitLoss_cell r)"
  using assms profitLoss_of_whole
  by (auto simp add: matched_rows_def split: option.splits)

section \<open>The layout of the output\<close>

lemma length_matched_rows:
  "r \<in> set (matched_rows tn ns fl nicknames nameMapping jsonData) \<Longrightarrow> length r = 12"
  by (auto simp: matched_rows_def split: option.splits)

lemma bucket_rows_length:
  "r \<in> set (positiveData tn ns fl nicknames nameMapping jsonData) \<Longrightarrow> length r = 12"
  "r \<in> set (negativeData tn ns fl nicknames nameMapping jsonData) \<Longrightarrow> length r = 12"
  by (auto simp: positiveData_def negativeData_def set_js_sort scan_eq length_matched_rows)

lemma count_list_0: "x \<notin> set xs \<Longrightarrow> count_list xs x = 0"
  by (induction xs) auto

lemma no_transfer_header_in_buckets:
  "count_list (positiveData tn ns fl nicknames nameMapping jsonData) transferTableHeaders = 0"
  "count_list (negativeData tn ns fl nicknames nameMapping jsonData) transferTableHeaders = 0"
proof -
  have l: "length transferTableHeaders = 5" by (simp add: transferTableHeaders_def)
  show "count_list (positiveData tn ns fl nicknames nameMapping jsonData) transferTableHeaders = 0"
    using bucket_rows_length(1) [of transferTableHeaders] l by (intro count_list_0) auto
  show "count_list (negativeData tn ns fl nicknames nameMapping jsonData) transferTableHeaders = 0"
    using bucket_rows_length(2) [of transferTableHeaders] l by (intro count_list_0) auto
qed

lemma combinedData_layout:
  "combinedData P N =
     headers # P @ [[], []] @ headers # N @ replicate 10 [] @
     transfer_table @ [[], []] @ transfer_table @ [[], []] @ transfer_table"
  by (simp add: combinedData_def emptyTransferRows_def transfer_table_def numeral_eq_Suc)

lemma count_transfer_table: "count_list transfer_table transferTableHeaders = 1"
  by (simp add: transfer_table_def transferTableHeaders_def numeral_eq_Suc)

lemma count_spacer: "count_list (replicate k []) transferTableHeaders = 0"
  by (induction k) (simp_all add: transferTableHeaders_def)

lemma headers_not_transfer: "headers \<noteq> transferTableHeaders" "[] \<noteq> transferTableHeaders"
  by (simp_all add: headers_def transferTableHeaders_def)

section \<open>Claims about the classifier\<close>



text \<open>
  C2, as the program has it. For a matched row whose balance reads as a finite number,
  the profit/loss is the difference \<open>d\<close> of the balance and the entry's line, as the
  arithmetic rounds it (the balance itself when the entry has no line), rounded toward
  zero. It is written at index 5 of the data row; when it is below zero the message is
  the \<open>mer info kommer\<close> one and the row goes to the negative array, otherwise the message
  is the \<open>hva vil du gj\<^verbatim>\<open>o\<close>re?\<close> one and the row goes to the positive array. For a matched
  row whose balance does not read as a number the profit/loss is \<open>NaN\<close>, no integer: the
  row goes to the negative array, with the message of the rows that are not below zero.
  In double arithmetic the difference of a whole balance and a whole line is exact when
  it is below \<open>2^53\<close> in magnitude, and the profit/loss is that difference.
\<close>

theorem C2_profit_loss_truncated:
  fixes tn ns fl nameMapping r m and balance d :: rat
  defines "hei \<equiv> ''Hei'' @ [char_of (0xD83D :: int), char_of (0xDE42 :: int)] @ '' Saldo er ''"
  defines "row \<equiv> rowData tn ns fl nameMapping r m"
  assumes m: "matchingNickname ns nicknames r = Some m"
  shows "(Number_cell tn (columnL_of r) = Num balance \<and>
          (line m = None \<and> d = balance \<or>
           (\<exists>l. line m = Some (Num l) \<and> fl (balance - l) = Num d)) \<longrightarrow>
            profitLoss_of tn fl r m = Num (of_int (toward_zero d))
            \<and> row ! 5 = Number (Num (of_int (toward_zero d)))
            \<and> row ! 11 =
                Str (if toward_zero d < 0
                     then hei @ ns (Num (of_int (toward_zero d))) @ '', mer info kommer''
                     else hei @ ns (Num (of_int (toward_zero d))) @
                          '', hva vil du gj'' @ [CHR 0xF8] @ ''re?'')
            \<and> process_row tn ns fl nicknames nameMapping (p, n) r =
                (if toward_zero d < 0 then (p, n @ [row]) else (p @ [row], n)))
       \<and> (Number_cell tn (columnL_of r) = NaN \<longrightarrow>
            profitLoss_of tn fl r m = NaN
            \<and> row ! 5 = Number NaN
            \<and> row ! 11 = Str (hei @ ns NaN @ '', hva vil du gj'' @ [CHR 0xF8] @ ''re?'')
            \<and> process_row tn ns fl nicknames nameMapping (p, n) r = (p, n @ [row]))
       \<and> (Number_cell tn (columnL_of r) = Num (of_int b) \<and> line m = Some (Num (of_int l)) \<and>
          \<bar>b - l\<bar> < 2 ^ 53 \<longrightarrow>
            profitLoss_of tn double r m = Num (of_int (b - l)))"
proof (intro conjI impI)
  assume a: "Number_cell tn (columnL_of r) = Num balance \<and>
          (line m = None \<and> d = balance \<or>
           (\<exists>l. line m = Some (Num l) \<and> fl (balance - l) = Num d))"
  define pl where "pl = Num (of_int (toward_zero d))"
  have pl: "profitLoss_of tn fl r m = pl"
    unfolding pl_def using a profitLoss_of_Num [of tn r balance m d fl] by blast
  have ge: "js_ge0 pl \<longleftrightarrow> \<not> toward_zero d < 0" and lt: "js_lt0 pl \<longleftrightarrow> toward_zero d < 0"
    by (auto simp: pl_def)
  show "profitLoss_of tn fl r m = Num (of_int (toward_zero d))"
    using pl by (simp only: pl_def)
  show "row ! 5 = Number (Num (of_int (toward_zero d)))"
    using pl by (simp add: row_def rowData_def pl_def)
  show "row ! 11 =
                Str (if toward_zero d < 0
                     then hei @ ns (Num (of_int (toward_zero d))) @ '', mer info kommer''
                     else hei @ ns (Num (of_int (toward_zero d))) @
                          '', hva vil du gj'' @ [CHR 0xF8] @ ''re?'')"
    using lt by (simp add: row_def rowData_def pl message_of_def hei_def) (simp add: pl_def)
  show "process_row tn ns fl nicknames nameMapping (p, n) r =
                (if toward_zero d < 0 then (p, n @ [row]) else (p @ [row], n))"
    using ge by (simp add: process_row_Some [OF m] pl row_def)
next
  assume a: "Number_cell tn (columnL_of r) = NaN"
  have pl: "profitLoss_of tn fl r m = NaN"
    using a by (rule profitLoss_of_NaN)
  show "profitLoss_of tn fl r m = NaN" by (rule pl)
  show "row ! 5 = Number NaN"
    using pl by (simp add: row_def rowData_def)
  show "row ! 11 = Str (hei @ ns NaN @ '', hva vil du gj'' @ [CHR 0xF8] @ ''re?'')"
    by (simp add: row_def rowData_def pl message_of_def hei_def)
  show "process_row tn ns fl nicknames nameMapping (p, n) r = (p, n @ [row])"
    by (simp add: process_row_Some [OF m] pl row_def)
next
  assume a: "Number_cell tn (columnL_of r) = Num (of_int b) \<and> line m = Some (Num (of_int l)) \<and>
          \<bar>b - l\<bar> < 2 ^ 53"
  then have "double (of_int b - of_int l) = Num (of_int (b - l))"
    using double_int [of "b - l"] by simp
  then have "profitLoss_of tn double r m = Num (of_int (toward_zero (of_int (b - l))))"
    using a profitLoss_of_Num [of tn r "of_int b" m "of_int (b - l)" double] by blast
  then show "profitLoss_of tn double r m = Num (of_int (b - l))"
    by (simp add: toward_zero_def)
qed

theorem C2_profit_loss_truncated_witness:
  "matchingNickname String_number [\<lparr>nickname = ''gus'', line = Some (Num 5000)\<rparr>]
      (replicate 10 (Str []) @ [Str ''gus'', Number (Num 4728)])
     = Some \<lparr>nickname = ''gus'', line = Some (Num 5000)\<rparr>
   \<and> Number_cell Number_string (columnL_of (replicate 10 (Str []) @ [Str ''gus'', Number (Num 4728)]))
     = Num 4728
   \<and> double (4728 - 5000) = Num (- 272)
   \<and> toward_zero (- 272) = - 272
   \<and> \<bar>4728 - 5000 :: int\<bar> < 2 ^ 53
   \<and> profitLoss_of Number_string double (replicate 10 (Str []) @ [Str ''gus'', Number (Num 4728)])
        \<lparr>nickname = ''gus'', line = Some (Num 5000)\<rparr> = Num (- 272)
   \<and> rowData Number_string String_number double Map.empty
        (replicate 10 (Str []) @ [Str ''gus'', Number (Num 4728)])
        \<lparr>nickname = ''gus'', line = Some (Num 5000)\<rparr> ! 11
      = Str (''Hei'' @ [char_of (0xD83D :: int), char_of (0xDE42 :: int)] @
             '' Saldo er -272, mer info kommer'')
   \<and> process_row Number_string String_number double [\<lparr>nickname = ''gus'', line = Some (Num 5000)\<rparr>]
        Map.empty ([], []) (replicate 10 (Str []) @ [Str ''gus'', Number (Num 4728)])
      = ([], [rowData Number_string String_number double Map.empty
               (replicate 10 (Str []) @ [Str ''gus'', Number (Num 4728)])
               \<lparr>nickname = ''gus'', line = Some (Num 5000)\<rparr>])
   \<and> matchingNickname String_number [\<lparr>nickname = ''gus'', line = Some (Num 5000)\<rparr>]
      (replicate 10 (Str []) @ [Str ''gus'', Str ''n/a''])
     = Some \<lparr>nickname = ''gus'', line = Some (Num 5000)\<rparr>
   \<and> Number_cell Number_string (columnL_of (replicate 10 (Str []) @ [Str ''gus'', Str ''n/a'']))
     = NaN
   \<and> process_row Number_string String_number double [\<lparr>nickname = ''gus'', line = Some (Num 5000)\<rparr>]
        Map.empty ([], []) (replicate 10 (Str []) @ [Str ''gus'', Str ''n/a''])
      = ([], [rowData Number_string String_number double Map.empty
               (replicate 10 (Str []) @ [Str ''gus'', Str ''n/a''])
               \<lparr>nickname = ''gus'', line = Some (Num 5000)\<rparr>])"
proof -
  let ?e = "\<lparr>nickname = ''gus'', line = Some (Num 5000)\<rparr>"
  let ?r = "replicate 10 (Str []) @ [Str ''gus'', Number (Num 4728)]"
  let ?r' = "replicate 10 (Str []) @ [Str ''gus'', Str ''n/a'']"
  have m: "matchingNickname String_number [?e] ?r = Some ?e"
    by code_simp
  have b: "Number_cell Number_string (columnL_of ?r) = Num 4728"
    by code_simp
  have d: "double (4728 - 5000) = Num (- 272)"
    by code_simp
  have l: "line ?e = None \<and> (- 272 :: rat) = 4728 \<or>
           (\<exists>l. line ?e = Some (Num l) \<and> double (4728 - l) = Num (- 272))"
    using d by simp
  have t: "toward_zero (- 272) = - 272"
    by (simp add: toward_zero_def)
  have s: "String_number (Num (- 272)) = ''-272''"
    by code_simp
  have m': "matchingNickname String_number [?e] ?r' = Some ?e"
    by code_simp
  have b': "Number_cell Number_string (columnL_of ?r') = NaN"
    by code_simp
  have i: "\<bar>4728 - 5000 :: int\<bar> < 2 ^ 53"
    by simp
  note c = C2_profit_loss_truncated [OF m, where tn = Number_string and fl = double
      and balance = 4728 and d = "- 272" and nameMapping = Map.empty and p = "[]" and n = "[]"
      and b = 4728 and l = 5000]
  note c' = C2_profit_loss_truncated [OF m', where tn = Number_string and fl = double
      and nameMapping = Map.empty and p = "[]" and n = "[]"]
  show ?thesis
    using m b d l t s i m' b' c c' by simp
qed

text \<open>
  C2 as stated fails for a matched row whose balance is text that does not read as a
  number, such as \<open>4,728\<close>: the profit/loss is \<open>NaN\<close>, not an integer, and the row is put
  into the negative array while its message is the one of the rows that are not below
  zero.
\<close>

theorem C2_counterexample:
  "matchingNickname String_number [\<lparr>nickname = ''gus'', line = Some (Num 5000)\<rparr>]
      (replicate 10 (Str []) @ [Str ''gus'', Str ''4,728''])
     = Some \<lparr>nickname = ''gus'', line = Some (Num 5000)\<rparr>
   \<and> profitLoss_of Number_string double (replicate 10 (Str []) @ [Str ''gus'', Str ''4,728''])
        \<lparr>nickname = ''gus'', line = Some (Num 5000)\<rparr> = NaN
   \<and> cell_at (rowData Number_string String_number double Map.empty
        (replicate 10 (Str []) @ [Str ''gus'', Str ''4,728''])
        \<lparr>nickname = ''gus'', line = Some (Num 5000)\<rparr>) 11
      = Str (''Hei'' @ [char_of (0xD83D :: int), char_of (0xDE42 :: int)] @
             '' Saldo er NaN, hva vil du gj'' @ [CHR 0xF8] @ ''re?'')
   \<and> process_row Number_string String_number double [\<lparr>nickname = ''gus'', line = Some (Num 5000)\<rparr>]
        Map.empty ([], []) (replicate 10 (Str []) @ [Str ''gus'', Str ''4,728''])
      = ([], [rowData Number_string String_number double Map.empty
               (replicate 10 (Str []) @ [Str ''gus'', Str ''4,728''])
               \<lparr>nickname = ''gus'', line = Some (Num 5000)\<rparr>])"
  by code_simp

text \<open>
  C3, as the program has it. The sheet written is the header row, the positive array, two
  empty rows, the header row, the negative array and the fixed rows behind them. The
  positive array holds exactly the matched rows with profit/loss \<open>\<ge> 0\<close>, in descending
  order of profit/loss, the rows of any one value standing in the order in which the scan
  met them, as long as no matched row has the profit/loss \<open>+Infinity\<close>. The negative
  array holds exactly the other matched rows: those with profit/loss \<open>< 0\<close> and those
  whose profit/loss is \<open>NaN\<close>. When no matched row has the profit/loss \<open>NaN\<close> or
  \<open>-Infinity\<close>, the negative array holds exactly the matched rows with profit/loss \<open>< 0\<close>,
  in descending order, rows of one value in the order of the scan. (With these values
  excluded no comparison of two rows is \<open>NaN\<close>, and the order is the one the language
  prescribes.) The rounding \<open>fl\<close> of the comparison is one that keeps the sign of whole
  numbers, as the one of doubles does.
\<close>

theorem C3_buckets_sorted_stable:
  fixes tn ns fl workbook nicknames nameMapping
  defines "jsonData \<equiv> sheet_to_json (Sheets workbook targetSheetName)"
  defines "M \<equiv> matched_rows tn ns fl nicknames nameMapping jsonData"
    and "P \<equiv> positiveData tn ns fl nicknames nameMapping jsonData"
    and "N \<equiv> negativeData tn ns fl nicknames nameMapping jsonData"
  assumes fl: "sign_exact fl"
  shows "(targetSheetName \<in> set (SheetNames workbook) \<and> nicknames \<noteq> [] \<longrightarrow>
           filterWorkbookByNicknames tn ns fl workbook nicknames nameMapping
             = Inr (book_append_sheet book_new
                 (headers # P @ [[], []] @ headers # N @ replicate 10 [] @
                  transfer_table @ [[], []] @ transfer_table @ [[], []] @ transfer_table)
                 targetSheetName))
       \<and> mset P = mset (filter (\<lambda>r. js_ge0 (profitLoss_cell r)) M)
       \<and> (list_all (\<lambda>r. profitLoss_cell r \<noteq> PInf) M \<longrightarrow>
            sorted_wrt (\<lambda>a b. js_ge (profitLoss_cell a) (profitLoss_cell b)) P
            \<and> (\<forall>v. filter (\<lambda>r. profitLoss_cell r = v) P
                     = filter (\<lambda>r. profitLoss_cell r = v \<and> js_ge0 v) M))
       \<and> mset N = mset (filter (\<lambda>r. \<not> js_ge0 (profitLoss_cell r)) M)
       \<and> (list_all (\<lambda>r. \<not> isNaN (profitLoss_cell r) \<and> profitLoss_cell r \<noteq> NInf) M \<longrightarrow>
            mset N = mset (filter (\<lambda>r. js_lt0 (profitLoss_cell r)) M)
            \<and> sorted_wrt (\<lambda>a b. js_ge (profitLoss_cell a) (profitLoss_cell b)) N
            \<and> (\<forall>v. filter (\<lambda>r. profitLoss_cell r = v) N
                     = filter (\<lambda>r. profitLoss_cell r = v \<and> js_lt0 v) M))"
proof -
  let ?p = "filter (\<lambda>r. js_ge0 (profitLoss_cell r)) M"
  let ?n = "filter (\<lambda>r. \<not> js_ge0 (profitLoss_cell r)) M"
  have P: "P = js_sort (by_profitLoss tn fl) ?p" and N: "N = js_sort (by_profitLoss tn fl) ?n"
    by (simp_all add: P_def N_def M_def positiveData_def negativeData_def scan_eq)
  have pn: "\<forall>y\<in>set ?p. whole (profitLoss_cell y)"
    using matched_whole ge0_not_NaN unfolding M_def by auto
  have 0: "targetSheetName \<in> set (SheetNames workbook) \<and> nicknames \<noteq> [] \<longrightarrow>
           filterWorkbookByNicknames tn ns fl workbook nicknames nameMapping
             = Inr (book_append_sheet book_new
                 (headers # P @ [[], []] @ headers # N @ replicate 10 [] @
                  transfer_table @ [[], []] @ transfer_table @ [[], []] @ transfer_table)
                 targetSheetName)"
    by (simp add: filterWorkbookByNicknames_def Let_def combinedData_layout P_def N_def jsonData_def)
  have 1: "mset P = mset ?p"
    by (simp add: P mset_js_sort)
  have 2: "sorted_wrt (\<lambda>a b. js_ge (profitLoss_cell a) (profitLoss_cell b)) P"
    unfolding P using fl pn by (rule bucket_sorted)
  have 3: "filter (\<lambda>r. profitLoss_cell r = v) P
             = filter (\<lambda>r. profitLoss_cell r = v \<and> js_ge0 v) M" for v
  proof -
    have "filter (\<lambda>r. profitLoss_cell r = v) P = filter (\<lambda>r. profitLoss_cell r = v) ?p"
      unfolding P using fl pn by (rule bucket_stable)
    also have "\<dots> = filter (\<lambda>r. profitLoss_cell r = v \<and> js_ge0 v) M"
      by (simp add: filter_filter) (intro filter_cong refl, auto)
    finally show ?thesis .
  qed
  have 4: "mset N = mset ?n"
    by (simp add: N mset_js_sort)
  have 5: "mset N = mset (filter (\<lambda>r. js_lt0 (profitLoss_cell r)) M)
            \<and> sorted_wrt (\<lambda>a b. js_ge (profitLoss_cell a) (profitLoss_cell b)) N
            \<and> (\<forall>v. filter (\<lambda>r. profitLoss_cell r = v) N
                     = filter (\<lambda>r. profitLoss_cell r = v \<and> js_lt0 v) M)"
    if "list_all (\<lambda>r. \<not> isNaN (profitLoss_cell r) \<and> profitLoss_cell r \<noteq> NInf) M"
  proof -
    from that have num: "\<forall>r\<in>set M. \<not> isNaN (profitLoss_cell r)"
      by (simp add: list_all_iff)
    have n_eq: "?n = filter (\<lambda>r. js_lt0 (profitLoss_cell r)) M"
      using num by (intro filter_cong refl) (simp add: not_ge0_lt0)
    have nn: "\<forall>y\<in>set ?n. whole (profitLoss_cell y)"
      using num matched_whole unfolding M_def by auto
    have a: "mset N = mset (filter (\<lambda>r. js_lt0 (profitLoss_cell r)) M)"
      using n_eq by (simp add: N mset_js_sort)
    have b: "sorted_wrt (\<lambda>a b. js_ge (profitLoss_cell a) (profitLoss_cell b)) N"
      unfolding N using fl nn by (rule bucket_sorted)
    have c: "filter (\<lambda>r. profitLoss_cell r = v) N
               = filter (\<lambda>r. profitLoss_cell r = v \<and> js_lt0 v) M" for v
    proof -
      have "filter (\<lambda>r. profitLoss_cell r = v) N = filter (\<lambda>r. profitLoss_cell r = v) ?n"
        unfolding N using fl nn by (rule bucket_stable)
      also have "\<dots> = filter (\<lambda>r. profitLoss_cell r = v \<and> js_lt0 v) M"
        unfolding n_eq by (simp add: filter_filter) (intro filter_cong refl, auto)
      finally show ?thesis .
    qed
    from a b c show ?thesis by blast
  qed
  from 0 1 2 3 4 5 show ?thesis by blast
qed

theorem C3_buckets_sorted_stable_witness:
  "sign_exact double
   \<and> targetSheetName \<in> set (SheetNames
     \<lparr>SheetNames = [''Club Member Balance''],
      Sheets = [''Club Member Balance'' \<mapsto>
        [[], [], [],
         replicate 10 (Str []) @ [Str ''anna'', Number (Num 5)],
         replicate 10 (Str []) @ [Str ''bob'', Number (Num 3)],
         replicate 10 (Str []) @ [Str ''cara'', Number (Num 5)],
         replicate 10 (Str []) @ [Str ''bill'', Number (Num 8)],
         replicate 10 (Str []) @ [Str ''dan'', Number (Num 9)],
         replicate 10 (Str []) @ [Str ''ben'', Number (Num 3)],
         replicate 10 (Str []) @ [Str ''bo'', Number (Num 1)]]]\<rparr>)
   \<and> [\<lparr>nickname = ''a'', line = None\<rparr>, \<lparr>nickname = ''b'', line = Some (Num 10)\<rparr>] \<noteq> []
   \<and> list_all (\<lambda>r. profitLoss_cell r \<noteq> PInf)
     (matched_rows Number_string String_number double
     [\<lparr>nickname = ''a'', line = None\<rparr>, \<lparr>nickname = ''b'', line = Some (Num 10)\<rparr>] Map.empty
     (sheet_to_json (Sheets
     \<lparr>SheetNames = [''Club Member Balance''],
      Sheets = [''Club Member Balance'' \<mapsto>
        [[], [], [],
         replicate 10 (Str []) @ [Str ''anna'', Number (Num 5)],
         replicate 10 (Str []) @ [Str ''bob'', Number (Num 3)],
         replicate 10 (Str []) @ [Str ''cara'', Number (Num 5)],
         replicate 10 (Str []) @ [Str ''bill'', Number (Num 8)],
         replicate 10 (Str []) @ [Str ''dan'', Number (Num 9)],
         replicate 10 (Str []) @ [Str ''ben'', Number (Num 3)],
         replicate 10 (Str []) @ [Str ''bo'', Number (Num 1)]]]\<rparr> targetSheetName)))
   \<and> list_all (\<lambda>r. \<not> isNaN (profitLoss_cell r) \<and> profitLoss_cell r \<noteq> NInf)
     (matched_rows Number_string String_number double
     [\<lparr>nickname = ''a'', line = None\<rparr>, \<lparr>nickname = ''b'', line = Some (Num 10)\<rparr>] Map.empty
     (sheet_to_json (Sheets
     \<lparr>SheetNames = [''Club Member Balance''],
      Sheets = [''Club Member Balance'' \<mapsto>
        [[], [], [],
         replicate 10 (Str []) @ [Str ''anna'', Number (Num 5)],
         replicate 10 (Str []) @ [Str ''bob'', Number (Num 3)],
         replicate 10 (Str []) @ [Str ''cara'', Number (Num 5)],
         replicate 10 (Str []) @ [Str ''bill'', Number (Num 8)],
         replicate 10 (Str []) @ [Str ''dan'', Number (Num 9)],
         replicate 10 (Str []) @ [Str ''ben'', Number (Num 3)],
         replicate 10 (Str []) @ [Str ''bo'', Number (Num 1)]]]\<rparr> targetSheetName)))
   \<and> filterWorkbookByNicknames Number_string String_number double
     \<lparr>SheetNames = [''Club Member Balance''],
      Sheets = [''Club Member Balance'' \<mapsto>
        [[], [], [],
         replicate 10 (Str []) @ [Str ''anna'', Number (Num 5)],
         replicate 10 (Str []) @ [Str ''bob'', Number (Num 3)],
         replicate 10 (Str []) @ [Str ''cara'', Number (Num 5)],
         replicate 10 (Str []) @ [Str ''bill'', Number (Num 8)],
         replicate 10 (Str []) @ [Str ''dan'', Number (Num 9)],
         replicate 10 (Str []) @ [Str ''ben'', Number (Num 3)],
         replicate 10 (Str []) @ [Str ''bo'', Number (Num 1)]]]\<rparr>
     [\<lparr>nickname = ''a'', line = None\<rparr>, \<lparr>nickname = ''b'', line = Some (Num 10)\<rparr>] Map.empty
     = Inr (book_append_sheet book_new
         (headers #
          (positiveData Number_string String_number double
     [\<lparr>nickname = ''a'', line = None\<rparr>, \<lparr>nickname = ''b'', line = Some (Num 10)\<rparr>] Map.empty
     (sheet_to_json (Sheets
     \<lparr>SheetNames = [''Club Member Balance''],
      Sheets = [''Club Member Balance'' \<mapsto>
        [[], [], [],
         replicate 10 (Str []) @ [Str ''anna'', Number (Num 5)],
         replicate 10 (Str []) @ [Str ''bob'', Number (Num 3)],
         replicate 10 (Str []) @ [Str ''cara'', Number (Num 5)],
         replicate 10 (Str []) @ [Str ''bill'', Number (Num 8)],
         replicate 10 (Str []) @ [Str ''dan'', Number (Num 9)],
         replicate 10 (Str []) @ [Str ''ben'', Number (Num 3)],
         replicate 10 (Str []) @ [Str ''bo'', Number (Num 1)]]]\<rparr> targetSheetName))) @
          [[], []] @
          headers #
          (negativeData Number_string String_number double
     [\<lparr>nickname = ''a'', line = None\<rparr>, \<lparr>nickname = ''b'', line = Some (Num 10)\<rparr>] Map.empty
     (sheet_to_json (Sheets
     \<lparr>SheetNames = [''Club Member Balance''],
      Sheets = [''Club Member Balance'' \<mapsto>
        [[], [], [],
         replicate 10 (Str []) @ [Str ''anna'', Number (Num 5)],
         replicate 10 (Str []) @ [Str ''bob'', Number (Num 3)],
         replicate 10 (Str []) @ [Str ''cara'', Number (Num 5)],
         replicate 10 (Str []) @ [Str ''bill'', Number (Num 8)],
         replicate 10 (Str []) @ [Str ''dan'', Number (Num 9)],
         replicate 10 (Str []) @ [Str ''ben'', Number (Num 3)],
         replicate 10 (Str []) @ [Str ''bo'', Number (Num 1)]]]\<rparr> targetSheetName))) @
          replicate 10 [] @
          transfer_table @ [[], []] @ transfer_table @ [[], []] @ transfer_table)
         targetSheetName)
   \<and> map (\<lambda>r. (cell_at r 0, profitLoss_cell r))
     (positiveData Number_string String_number double
     [\<lparr>nickname = ''a'', line = None\<rparr>, \<lparr>nickname = ''b'', line = Some (Num 10)\<rparr>] Map.empty
     (sheet_to_json (Sheets
     \<lparr>SheetNames = [''Club Member Balance''],
      Sheets = [''Club Member Balance'' \<mapsto>
        [[], [], [],
         replicate 10 (Str []) @ [Str ''anna'', Number (Num 5)],
         replicate 10 (Str []) @ [Str ''bob'', Number (Num 3)],
         replicate 10 (Str []) @ [Str ''cara'', Number (Num 5)],
         replicate 10 (Str []) @ [Str ''bill'', Number (Num 8)],
         replicate 10 (Str []) @ [Str ''dan'', Number (Num 9)],
         replicate 10 (Str []) @ [Str ''ben'', Number (Num 3)],
         replicate 10 (Str []) @ [Str ''bo'', Number (Num 1)]]]\<rparr> targetSheetName)))
     = [(Str ''dan'', Num 9), (Str ''anna'', Num 5), (Str ''cara'', Num 5)]
   \<and> map (\<lambda>r. (cell_at r 0, profitLoss_cell r))
     (negativeData Number_string String_number double
     [\<lparr>nickname = ''a'', line = None\<rparr>, \<lparr>nickname = ''b'', line = Some (Num 10)\<rparr>] Map.empty
     (sheet_to_json (Sheets
     \<lparr>SheetNames = [''Club Member Balance''],
      Sheets = [''Club Member Balance'' \<mapsto>
        [[], [], [],
         replicate 10 (Str []) @ [Str ''anna'', Number (Num 5)],
         replicate 10 (Str []) @ [Str ''bob'', Number (Num 3)],
         replicate 10 (Str []) @ [Str ''cara'', Number (Num 5)],
         replicate 10 (Str []) @ [Str ''bill'', Number (Num 8)],
         replicate 10 (Str []) @ [Str ''dan'', Number (Num 9)],
         replicate 10 (Str []) @ [Str ''ben'', Number (Num 3)],
         replicate 10 (Str []) @ [Str ''bo'', Number (Num 1)]]]\<rparr> targetSheetName)))
     = [(Str ''bill'', Num (- 2)), (Str ''bob'', Num (- 7)), (Str ''ben'', Num (- 7)),
        (Str ''bo'', Num (- 9))]
   \<and> sorted_wrt (\<lambda>a b. js_ge (profitLoss_cell a) (profitLoss_cell b))
     (positiveData Number_string String_number double
     [\<lparr>nickname = ''a'', line = None\<rparr>, \<lparr>nickname = ''b'', line = Some (Num 10)\<rparr>] Map.empty
     (sheet_to_json (Sheets
     \<lparr>SheetNames = [''Club Member Balance''],
      Sheets = [''Club Member Balance'' \<mapsto>
        [[], [], [],
         replicate 10 (Str []) @ [Str ''anna'', Number (Num 5)],
         replicate 10 (Str []) @ [Str ''bob'', Number (Num 3)],
         replicate 10 (Str []) @ [Str ''cara'', Number (Num 5)],
         replicate 10 (Str []) @ [Str ''bill'', Number (Num 8)],
         replicate 10 (Str []) @ [Str ''dan'', Number (Num 9)],
         replicate 10 (Str []) @ [Str ''ben'', Number (Num 3)],
         replicate 10 (Str []) @ [Str ''bo'', Number (Num 1)]]]\<rparr> targetSheetName)))
   \<and> sorted_wrt (\<lambda>a b. js_ge (profitLoss_cell a) (profitLoss_cell b))
     (negativeData Number_string String_number double
     [\<lparr>nickname = ''a'', line = None\<rparr>, \<lparr>nickname = ''b'', line = Some (Num 10)\<rparr>] Map.empty
     (sheet_to_json (Sheets
     \<lparr>SheetNames = [''Club Member Balance''],
      Sheets = [''Club Member Balance'' \<mapsto>
        [[], [], [],
         replicate 10 (Str []) @ [Str ''anna'', Number (Num 5)],
         replicate 10 (Str []) @ [Str ''bob'', Number (Num 3)],
         replicate 10 (Str []) @ [Str ''cara'', Number (Num 5)],
         replicate 10 (Str []) @ [Str ''bill'', Number (Num 8)],
         replicate 10 (Str []) @ [Str ''dan'', Number (Num 9)],
         replicate 10 (Str []) @ [Str ''ben'', Number (Num 3)],
         replicate 10 (Str []) @ [Str ''bo'', Number (Num 1)]]]\<rparr> targetSheetName)))
   \<and> filter (\<lambda>r. profitLoss_cell r = Num (- 7))
     (negativeData Number_string String_number double
     [\<lparr>nickname = ''a'', line = None\<rparr>, \<lparr>nickname = ''b'', line = Some (Num 10)\<rparr>] Map.empty
     (sheet_to_json (Sheets
     \<lparr>SheetNames = [''Club Member Balance''],
      Sheets = [''Club Member Balance'' \<mapsto>
        [[], [], [],
         replicate 10 (Str []) @ [Str ''anna'', Number (Num 5)],
         replicate 10 (Str []) @ [Str ''bob'', Number (Num 3)],
         replicate 10 (Str []) @ [Str ''cara'', Number (Num 5)],
         replicate 10 (Str []) @ [Str ''bill'', Number (Num 8)],
         replicate 10 (Str []) @ [Str ''dan'', Number (Num 9)],
         replicate 10 (Str []) @ [Str ''ben'', Number (Num 3)],
         replicate 10 (Str []) @ [Str ''bo'', Number (Num 1)]]]\<rparr> targetSheetName)))
     = filter (\<lambda>r. profitLoss_cell r = Num (- 7) \<and> js_lt0 (Num (- 7)))
     (matched_rows Number_string String_number double
     [\<lparr>nickname = ''a'', line = None\<rparr>, \<lparr>nickname = ''b'', line = Some (Num 10)\<rparr>] Map.empty
     (sheet_to_json (Sheets
     \<lparr>SheetNames = [''Club Member Balance''],
      Sheets = [''Club Member Balance'' \<mapsto>
        [[], [], [],
         replicate 10 (Str []) @ [Str ''anna'', Number (Num 5)],
         replicate 10 (Str []) @ [Str ''bob'', Number (Num 3)],
         replicate 10 (Str []) @ [Str ''cara'', Number (Num 5)],
         replicate 10 (Str []) @ [Str ''bill'', Number (Num 8)],
         replicate 10 (Str []) @ [Str ''dan'', Number (Num 9)],
         replicate 10 (Str []) @ [Str ''ben'', Number (Num 3)],
         replicate 10 (Str []) @ [Str ''bo'', Number (Num 1)]]]\<rparr> targetSheetName)))"
proof -
  let ?ns = "[\<lparr>nickname = ''a'', line = None\<rparr>, \<lparr>nickname = ''b'', line = Some (Num 10)\<rparr>]"
  let ?wb = "\<lparr>SheetNames = [''Club Member Balance''],
      Sheets = [''Club Member Balance'' \<mapsto>
        [[], [], [],
         replicate 10 (Str []) @ [Str ''anna'', Number (Num 5)],
         replicate 10 (Str []) @ [Str ''bob'', Number (Num 3)],
         replicate 10 (Str []) @ [Str ''cara'', Number (Num 5)],
         replicate 10 (Str []) @ [Str ''bill'', Number (Num 8)],
         replicate 10 (Str []) @ [Str ''dan'', Number (Num 9)],
         replicate 10 (Str []) @ [Str ''ben'', Number (Num 3)],
         replicate 10 (Str []) @ [Str ''bo'', Number (Num 1)]]]\<rparr>"
  let ?J = "sheet_to_json (Sheets ?wb targetSheetName)"
  have s: "sign_exact double"
    by (rule sign_exact_double)
  have t: "targetSheetName \<in> set (SheetNames ?wb)"
    by (simp add: targetSheetName_def)
  have ne: "?ns \<noteq> []"
    by simp
  have h: "list_all (\<lambda>r. \<not> isNaN (profitLoss_cell r) \<and> profitLoss_cell r \<noteq> NInf)
     (matched_rows Number_string String_number double ?ns Map.empty ?J)"
    by code_simp
  have h': "list_all (\<lambda>r. profitLoss_cell r \<noteq> PInf)
     (matched_rows Number_string String_number double ?ns Map.empty ?J)"
    by code_simp
  have p: "map (\<lambda>r. (cell_at r 0, profitLoss_cell r))
       (positiveData Number_string String_number double ?ns Map.empty ?J)
     = [(Str ''dan'', Num 9), (Str ''anna'', Num 5), (Str ''cara'', Num 5)]"
    by code_simp
  have n: "map (\<lambda>r. (cell_at r 0, profitLoss_cell r))
       (negativeData Number_string String_number double ?ns Map.empty ?J)
     = [(Str ''bill'', Num (- 2)), (Str ''bob'', Num (- 7)), (Str ''ben'', Num (- 7)),
        (Str ''bo'', Num (- 9))]"
    by code_simp
  note c = C3_buckets_sorted_stable [OF s, where tn = Number_string and ns = String_number
        and nicknames = ?ns and nameMapping = Map.empty and workbook = ?wb]
  from c t ne have c0: "filterWorkbookByNicknames Number_string String_number double ?wb ?ns Map.empty
     = Inr (book_append_sheet book_new
         (headers # positiveData Number_string String_number double ?ns Map.empty ?J @
          [[], []] @
          headers # negativeData Number_string String_number double ?ns Map.empty ?J @
          replicate 10 [] @
          transfer_table @ [[], []] @ transfer_table @ [[], []] @ transfer_table)
         targetSheetName)"
    by blast
  from c h' have c1: "sorted_wrt (\<lambda>a b. js_ge (profitLoss_cell a) (profitLoss_cell b))
       (positiveData Number_string String_number double ?ns Map.empty ?J)"
    by blast
  from c h have c2: "sorted_wrt (\<lambda>a b. js_ge (profitLoss_cell a) (profitLoss_cell b))
       (negativeData Number_string String_number double ?ns Map.empty ?J)"
    by blast
  from c h have c3: "filter (\<lambda>r. profitLoss_cell r = Num (- 7))
       (negativeData Number_string String_number double ?ns Map.empty ?J)
     = filter (\<lambda>r. profitLoss_cell r = Num (- 7) \<and> js_lt0 (Num (- 7)))
       (matched_rows Number_string String_number double ?ns Map.empty ?J)"
    by blast
  from s t ne h' h c0 p n c1 c2 c3 show ?thesis
    by (intro conjI)
qed

text \<open>
  C3 as stated fails when a matched row has a balance that does not read as a number: its
  profit/loss is \<open>NaN\<close>, and the row is in the negative array though \<open>NaN\<close> is not below
  zero. Beside a row with profit/loss -1 the array is not in descending order, whichever
  of the two comes first: \<open>NaN\<close> is neither at least -1 nor at most -1.
\<close>

theorem C3_counterexample:
  "map (\<lambda>r. (cell_at r 0, profitLoss_cell r))
     (negativeData Number_string String_number double [\<lparr>nickname = ''a'', line = None\<rparr>] Map.empty
        [[], [], [],
         replicate 10 (Str []) @ [Str ''anna'', Str ''4,728'']])
     = [(Str ''anna'', NaN)]
   \<and> \<not> js_lt0 NaN
   \<and> set (map (\<lambda>r. (cell_at r 0, profitLoss_cell r))
     (negativeData Number_string String_number double [\<lparr>nickname = ''a'', line = None\<rparr>] Map.empty
        [[], [], [],
         replicate 10 (Str []) @ [Str ''anna'', Str ''4,728''],
         replicate 10 (Str []) @ [Str ''adam'', Number (Num (- 1))]]))
     = {(Str ''anna'', NaN), (Str ''adam'', Num (- 1))}
   \<and> \<not> js_ge NaN (Num (- 1)) \<and> \<not> js_ge (Num (- 1)) NaN"
proof -
  have a: "map (\<lambda>r. (cell_at r 0, profitLoss_cell r))
     (negativeData Number_string String_number double [\<lparr>nickname = ''a'', line = None\<rparr>] Map.empty
        [[], [], [],
         replicate 10 (Str []) @ [Str ''anna'', Str ''4,728'']])
     = [(Str ''anna'', NaN)]"
    by code_simp
  have b: "map (\<lambda>r. (cell_at r 0, profitLoss_cell r))
     (negativeData Number_string String_number double [\<lparr>nickname = ''a'', line = None\<rparr>] Map.empty
        [[], [], [],
         replicate 10 (Str []) @ [Str ''anna'', Str ''4,728''],
         replicate 10 (Str []) @ [Str ''adam'', Number (Num (- 1))]])
     = [(Str ''anna'', NaN), (Str ''adam'', Num (- 1))]"
    by code_simp
  show ?thesis
    by (simp only: a b) simp
qed

text \<open>
  C4, as the program has it. For a workbook that has the target sheet and a non-empty list
  of entries, the sheet written is the main table (header row, positive rows, two empty
  rows, header row, negative rows), ten empty rows, and three transfer sub-tables (the
  \<open>Avsender\<close> header row and ten rows of five blank cells) with two empty rows between
  consecutive ones; the transfer header row occurs exactly three times. For the empty list
  of entries the sheet written has no rows.
\<close>

theorem C4_three_transfer_tables:
  fixes tn ns fl workbook nicknames nameMapping
  defines "jsonData \<equiv> sheet_to_json (Sheets workbook targetSheetName)"
  defines "P \<equiv> positiveData tn ns fl nicknames nameMapping jsonData"
    and "N \<equiv> negativeData tn ns fl nicknames nameMapping jsonData"
  defines "out \<equiv> headers # P @ [[], []] @ headers # N @ replicate 10 [] @
     transfer_table @ [[], []] @ transfer_table @ [[], []] @ transfer_table"
  assumes "targetSheetName \<in> set (SheetNames workbook)"
  shows "(nicknames \<noteq> [] \<longrightarrow>
           filterWorkbookByNicknames tn ns fl workbook nicknames nameMapping
             = Inr (book_append_sheet book_new out targetSheetName)
           \<and> count_list out transferTableHeaders = 3)
       \<and> (nicknames = [] \<longrightarrow>
           filterWorkbookByNicknames tn ns fl workbook nicknames nameMapping
             = Inr (book_append_sheet book_new [] targetSheetName))"
proof -
  have c: "count_list out transferTableHeaders = 3"
    unfolding out_def P_def N_def
    using headers_not_transfer
    by (simp add: no_transfer_header_in_buckets count_transfer_table count_spacer)
  have f: "nicknames \<noteq> [] \<Longrightarrow>
      filterWorkbookByNicknames tn ns fl workbook nicknames nameMapping
        = Inr (book_append_sheet book_new out targetSheetName)"
    using assms(5)
    by (simp add: filterWorkbookByNicknames_def Let_def combinedData_layout out_def P_def N_def
        jsonData_def)
  have e: "nicknames = [] \<Longrightarrow>
      filterWorkbookByNicknames tn ns fl workbook nicknames nameMapping
        = Inr (book_append_sheet book_new [] targetSheetName)"
    using assms(5) by (simp add: filterWorkbookByNicknames_def Let_def)
  from c f e show ?thesis by blast
qed

theorem C4_three_transfer_tables_witness:
  "targetSheetName \<in> set (SheetNames
      \<lparr>SheetNames = [''Club Member Balance''],
       Sheets = [''Club Member Balance'' \<mapsto>
         [[], [], [], replicate 10 (Str []) @ [Str ''anna'', Number (Num 5)]]]\<rparr>)
   \<and> filterWorkbookByNicknames Number_string String_number double
         \<lparr>SheetNames = [''Club Member Balance''],
          Sheets = [''Club Member Balance'' \<mapsto>
            [[], [], [], replicate 10 (Str []) @ [Str ''anna'', Number (Num 5)]]]\<rparr>
         [\<lparr>nickname = ''a'', line = None\<rparr>] Map.empty
      = Inr (book_append_sheet book_new
          (headers #
           positiveData Number_string String_number double [\<lparr>nickname = ''a'', line = None\<rparr>] Map.empty
             (sheet_to_json (Sheets
                \<lparr>SheetNames = [''Club Member Balance''],
                 Sheets = [''Club Member Balance'' \<mapsto>
                   [[], [], [], replicate 10 (Str []) @ [Str ''anna'', Number (Num 5)]]]\<rparr>
                targetSheetName)) @
           [[], []] @
           headers #
           negativeData Number_string String_number double [\<lparr>nickname = ''a'', line = None\<rparr>] Map.empty
             (sheet_to_json (Sheets
                \<lparr>SheetNames = [''Club Member Balance''],
                 Sheets = [''Club Member Balance'' \<mapsto>
                   [[], [], [], replicate 10 (Str []) @ [Str ''anna'', Number (Num 5)]]]\<rparr>
                targetSheetName)) @
           replicate 10 [] @
           transfer_table @ [[], []] @ transfer_table @ [[], []] @ transfer_table)
          targetSheetName)
   \<and> filterWorkbookByNicknames Number_string String_number double
         \<lparr>SheetNames = [''Club Member Balance''],
          Sheets = [''Club Member Balance'' \<mapsto>
            [[], [], [], replicate 10 (Str []) @ [Str ''anna'', Number (Num 5)]]]\<rparr>
         [] Map.empty
      = Inr (book_append_sheet book_new [] targetSheetName)"
proof -
  let ?wb = "\<lparr>SheetNames = [''Club Member Balance''],
       Sheets = [''Club Member Balance'' \<mapsto>
         [[], [], [], replicate 10 (Str []) @ [Str ''anna'', Number (Num 5)]]]\<rparr>"
  have h: "targetSheetName \<in> set (SheetNames ?wb)"
    by (simp add: targetSheetName_def)
  have ne: "[\<lparr>nickname = ''a'', line = None\<rparr>] \<noteq> []"
    by simp
  note a = C4_three_transfer_tables [OF h, where nicknames = "[\<lparr>nickname = ''a'', line = None\<rparr>]"
      and tn = Number_string and ns = String_number and fl = double and nameMapping = Map.empty]
  note b = C4_three_transfer_tables [OF h, where nicknames = "[]"
      and tn = Number_string and ns = String_number and fl = double and nameMapping = Map.empty]
  from h ne a b show ?thesis by blast
qed

text \<open>C4 as stated fails for the empty list of entries: the sheet written has no rows, so
  no transfer sub-table.\<close>

theorem C4_counterexample:
  "(case filterWorkbookByNicknames Number_string String_number double
         \<lparr>SheetNames = [''Club Member Balance''],
          Sheets = [''Club Member Balance'' \<mapsto>
            [[], [], [], replicate 10 (Str []) @ [Str ''anna'', Number (Num 5)]]]\<rparr>
         [] Map.empty of
      Inl e \<Rightarrow> False
    | Inr out \<Rightarrow> SheetNames out = [''Club Member Balance'']
        \<and> Sheets out ''Club Member Balance'' = Some [])"
  by (simp add: filterWorkbookByNicknames_def targetSheetName_def book_append_sheet_def book_new_def)

text \<open>
  C8. The classifier ends with the sheet-not-found error exactly when no sheet of the
  workbook is named \<open>Club Member Balance\<close>, and the name-file reader exactly when no sheet
  of the reference workbook is named \<open>Player overview\<close>; otherwise each returns its
  result. An error carries no workbook and no mapping.
\<close>

theorem C8_sheet_not_found:
  "(filterWorkbookByNicknames tn ns fl workbook nicknames nameMapping
      = Inl (sheet_not_found ''Club Member Balance'' ''uploaded file'')
      \<longleftrightarrow> ''Club Member Balance'' \<notin> set (SheetNames workbook))
   \<and> (isl (filterWorkbookByNicknames tn ns fl workbook nicknames nameMapping)
      \<longleftrightarrow> ''Club Member Balance'' \<notin> set (SheetNames workbook))
   \<and> (readNameFile ns to_objects reference
      = Inl (sheet_not_found ''Player overview'' ''name file'')
      \<longleftrightarrow> ''Player overview'' \<notin> set (SheetNames reference))
   \<and> (isl (readNameFile ns to_objects reference)
      \<longleftrightarrow> ''Player overview'' \<notin> set (SheetNames reference))"
  by (simp add: filterWorkbookByNicknames_def readNameFile_def targetSheetName_def Let_def)

theorem C8_sheet_not_found_witness:
  "filterWorkbookByNicknames Number_string String_number double
      \<lparr>SheetNames = [''club member balance''], Sheets = [''club member balance'' \<mapsto> []]\<rparr>
      [\<lparr>nickname = ''a'', line = None\<rparr>] Map.empty
     = Inl (sheet_not_found ''Club Member Balance'' ''uploaded file'')
   \<and> \<not> isl (filterWorkbookByNicknames Number_string String_number double
      \<lparr>SheetNames = [''Club Member Balance''], Sheets = [''Club Member Balance'' \<mapsto> []]\<rparr>
      [\<lparr>nickname = ''a'', line = None\<rparr>] Map.empty)
   \<and> readNameFile String_number keyed_rows
      \<lparr>SheetNames = [''Players''], Sheets = [''Players'' \<mapsto> []]\<rparr>
     = Inl (sheet_not_found ''Player overview'' ''name file'')
   \<and> \<not> isl (readNameFile String_number keyed_rows
      \<lparr>SheetNames = [''Player overview''], Sheets = [''Player overview'' \<mapsto> []]\<rparr>)"
  using
    C8_sheet_not_found [where tn = Number_string and ns = String_number and fl = double
      and workbook = "\<lparr>SheetNames = [''club member balance''], Sheets = [''club member balance'' \<mapsto> []]\<rparr>"
      and nicknames = "[\<lparr>nickname = ''a'', line = None\<rparr>]" and nameMapping = Map.empty
      and to_objects = keyed_rows
      and reference = "\<lparr>SheetNames = [''Players''], Sheets = [''Players'' \<mapsto> []]\<rparr>"]
    C8_sheet_not_found [where tn = Number_string and ns = String_number and fl = double
      and workbook = "\<lparr>SheetNames = [''Club Member Balance''], Sheets = [''Club Member Balance'' \<mapsto> []]\<rparr>"
      and nicknames = "[\<lparr>nickname = ''a'', line = None\<rparr>]" and nameMapping = Map.empty
      and to_objects = keyed_rows
      and reference = "\<lparr>SheetNames = [''Player overview''], Sheets = [''Player overview'' \<mapsto> []]\<rparr>"]
  by simp

section \<open>Column widths\<close>

lemma foldl_max:
  "foldl (\<lambda>m v. if f v > m then f v else m) a xs = Max (insert (a::nat) (set (map f xs)))"
proof (induction xs arbitrary: a)
  case Nil
  show ?case by simp
next
  case (Cons x xs)
  have "Max (insert (if a < f x then f x else a) (set (map f xs)))
          = Max (insert a (insert (f x) (set (map f xs))))"
  proof (cases "set (map f xs) = {}")
    case True
    then show ?thesis by (simp add: max_def)
  next
    case False
    then show ?thesis by (simp add: max_def)
  qed
  then show ?case using Cons.IH by simp
qed

lemma maxLength_maxLen: "maxLength ns cells = maxLen ns cells"
  by (simp add: maxLength_def maxLen_def foldl_max)

lemma blank_counts_10:
  assumes "c \<in> set cells" "\<not> truthy c"
  shows "10 \<le> maxLen ns cells"
proof -
  have "10 \<in> insert 0 (set (map (columnLength ns) cells))"
    using assms by (force simp: columnLength_def)
  then show ?thesis unfolding maxLen_def by (intro Max_ge) auto
qed

lemma spacer_in_combinedData: "[] \<in> set (combinedData P N)"
  by (simp add: combinedData_def)

lemma column_widths_nth:
  assumes "j < column_count data"
  shows "column_widths ns data ! j =
     (if maxLen ns (column_cells data j) < 10 then 10 else maxLen ns (column_cells data j) + 2)"
  using assms by (simp add: column_widths_def column_width_def maxLength_maxLen)

lemma column_count_Nil: "column_count [] = 0"
  by (simp add: column_count_def)

lemma download_filtered:
  assumes "filterWorkbookByNicknames tn ns fl workbook nicknames nameMapping = Inr filtered"
  shows "download_data filtered =
     (if nicknames = [] then []
      else combinedData
             (positiveData tn ns fl nicknames nameMapping (sheet_to_json (Sheets workbook targetSheetName)))
             (negativeData tn ns fl nicknames nameMapping (sheet_to_json (Sheets workbook targetSheetName))))"
  using assms
  by (auto simp add: filterWorkbookByNicknames_def Let_def download_data_def book_append_sheet_def
      book_new_def sheet_to_json_def split: if_splits)

text \<open>
  C9. The sheet that is written is the first sheet of the workbook the classifier has
  returned, the only workbook the download is called with. For every column of that
  sheet, with \<open>maxLen\<close> the largest content length over all rows (a blank cell counting
  10), the width is \<open>max 10 (maxLen + 2)\<close>. Every column has a blank cell, in the empty
  rows of the sheet, so \<open>maxLen\<close> is at least 10 and the width is \<open>maxLen + 2\<close>.
\<close>

theorem C9_column_width:
  assumes "filterWorkbookByNicknames tn ns fl workbook nicknames nameMapping = Inr filtered"
    and "j < column_count (download_data filtered)"
  shows "column_widths ns' (download_data filtered) ! j
           = max 10 (maxLen ns' (column_cells (download_data filtered) j) + 2)
       \<and> 10 \<le> maxLen ns' (column_cells (download_data filtered) j)"
proof -
  let ?data = "download_data filtered"
  have ne: "nicknames \<noteq> []"
    using assms download_filtered [OF assms(1)] by (auto simp add: column_count_Nil)
  then have "[] \<in> set ?data"
    using download_filtered [OF assms(1)] spacer_in_combinedData by simp
  then have "cell_at [] j \<in> set (column_cells ?data j)"
    by (auto simp: column_cells_def)
  then have "Undefined \<in> set (column_cells ?data j)"
    by (simp add: cell_at_def)
  moreover have "\<not> truthy Undefined" by simp
  ultimately have m: "10 \<le> maxLen ns' (column_cells ?data j)"
    by (rule blank_counts_10)
  then show ?thesis
    using column_widths_nth [OF assms(2), of ns'] by (simp add: max_def)
qed

theorem C9_column_width_witness:
  "filterWorkbookByNicknames Number_string String_number double
     \<lparr>SheetNames = [''Club Member Balance''],
        Sheets = [''Club Member Balance'' \<mapsto>
          [[], [], [], replicate 10 (Str []) @ [Str ''anna-maria of the lake'', Number (Num 5)]]]\<rparr>
     [\<lparr>nickname = ''a'', line = None\<rparr>] Map.empty
     = Inr (book_append_sheet book_new
     (combinedData
       (positiveData Number_string String_number double [\<lparr>nickname = ''a'', line = None\<rparr>] Map.empty
         (sheet_to_json (Sheets
         \<lparr>SheetNames = [''Club Member Balance''],
          Sheets = [''Club Member Balance'' \<mapsto>
            [[], [], [], replicate 10 (Str []) @ [Str ''anna-maria of the lake'', Number (Num 5)]]]\<rparr>
         targetSheetName)))
       (negativeData Number_string String_number double [\<lparr>nickname = ''a'', line = None\<rparr>] Map.empty
         (sheet_to_json (Sheets
         \<lparr>SheetNames = [''Club Member Balance''],
          Sheets = [''Club Member Balance'' \<mapsto>
            [[], [], [], replicate 10 (Str []) @ [Str ''anna-maria of the lake'', Number (Num 5)]]]\<rparr>
         targetSheetName))))
     targetSheetName)
   \<and> column_count (download_data
     (book_append_sheet book_new
       (combinedData
         (positiveData Number_string String_number double [\<lparr>nickname = ''a'', line = None\<rparr>] Map.empty
           (sheet_to_json (Sheets
           \<lparr>SheetNames = [''Club Member Balance''],
            Sheets = [''Club Member Balance'' \<mapsto>
              [[], [], [], replicate 10 (Str []) @ [Str ''anna-maria of the lake'', Number (Num 5)]]]\<rparr>
           targetSheetName)))
         (negativeData Number_string String_number double [\<lparr>nickname = ''a'', line = None\<rparr>] Map.empty
           (sheet_to_json (Sheets
           \<lparr>SheetNames = [''Club Member Balance''],
            Sheets = [''Club Member Balance'' \<mapsto>
              [[], [], [], replicate 10 (Str []) @ [Str ''anna-maria of the lake'', Number (Num 5)]]]\<rparr>
           targetSheetName))))
       targetSheetName)) = 20
   \<and> (0::nat) < column_count (download_data
     (book_append_sheet book_new
       (combinedData
         (positiveData Number_string String_number double [\<lparr>nickname = ''a'', line = None\<rparr>] Map.empty
           (sheet_to_json (Sheets
           \<lparr>SheetNames = [''Club Member Balance''],
            Sheets = [''Club Member Balance'' \<mapsto>
              [[], [], [], replicate 10 (Str []) @ [Str ''anna-maria of the lake'', Number (Num 5)]]]\<rparr>
           targetSheetName)))
         (negativeData Number_string String_number double [\<lparr>nickname = ''a'', line = None\<rparr>] Map.empty
           (sheet_to_json (Sheets
           \<lparr>SheetNames = [''Club Member Balance''],
            Sheets = [''Club Member Balance'' \<mapsto>
              [[], [], [], replicate 10 (Str []) @ [Str ''anna-maria of the lake'', Number (Num 5)]]]\<rparr>
           targetSheetName))))
       targetSheetName))
   \<and> maxLen String_number (column_cells (download_data
     (book_append_sheet book_new
       (combinedData
         (positiveData Number_string String_number double [\<lparr>nickname = ''a'', line = None\<rparr>] Map.empty
           (sheet_to_json (Sheets
           \<lparr>SheetNames = [''Club Member Balance''],
            Sheets = [''Club Member Balance'' \<mapsto>
              [[], [], [], replicate 10 (Str []) @ [Str ''anna-maria of the lake'', Number (Num 5)]]]\<rparr>
           targetSheetName)))
         (negativeData Number_string String_number double [\<lparr>nickname = ''a'', line = None\<rparr>] Map.empty
           (sheet_to_json (Sheets
           \<lparr>SheetNames = [''Club Member Balance''],
            Sheets = [''Club Member Balance'' \<mapsto>
              [[], [], [], replicate 10 (Str []) @ [Str ''anna-maria of the lake'', Number (Num 5)]]]\<rparr>
           targetSheetName))))
       targetSheetName)) 0) = 22
   \<and> column_widths String_number (download_data
     (book_append_sheet book_new
       (combinedData
         (positiveData Number_string String_number double [\<lparr>nickname = ''a'', line = None\<rparr>] Map.empty
           (sheet_to_json (Sheets
           \<lparr>SheetNames = [''Club Member Balance''],
            Sheets = [''Club Member Balance'' \<mapsto>
              [[], [], [], replicate 10 (Str []) @ [Str ''anna-maria of the lake'', Number (Num 5)]]]\<rparr>
           targetSheetName)))
         (negativeData Number_string String_number double [\<lparr>nickname = ''a'', line = None\<rparr>] Map.empty
           (sheet_to_json (Sheets
           \<lparr>SheetNames = [''Club Member Balance''],
            Sheets = [''Club Member Balance'' \<mapsto>
              [[], [], [], replicate 10 (Str []) @ [Str ''anna-maria of the lake'', Number (Num 5)]]]\<rparr>
           targetSheetName))))
       targetSheetName)) ! 0 = 24
   \<and> (4::nat) < column_count (download_data
     (book_append_sheet book_new
       (combinedData
         (positiveData Number_string String_number double [\<lparr>nickname = ''a'', line = None\<rparr>] Map.empty
           (sheet_to_json (Sheets
           \<lparr>SheetNames = [''Club Member Balance''],
            Sheets = [''Club Member Balance'' \<mapsto>
              [[], [], [], replicate 10 (Str []) @ [Str ''anna-maria of the lake'', Number (Num 5)]]]\<rparr>
           targetSheetName)))
         (negativeData Number_string String_number double [\<lparr>nickname = ''a'', line = None\<rparr>] Map.empty
           (sheet_to_json (Sheets
           \<lparr>SheetNames = [''Club Member Balance''],
            Sheets = [''Club Member Balance'' \<mapsto>
              [[], [], [], replicate 10 (Str []) @ [Str ''anna-maria of the lake'', Number (Num 5)]]]\<rparr>
           targetSheetName))))
       targetSheetName))
   \<and> maxLen String_number (column_cells (download_data
     (book_append_sheet book_new
       (combinedData
         (positiveData Number_string String_number double [\<lparr>nickname = ''a'', line = None\<rparr>] Map.empty
           (sheet_to_json (Sheets
           \<lparr>SheetNames = [''Club Member Balance''],
            Sheets = [''Club Member Balance'' \<mapsto>
              [[], [], [], replicate 10 (Str []) @ [Str ''anna-maria of the lake'', Number (Num 5)]]]\<rparr>
           targetSheetName)))
         (negativeData Number_string String_number double [\<lparr>nickname = ''a'', line = None\<rparr>] Map.empty
           (sheet_to_json (Sheets
           \<lparr>SheetNames = [''Club Member Balance''],
            Sheets = [''Club Member Balance'' \<mapsto>
              [[], [], [], replicate 10 (Str []) @ [Str ''anna-maria of the lake'', Number (Num 5)]]]\<rparr>
           targetSheetName))))
       targetSheetName)) 4) = 10
   \<and> column_widths String_number (download_data
     (book_append_sheet book_new
       (combinedData
         (positiveData Number_string String_number double [\<lparr>nickname = ''a'', line = None\<rparr>] Map.empty
           (sheet_to_json (Sheets
           \<lparr>SheetNames = [''Club Member Balance''],
            Sheets = [''Club Member Balance'' \<mapsto>
              [[], [], [], replicate 10 (Str []) @ [Str ''anna-maria of the lake'', Number (Num 5)]]]\<rparr>
           targetSheetName)))
         (negativeData Number_string String_number double [\<lparr>nickname = ''a'', line = None\<rparr>] Map.empty
           (sheet_to_json (Sheets
           \<lparr>SheetNames = [''Club Member Balance''],
            Sheets = [''Club Member Balance'' \<mapsto>
              [[], [], [], replicate 10 (Str []) @ [Str ''anna-maria of the lake'', Number (Num 5)]]]\<rparr>
           targetSheetName))))
       targetSheetName)) ! 4 = 12
   \<and> (11::nat) < column_count (download_data
     (book_append_sheet book_new
       (combinedData
         (positiveData Number_string String_number double [\<lparr>nickname = ''a'', line = None\<rparr>] Map.empty
           (sheet_to_json (Sheets
           \<lparr>SheetNames = [''Club Member Balance''],
            Sheets = [''Club Member Balance'' \<mapsto>
              [[], [], [], replicate 10 (Str []) @ [Str ''anna-maria of the lake'', Number (Num 5)]]]\<rparr>
           targetSheetName)))
         (negativeData Number_string String_number double [\<lparr>nickname = ''a'', line = None\<rparr>] Map.empty
           (sheet_to_json (Sheets
           \<lparr>SheetNames = [''Club Member Balance''],
            Sheets = [''Club Member Balance'' \<mapsto>
              [[], [], [], replicate 10 (Str []) @ [Str ''anna-maria of the lake'', Number (Num 5)]]]\<rparr>
           targetSheetName))))
       targetSheetName))
   \<and> maxLen String_number (column_cells (download_data
     (book_append_sheet book_new
       (combinedData
         (positiveData Number_string String_number double [\<lparr>nickname = ''a'', line = None\<rparr>] Map.empty
           (sheet_to_json (Sheets
           \<lparr>SheetNames = [''Club Member Balance''],
            Sheets = [''Club Member Balance'' \<mapsto>
              [[], [], [], replicate 10 (Str []) @ [Str ''anna-maria of the lake'', Number (Num 5)]]]\<rparr>
           targetSheetName)))
         (negativeData Number_string String_number double [\<lparr>nickname = ''a'', line = None\<rparr>] Map.empty
           (sheet_to_json (Sheets
           \<lparr>SheetNames = [''Club Member Balance''],
            Sheets = [''Club Member Balance'' \<mapsto>
              [[], [], [], replicate 10 (Str []) @ [Str ''anna-maria of the lake'', Number (Num 5)]]]\<rparr>
           targetSheetName))))
       targetSheetName)) 11) = 35
   \<and> column_widths String_number (download_data
     (book_append_sheet book_new
       (combinedData
         (positiveData Number_string String_number double [\<lparr>nickname = ''a'', line = None\<rparr>] Map.empty
           (sheet_to_json (Sheets
           \<lparr>SheetNames = [''Club Member Balance''],
            Sheets = [''Club Member Balance'' \<mapsto>
              [[], [], [], replicate 10 (Str []) @ [Str ''anna-maria of the lake'', Number (Num 5)]]]\<rparr>
           targetSheetName)))
         (negativeData Number_string String_number double [\<lparr>nickname = ''a'', line = None\<rparr>] Map.empty
           (sheet_to_json (Sheets
           \<lparr>SheetNames = [''Club Member Balance''],
            Sheets = [''Club Member Balance'' \<mapsto>
              [[], [], [], replicate 10 (Str []) @ [Str ''anna-maria of the lake'', Number (Num 5)]]]\<rparr>
           targetSheetName))))
       targetSheetName)) ! 11 = 37"
proof -
  let ?wb = "\<lparr>SheetNames = [''Club Member Balance''],
        Sheets = [''Club Member Balance'' \<mapsto>
          [[], [], [], replicate 10 (Str []) @ [Str ''anna-maria of the lake'', Number (Num 5)]]]\<rparr>"
  let ?ns = "[\<lparr>nickname = ''a'', line = None\<rparr>]"
  let ?f = "(book_append_sheet book_new
     (combinedData
       (positiveData Number_string String_number double [\<lparr>nickname = ''a'', line = None\<rparr>] Map.empty
         (sheet_to_json (Sheets
         \<lparr>SheetNames = [''Club Member Balance''],
          Sheets = [''Club Member Balance'' \<mapsto>
            [[], [], [], replicate 10 (Str []) @ [Str ''anna-maria of the lake'', Number (Num 5)]]]\<rparr>
         targetSheetName)))
       (negativeData Number_string String_number double [\<lparr>nickname = ''a'', line = None\<rparr>] Map.empty
         (sheet_to_json (Sheets
         \<lparr>SheetNames = [''Club Member Balance''],
          Sheets = [''Club Member Balance'' \<mapsto>
            [[], [], [], replicate 10 (Str []) @ [Str ''anna-maria of the lake'', Number (Num 5)]]]\<rparr>
         targetSheetName))))
     targetSheetName)"
  have f: "filterWorkbookByNicknames Number_string String_number double ?wb ?ns Map.empty = Inr ?f"
    by (simp add: filterWorkbookByNicknames_def Let_def targetSheetName_def)
  have d: "download_data ?f = (combinedData
     (positiveData Number_string String_number double [\<lparr>nickname = ''a'', line = None\<rparr>] Map.empty
       (sheet_to_json (Sheets
       \<lparr>SheetNames = [''Club Member Balance''],
        Sheets = [''Club Member Balance'' \<mapsto>
          [[], [], [], replicate 10 (Str []) @ [Str ''anna-maria of the lake'', Number (Num 5)]]]\<rparr>
       targetSheetName)))
     (negativeData Number_string String_number double [\<lparr>nickname = ''a'', line = None\<rparr>] Map.empty
       (sheet_to_json (Sheets
       \<lparr>SheetNames = [''Club Member Balance''],
        Sheets = [''Club Member Balance'' \<mapsto>
          [[], [], [], replicate 10 (Str []) @ [Str ''anna-maria of the lake'', Number (Num 5)]]]\<rparr>
       targetSheetName))))"
    by (simp add: download_data_def book_append_sheet_def book_new_def sheet_to_json_def)
  have n: "column_count (combinedData
     (positiveData Number_string String_number double [\<lparr>nickname = ''a'', line = None\<rparr>] Map.empty
       (sheet_to_json (Sheets
       \<lparr>SheetNames = [''Club Member Balance''],
        Sheets = [''Club Member Balance'' \<mapsto>
          [[], [], [], replicate 10 (Str []) @ [Str ''anna-maria of the lake'', Number (Num 5)]]]\<rparr>
       targetSheetName)))
     (negativeData Number_string String_number double [\<lparr>nickname = ''a'', line = None\<rparr>] Map.empty
       (sheet_to_json (Sheets
       \<lparr>SheetNames = [''Club Member Balance''],
        Sheets = [''Club Member Balance'' \<mapsto>
          [[], [], [], replicate 10 (Str []) @ [Str ''anna-maria of the lake'', Number (Num 5)]]]\<rparr>
       targetSheetName)))) = 20"
    by code_simp
  have h: "(0::nat) < column_count (combinedData
     (positiveData Number_string String_number double [\<lparr>nickname = ''a'', line = None\<rparr>] Map.empty
       (sheet_to_json (Sheets
       \<lparr>SheetNames = [''Club Member Balance''],
        Sheets = [''Club Member Balance'' \<mapsto>
          [[], [], [], replicate 10 (Str []) @ [Str ''anna-maria of the lake'', Number (Num 5)]]]\<rparr>
       targetSheetName)))
     (negativeData Number_string String_number double [\<lparr>nickname = ''a'', line = None\<rparr>] Map.empty
       (sheet_to_json (Sheets
       \<lparr>SheetNames = [''Club Member Balance''],
        Sheets = [''Club Member Balance'' \<mapsto>
          [[], [], [], replicate 10 (Str []) @ [Str ''anna-maria of the lake'', Number (Num 5)]]]\<rparr>
       targetSheetName))))"
      "(4::nat) < column_count (combinedData
     (positiveData Number_string String_number double [\<lparr>nickname = ''a'', line = None\<rparr>] Map.empty
       (sheet_to_json (Sheets
       \<lparr>SheetNames = [''Club Member Balance''],
        Sheets = [''Club Member Balance'' \<mapsto>
          [[], [], [], replicate 10 (Str []) @ [Str ''anna-maria of the lake'', Number (Num 5)]]]\<rparr>
       targetSheetName)))
     (negativeData Number_string String_number double [\<lparr>nickname = ''a'', line = None\<rparr>] Map.empty
       (sheet_to_json (Sheets
       \<lparr>SheetNames = [''Club Member Balance''],
        Sheets = [''Club Member Balance'' \<mapsto>
          [[], [], [], replicate 10 (Str []) @ [Str ''anna-maria of the lake'', Number (Num 5)]]]\<rparr>
       targetSheetName))))"
      "(11::nat) < column_count (combinedData
     (positiveData Number_string String_number double [\<lparr>nickname = ''a'', line = None\<rparr>] Map.empty
       (sheet_to_json (Sheets
       \<lparr>SheetNames = [''Club Member Balance''],
        Sheets = [''Club Member Balance'' \<mapsto>
          [[], [], [], replicate 10 (Str []) @ [Str ''anna-maria of the lake'', Number (Num 5)]]]\<rparr>
       targetSheetName)))
     (negativeData Number_string String_number double [\<lparr>nickname = ''a'', line = None\<rparr>] Map.empty
       (sheet_to_json (Sheets
       \<lparr>SheetNames = [''Club Member Balance''],
        Sheets = [''Club Member Balance'' \<mapsto>
          [[], [], [], replicate 10 (Str []) @ [Str ''anna-maria of the lake'', Number (Num 5)]]]\<rparr>
       targetSheetName))))"
    by code_simp+
  have m: "maxLen String_number (column_cells (combinedData
     (positiveData Number_string String_number double [\<lparr>nickname = ''a'', line = None\<rparr>] Map.empty
       (sheet_to_json (Sheets
       \<lparr>SheetNames = [''Club Member Balance''],
        Sheets = [''Club Member Balance'' \<mapsto>
          [[], [], [], replicate 10 (Str []) @ [Str ''anna-maria of the lake'', Number (Num 5)]]]\<rparr>
       targetSheetName)))
     (negativeData Number_string String_number double [\<lparr>nickname = ''a'', line = None\<rparr>] Map.empty
       (sheet_to_json (Sheets
       \<lparr>SheetNames = [''Club Member Balance''],
        Sheets = [''Club Member Balance'' \<mapsto>
          [[], [], [], replicate 10 (Str []) @ [Str ''anna-maria of the lake'', Number (Num 5)]]]\<rparr>
       targetSheetName)))) 0) = 22"
      "maxLen String_number (column_cells (combinedData
     (positiveData Number_string String_number double [\<lparr>nickname = ''a'', line = None\<rparr>] Map.empty
       (sheet_to_json (Sheets
       \<lparr>SheetNames = [''Club Member Balance''],
        Sheets = [''Club Member Balance'' \<mapsto>
          [[], [], [], replicate 10 (Str []) @ [Str ''anna-maria of the lake'', Number (Num 5)]]]\<rparr>
       targetSheetName)))
     (negativeData Number_string String_number double [\<lparr>nickname = ''a'', line = None\<rparr>] Map.empty
       (sheet_to_json (Sheets
       \<lparr>SheetNames = [''Club Member Balance''],
        Sheets = [''Club Member Balance'' \<mapsto>
          [[], [], [], replicate 10 (Str []) @ [Str ''anna-maria of the lake'', Number (Num 5)]]]\<rparr>
       targetSheetName)))) 4) = 10"
      "maxLen String_number (column_cells (combinedData
     (positiveData Number_string String_number double [\<lparr>nickname = ''a'', line = None\<rparr>] Map.empty
       (sheet_to_json (Sheets
       \<lparr>SheetNames = [''Club Member Balance''],
        Sheets = [''Club Member Balance'' \<mapsto>
          [[], [], [], replicate 10 (Str []) @ [Str ''anna-maria of the lake'', Number (Num 5)]]]\<rparr>
       targetSheetName)))
     (negativeData Number_string String_number double [\<lparr>nickname = ''a'', line = None\<rparr>] Map.empty
       (sheet_to_json (Sheets
       \<lparr>SheetNames = [''Club Member Balance''],
        Sheets = [''Club Member Balance'' \<mapsto>
          [[], [], [], replicate 10 (Str []) @ [Str ''anna-maria of the lake'', Number (Num 5)]]]\<rparr>
       targetSheetName)))) 11) = 35"
    by code_simp+
  note c0 = C9_column_width [OF f, where j = 0 and ns' = String_number]
  note c4 = C9_column_width [OF f, where j = 4 and ns' = String_number]
  note c11 = C9_column_width [OF f, where j = 11 and ns' = String_number]
  show ?thesis
    using f n h m c0 c4 c11 by (simp only: d) simp
qed

section \<open>What a call writes\<close>

lemma load_append_new [simp]: "load (length h) (h @ x # t) = Some x"
  by (simp add: load_def)

lemma load_old: "load a h = Some v \<Longrightarrow> load a (h @ t) = Some v"
  by (simp add: load_def nth_append split: if_splits)

lemma push_pos:
  "push_at (length h0) rd (h0 @ [ORows p, ORows n]) = h0 @ [ORows (p @ [rd]), ORows n]"
  by (simp add: push_at_def)

lemma push_neg:
  "push_at (Suc (length h0)) rd (h0 @ [ORows p, ORows n]) = h0 @ [ORows p, ORows (n @ [rd])]"
  by (simp add: push_at_def load_def nth_append list_update_append)

lemma foldl_process_row_st:
  "foldl (process_row_st tn ns fl nicknames nameMapping (length h0) (Suc (length h0)))
       (h0 @ [ORows p, ORows n]) rows
   = h0 @ [ORows (fst (foldl (process_row tn ns fl nicknames nameMapping) (p, n) rows)),
           ORows (snd (foldl (process_row tn ns fl nicknames nameMapping) (p, n) rows))]"
proof (induction rows arbitrary: p n)
  case Nil
  show ?case by simp
next
  case (Cons r rows)
  show ?case
  proof (cases "matchingNickname ns nicknames r")
    case None
    then show ?thesis
      using Cons.IH [of p n] by (simp add: process_row_None process_row_st_def)
  next
    case (Some m)
    show ?thesis
    proof (cases "js_ge0 (profitLoss_of tn fl r m)")
      case True
      then show ?thesis
        using Some Cons.IH [of "p @ [rowData tn ns fl nameMapping r m]" n]
        by (simp add: process_row_Some process_row_st_def push_pos)
    next
      case False
      then show ?thesis
        using Some Cons.IH [of p "n @ [rowData tn ns fl nameMapping r m]"]
        by (simp add: process_row_Some process_row_st_def push_neg)
    qed
  qed
qed

lemma sort_pos:
  "sort_at tn fl (length h0) (h0 @ [ORows p, ORows n])
     = h0 @ [ORows (js_sort (by_profitLoss tn fl) p), ORows n]"
  by (simp add: sort_at_def)

lemma sort_neg:
  "sort_at tn fl (Suc (length h0)) (h0 @ [ORows p, ORows n])
     = h0 @ [ORows p, ORows (js_sort (by_profitLoss tn fl) n)]"
  by (simp add: sort_at_def load_def nth_append list_update_append)

lemma rows_at_pos: "rows_at (length h0) (h0 @ [ORows p, ORows n]) = p"
  by (simp add: rows_at_def)

lemma rows_at_neg: "rows_at (Suc (length h0)) (h0 @ [ORows p, ORows n]) = n"
  by (simp add: rows_at_def load_def nth_append)

lemma append_sheet_new:
  "append_sheet_at (length h) ws name (h @ OBook b # t)
     = h @ OBook (book_append_sheet b ws name) # t"
  by (simp add: append_sheet_at_def)

lemma st_run:
  assumes "load wa (h @ [OBook book_new]) = Some (OBook workbook)"
      "load na (h @ [OBook book_new]) = Some (ONicknames nicknames)"
      "load ma (h @ [OBook book_new]) = Some (OMapping nameMapping)"
  shows "filterWorkbookByNicknames_st tn ns fl wa na ma h =
     (case filterWorkbookByNicknames tn ns fl workbook nicknames nameMapping of
        Inl e \<Rightarrow> (h @ [OBook book_new], Inl e)
      | Inr out \<Rightarrow>
          (h @ OBook out #
             (if nicknames = [] then []
              else [ORows (positiveData tn ns fl nicknames nameMapping
                             (sheet_to_json (Sheets workbook targetSheetName))),
                    ORows (negativeData tn ns fl nicknames nameMapping
                             (sheet_to_json (Sheets workbook targetSheetName)))]),
           Inr (length h)))"
proof -
  let ?h1 = "h @ [OBook book_new]"
  let ?J = "sheet_to_json (Sheets workbook targetSheetName)"
  let ?P = "positiveData tn ns fl nicknames nameMapping ?J"
  let ?N = "negativeData tn ns fl nicknames nameMapping ?J"
  let ?sp = "fst (scan tn ns fl nicknames nameMapping ?J)"
  let ?sn = "snd (scan tn ns fl nicknames nameMapping ?J)"
  show ?thesis
  proof (cases "targetSheetName \<in> set (SheetNames workbook)")
    case False
    then show ?thesis
      using assms
      by (simp add: filterWorkbookByNicknames_st_def filterWorkbookByNicknames_def alloc_def)
  next
    case True
    show ?thesis
    proof (cases "nicknames = []")
      case e: True
      then show ?thesis
        using assms True append_sheet_new [of h "[]" targetSheetName book_new "[]"]
        by (simp add: filterWorkbookByNicknames_st_def filterWorkbookByNicknames_def alloc_def
            Let_def)
    next
      case ne: False
      have n1: "length (?h1 @ [ORows []]) = Suc (length ?h1)" by simp
      have n2: "(?h1 @ [ORows []]) @ [ORows []] = ?h1 @ [ORows [], ORows []]" by simp
      have fold: "foldl (process_row_st tn ns fl nicknames nameMapping (length ?h1) (Suc (length ?h1)))
           (?h1 @ [ORows [], ORows []]) (drop 3 ?J) = ?h1 @ [ORows ?sp, ORows ?sn]"
        unfolding scan_def by (rule foldl_process_row_st)
      have s1: "sort_at tn fl (length ?h1) (?h1 @ [ORows ?sp, ORows ?sn]) = ?h1 @ [ORows ?P, ORows ?sn]"
        unfolding positiveData_def by (rule sort_pos)
      have s2: "sort_at tn fl (Suc (length ?h1)) (?h1 @ [ORows ?P, ORows ?sn]) = ?h1 @ [ORows ?P, ORows ?N]"
        unfolding negativeData_def by (rule sort_neg)
      have r1: "rows_at (length ?h1) (?h1 @ [ORows ?P, ORows ?N]) = ?P"
        by (rule rows_at_pos)
      have r2: "rows_at (Suc (length ?h1)) (?h1 @ [ORows ?P, ORows ?N]) = ?N"
        by (rule rows_at_neg)
      have a: "append_sheet_at (length h) ws targetSheetName (?h1 @ t)
                 = h @ OBook (book_append_sheet book_new ws targetSheetName) # t" for ws t
        using append_sheet_new [of h ws targetSheetName book_new t] by simp
      show ?thesis
        using True ne
        unfolding filterWorkbookByNicknames_st_def filterWorkbookByNicknames_def alloc_def Let_def
        by (simp only: prod.case assms option.case obj.case if_not_P if_P not_not n1 n2 fold
            s1 s2 r1 r2 a length_0_conv sum.case if_False simp_thms)
    qed
  qed
qed

lemma st_wrong_kind:
  assumes "\<not> (\<exists>w n m. load wa (h @ [OBook book_new]) = Some (OBook w)
              \<and> load na (h @ [OBook book_new]) = Some (ONicknames n)
              \<and> load ma (h @ [OBook book_new]) = Some (OMapping m))"
  shows "filterWorkbookByNicknames_st tn ns fl wa na ma h
           = (h @ [OBook book_new], Inl (Error ''TypeError''))"
proof -
  let ?h1 = "h @ [OBook book_new]"
  have "(case (load wa ?h1, load na ?h1, load ma ?h1) of
          (Some (OBook workbook), Some (ONicknames nicknames), Some (OMapping nameMapping)) \<Rightarrow>
            f workbook nicknames nameMapping
        | _ \<Rightarrow> d) = d"
    for f :: "WorkBook \<Rightarrow> NicknameWithLine list \<Rightarrow> (string \<rightharpoonup> string) \<Rightarrow> store \<times> (error + nat)"
      and d
    using assms by (auto split: option.splits obj.splits)
  then show ?thesis
    by (simp add: filterWorkbookByNicknames_st_def alloc_def)
qed

text \<open>
  C10. On the store, a call leaves every object that existed before it unchanged, whether
  it returns or throws: the store after the call is the store before it followed by the
  new objects. When the three arguments are a workbook, a list of entries and a mapping,
  the call throws what the function on values gives as error, or returns the address of a
  new workbook that holds what the function on values returns.
\<close>

theorem C10_inputs_unchanged:
  "take (length h) (fst (filterWorkbookByNicknames_st tn ns fl wa na ma h)) = h
   \<and> (load wa h = Some (OBook workbook) \<and> load na h = Some (ONicknames nicknames)
        \<and> load ma h = Some (OMapping nameMapping) \<longrightarrow>
       (case filterWorkbookByNicknames tn ns fl workbook nicknames nameMapping of
          Inl e \<Rightarrow> snd (filterWorkbookByNicknames_st tn ns fl wa na ma h) = Inl e
        | Inr out \<Rightarrow>
            snd (filterWorkbookByNicknames_st tn ns fl wa na ma h) = Inr (length h)
            \<and> load (length h) (fst (filterWorkbookByNicknames_st tn ns fl wa na ma h))
                = Some (OBook out)))"
proof (intro conjI impI)
  let ?h1 = "h @ [OBook book_new]"
  show "take (length h) (fst (filterWorkbookByNicknames_st tn ns fl wa na ma h)) = h"
  proof (cases "\<exists>w n m. load wa ?h1 = Some (OBook w) \<and> load na ?h1 = Some (ONicknames n)
              \<and> load ma ?h1 = Some (OMapping m)")
    case True
    then obtain w n m where l: "load wa ?h1 = Some (OBook w)" "load na ?h1 = Some (ONicknames n)"
        "load ma ?h1 = Some (OMapping m)" by blast
    show ?thesis
      by (cases "filterWorkbookByNicknames tn ns fl w n m") (simp_all add: st_run [OF l])
  next
    case False
    then show ?thesis by (simp add: st_wrong_kind)
  qed
next
  let ?h1 = "h @ [OBook book_new]"
  assume a: "load wa h = Some (OBook workbook) \<and> load na h = Some (ONicknames nicknames)
        \<and> load ma h = Some (OMapping nameMapping)"
  then have l: "load wa ?h1 = Some (OBook workbook)" "load na ?h1 = Some (ONicknames nicknames)"
        "load ma ?h1 = Some (OMapping nameMapping)"
    by (simp_all add: load_old)
  show "case filterWorkbookByNicknames tn ns fl workbook nicknames nameMapping of
          Inl e \<Rightarrow> snd (filterWorkbookByNicknames_st tn ns fl wa na ma h) = Inl e
        | Inr out \<Rightarrow>
            snd (filterWorkbookByNicknames_st tn ns fl wa na ma h) = Inr (length h)
            \<and> load (length h) (fst (filterWorkbookByNicknames_st tn ns fl wa na ma h))
                = Some (OBook out)"
    by (cases "filterWorkbookByNicknames tn ns fl workbook nicknames nameMapping")
      (simp_all add: st_run [OF l])
qed

theorem C10_inputs_unchanged_witness:
  "load 0 [OBook \<lparr>SheetNames = [''Club Member Balance''],
                  Sheets = [''Club Member Balance'' \<mapsto>
                    [[], [], [], replicate 10 (Str []) @ [Str ''anna'', Number (Num 5)]]]\<rparr>,
           ONicknames [\<lparr>nickname = ''a'', line = None\<rparr>], OMapping Map.empty]
     = Some (OBook \<lparr>SheetNames = [''Club Member Balance''],
                  Sheets = [''Club Member Balance'' \<mapsto>
                    [[], [], [], replicate 10 (Str []) @ [Str ''anna'', Number (Num 5)]]]\<rparr>)
   \<and> take 3 (fst (filterWorkbookByNicknames_st Number_string String_number double 0 1 2
        [OBook \<lparr>SheetNames = [''Club Member Balance''],
                  Sheets = [''Club Member Balance'' \<mapsto>
                    [[], [], [], replicate 10 (Str []) @ [Str ''anna'', Number (Num 5)]]]\<rparr>,
           ONicknames [\<lparr>nickname = ''a'', line = None\<rparr>], OMapping Map.empty]))
     = [OBook \<lparr>SheetNames = [''Club Member Balance''],
                  Sheets = [''Club Member Balance'' \<mapsto>
                    [[], [], [], replicate 10 (Str []) @ [Str ''anna'', Number (Num 5)]]]\<rparr>,
           ONicknames [\<lparr>nickname = ''a'', line = None\<rparr>], OMapping Map.empty]
   \<and> snd (filterWorkbookByNicknames_st Number_string String_number double 0 1 2
        [OBook \<lparr>SheetNames = [''Club Member Balance''],
                  Sheets = [''Club Member Balance'' \<mapsto>
                    [[], [], [], replicate 10 (Str []) @ [Str ''anna'', Number (Num 5)]]]\<rparr>,
           ONicknames [\<lparr>nickname = ''a'', line = None\<rparr>], OMapping Map.empty])
     = Inr 3"
proof -
  let ?wb = "\<lparr>SheetNames = [''Club Member Balance''],
                  Sheets = [''Club Member Balance'' \<mapsto>
                    [[], [], [], replicate 10 (Str []) @ [Str ''anna'', Number (Num 5)]]]\<rparr>"
  let ?ns = "[\<lparr>nickname = ''a'', line = None\<rparr>]"
  let ?h = "[OBook ?wb, ONicknames ?ns, OMapping Map.empty]"
  have l: "load 0 ?h = Some (OBook ?wb)" "load 1 ?h = Some (ONicknames ?ns)"
      "load 2 ?h = Some (OMapping Map.empty)" "length ?h = 3"
    by (simp_all add: load_def)
  have "\<exists>out. filterWorkbookByNicknames Number_string String_number double ?wb ?ns Map.empty = Inr out"
    by (simp add: filterWorkbookByNicknames_def targetSheetName_def Let_def)
  then obtain out
    where o: "filterWorkbookByNicknames Number_string String_number double ?wb ?ns Map.empty = Inr out"
    by blast
  note t = C10_inputs_unchanged [where h = ?h and tn = Number_string and ns = String_number
      and fl = double and wa = 0 and na = 1 and ma = 2 and workbook = ?wb and nicknames = ?ns
      and nameMapping = Map.empty]
  from t l o show ?thesis by (simp only: sum.case)
qed

end
